theory Spec2Isabelle
  imports Complex_Main "HOL-Library.Word" "HOL-Library.Log_Nat"
begin

unbundle bit_operations_syntax

section \<open>IEEE-754 binary floating point, as the Go code uses it\<close>

text \<open>
  The kernels are generic over \<^verbatim>\<open>T Float\<close>, that is \<^verbatim>\<open>float32\<close> or \<^verbatim>\<open>float64\<close>.
  A floating-point datum is modelled by its class and, when finite, by the exact rational
  it denotes; negative zero is a value of its own.  Every arithmetic operation computes the
  exact result and rounds it once to the format, to nearest with ties to even, as IEEE-754
  prescribes and as Go performs it on amd64 (no fused multiply-add).  NaN payloads are not
  distinguished.
\<close>

datatype fmt = Float32 | Float64

fun frac_bits :: "fmt \<Rightarrow> nat" where
  "frac_bits Float32 = 23"
| "frac_bits Float64 = 52"

fun exp_bits :: "fmt \<Rightarrow> nat" where
  "exp_bits Float32 = 8"
| "exp_bits Float64 = 11"

fun bias :: "fmt \<Rightarrow> int" where
  "bias Float32 = 127"
| "bias Float64 = 1023"

definition emin :: "fmt \<Rightarrow> int" where
  "emin T = 1 - bias T"

definition emax :: "fmt \<Rightarrow> int" where
  "emax T = bias T"

datatype fl = NaN | PInf | NInf | NZero | Fin rat

definition pow2 :: "int \<Rightarrow> rat" where
  "pow2 k = (if 0 \<le> k then 2 ^ nat k else 1 / 2 ^ nat (- k))"

text \<open>\<open>ilog2 q\<close> is the binary exponent of a positive rational: \<open>2^e \<le> q < 2^(e+1)\<close>.\<close>

definition ilog2 :: "rat \<Rightarrow> int" where
  "ilog2 q = (let (a, b) = quotient_of q; d = bitlen a - bitlen b
              in if pow2 d \<le> q then d else d - 1)"

text \<open>Rounding a non-negative rational to the nearest integer, ties to even.\<close>

definition rne :: "rat \<Rightarrow> int" where
  "rne s = (let n = \<lfloor>s\<rfloor>; r = s - of_int n
            in if r < 1 / 2 then n else if 1 / 2 < r then n + 1
               else if even n then n else n + 1)"

text \<open>Rounding a positive rational to the format: nearest, ties to even, gradual
  underflow, overflow to infinity.  \<open>u\<close> is the spacing of the format at \<open>q\<close>.\<close>

definition round_pos :: "fmt \<Rightarrow> rat \<Rightarrow> fl" where
  "round_pos T q =
     (let e = max (ilog2 q) (emin T);
          u = pow2 (e - int (frac_bits T));
          v = of_int (rne (q / u)) * u
      in if pow2 (emax T + 1) \<le> v then PInf else Fin v)"

fun fneg :: "fl \<Rightarrow> fl" where
  "fneg NaN = NaN"
| "fneg PInf = NInf"
| "fneg NInf = PInf"
| "fneg NZero = Fin 0"
| "fneg (Fin q) = (if q = 0 then NZero else Fin (- q))"

text \<open>\<open>fround T v\<close> is the conversion \<^verbatim>\<open>T(v)\<close> of a floating-point value to the format
  \<open>T\<close>; it is also the final rounding step of every operation.\<close>

fun fround :: "fmt \<Rightarrow> fl \<Rightarrow> fl" where
  "fround T (Fin q) =
     (if q = 0 then Fin 0 else if 0 < q then round_pos T q else fneg (round_pos T (- q)))"
| "fround T v = v"

fun is_nan :: "fl \<Rightarrow> bool" where
  "is_nan NaN = True"
| "is_nan _ = False"

fun is_inf :: "fl \<Rightarrow> bool" where
  "is_inf PInf = True"
| "is_inf NInf = True"
| "is_inf _ = False"

fun is_zero :: "fl \<Rightarrow> bool" where
  "is_zero NZero = True"
| "is_zero (Fin q) = (q = 0)"
| "is_zero _ = False"

fun is_finite :: "fl \<Rightarrow> bool" where
  "is_finite NZero = True"
| "is_finite (Fin q) = True"
| "is_finite _ = False"

text \<open>The sign bit (\<open>True\<close> is negative) and the rational value of a finite datum.\<close>

fun fsign :: "fl \<Rightarrow> bool" where
  "fsign NInf = True"
| "fsign NZero = True"
| "fsign (Fin q) = (q < 0)"
| "fsign _ = False"

fun rval :: "fl \<Rightarrow> rat" where
  "rval (Fin q) = q"
| "rval _ = 0"

definition signed_inf :: "bool \<Rightarrow> fl" where
  "signed_inf s = (if s then NInf else PInf)"

definition signed_zero :: "bool \<Rightarrow> fl" where
  "signed_zero s = (if s then NZero else Fin 0)"

text \<open>\<open>near64 z q\<close>: the finite datum \<open>z\<close> is the exact value \<open>q\<close> up to one rounding to
  \<^verbatim>\<open>float64\<close> (relative error \<open>2^-53\<close>, absolute error \<open>2^-1075\<close> in the subnormal range),
  with the sign of \<open>q\<close>.  It is used to bound the rounding errors of a computation.\<close>

definition near64 :: "fl \<Rightarrow> rat \<Rightarrow> bool" where
  "near64 z q \<longleftrightarrow> is_finite z \<and> \<bar>rval z - q\<bar> \<le> \<bar>q\<bar> / 2 ^ 53 + 1 / 2 ^ 1075 \<and>
     (0 \<le> q \<longrightarrow> 0 \<le> rval z) \<and> (q \<le> 0 \<longrightarrow> rval z \<le> 0)"

subsection \<open>Comparisons\<close>

text \<open>Go's \<^verbatim>\<open>==\<close>, \<^verbatim>\<open><\<close>, \<^verbatim>\<open>>\<close>, \<^verbatim>\<open><=\<close> on floats: every comparison with NaN is false,
  the two zeros are equal.\<close>

fun flt :: "fl \<Rightarrow> fl \<Rightarrow> bool" where
  "flt NaN _ = False"
| "flt _ NaN = False"
| "flt _ NInf = False"
| "flt NInf _ = True"
| "flt PInf _ = False"
| "flt _ PInf = True"
| "flt a b = (rval a < rval b)"

fun feq :: "fl \<Rightarrow> fl \<Rightarrow> bool" where
  "feq NaN _ = False"
| "feq _ NaN = False"
| "feq PInf b = (b = PInf)"
| "feq NInf b = (b = NInf)"
| "feq a PInf = False"
| "feq a NInf = False"
| "feq a b = (rval a = rval b)"

definition fgt :: "fl \<Rightarrow> fl \<Rightarrow> bool" where
  "fgt a b = flt b a"

definition fle :: "fl \<Rightarrow> fl \<Rightarrow> bool" where
  "fle a b = (flt a b \<or> feq a b)"

definition fne :: "fl \<Rightarrow> fl \<Rightarrow> bool" where
  "fne a b = (\<not> feq a b)"

subsection \<open>Arithmetic\<close>

fun add_exact :: "fl \<Rightarrow> fl \<Rightarrow> fl" where
  "add_exact NaN _ = NaN"
| "add_exact _ NaN = NaN"
| "add_exact PInf NInf = NaN"
| "add_exact NInf PInf = NaN"
| "add_exact PInf _ = PInf"
| "add_exact _ PInf = PInf"
| "add_exact NInf _ = NInf"
| "add_exact _ NInf = NInf"
| "add_exact NZero NZero = NZero"
| "add_exact a b = Fin (rval a + rval b)"

definition fadd :: "fmt \<Rightarrow> fl \<Rightarrow> fl \<Rightarrow> fl" where
  "fadd T a b = fround T (add_exact a b)"

definition fsub :: "fmt \<Rightarrow> fl \<Rightarrow> fl \<Rightarrow> fl" where
  "fsub T a b = fadd T a (fneg b)"

definition fmul :: "fmt \<Rightarrow> fl \<Rightarrow> fl \<Rightarrow> fl" where
  "fmul T a b =
     (if is_nan a \<or> is_nan b then NaN
      else if is_inf a \<or> is_inf b then
        (if is_zero a \<or> is_zero b then NaN else signed_inf (fsign a \<noteq> fsign b))
      else if is_zero a \<or> is_zero b then signed_zero (fsign a \<noteq> fsign b)
      else fround T (Fin (rval a * rval b)))"

definition fdiv :: "fmt \<Rightarrow> fl \<Rightarrow> fl \<Rightarrow> fl" where
  "fdiv T a b =
     (if is_nan a \<or> is_nan b then NaN
      else if is_inf a then (if is_inf b then NaN else signed_inf (fsign a \<noteq> fsign b))
      else if is_inf b then signed_zero (fsign a \<noteq> fsign b)
      else if is_zero b then (if is_zero a then NaN else signed_inf (fsign a \<noteq> fsign b))
      else if is_zero a then signed_zero (fsign a \<noteq> fsign b)
      else fround T (Fin (rval a / rval b)))"


text \<open>\<^verbatim>\<open>math.Mod\<close>: the exact remainder of truncating division, with the sign of the
  dividend.\<close>

definition fmod :: "fl \<Rightarrow> fl \<Rightarrow> fl" where
  "fmod a b =
     (if is_zero b \<or> is_inf a \<or> is_nan a \<or> is_nan b then NaN
      else if is_inf b then a
      else if is_zero a then a
      else (let x = \<bar>rval a\<bar>; y = \<bar>rval b\<bar>; r = x - of_int \<lfloor>x / y\<rfloor> * y
            in if r = 0 then signed_zero (fsign a) else Fin (if fsign a then - r else r)))"

text \<open>\<^verbatim>\<open>math.Floor\<close>.\<close>

fun ffloor :: "fl \<Rightarrow> fl" where
  "ffloor (Fin q) = Fin (of_int \<lfloor>q\<rfloor>)"
| "ffloor v = v"

text \<open>\<^verbatim>\<open>math.Sqrt\<close> is the correctly rounded square root of a \<^verbatim>\<open>float64\<close>.\<close>

function isqrt :: "int \<Rightarrow> int" where
  "isqrt n = (if n < 2 then n
              else (let r = 2 * isqrt (n div 4) in if (r + 1) * (r + 1) \<le> n then r + 1 else r))"
  by pat_completeness auto
termination
  by (relation "measure nat") auto

declare isqrt.simps [simp del]

definition round_sqrt :: "fmt \<Rightarrow> rat \<Rightarrow> fl" where
  "round_sqrt T q =
     (let e = max (ilog2 q div 2) (emin T);
          u = pow2 (e - int (frac_bits T));
          t = q / (u * u);
          n = isqrt \<lfloor>t\<rfloor>;
          h = (of_int n + 1 / 2) * (of_int n + 1 / 2);
          m = (if t < h then n else if h < t then n + 1 else if even n then n else n + 1)
      in Fin (of_int m * u))"

fun fsqrt :: "fl \<Rightarrow> fl" where
  "fsqrt NaN = NaN"
| "fsqrt PInf = PInf"
| "fsqrt NInf = NaN"
| "fsqrt NZero = NZero"
| "fsqrt (Fin q) = (if q = 0 then Fin 0 else if q < 0 then NaN else round_sqrt Float64 q)"

text \<open>\<^verbatim>\<open>math.Ldexp(frac, exp)\<close>: \<open>frac \<times> 2^exp\<close>, rounded once.\<close>

fun Ldexp :: "fl \<Rightarrow> int \<Rightarrow> fl" where
  "Ldexp (Fin q) k = fround Float64 (Fin (q * pow2 k))"
| "Ldexp v k = v"

text \<open>A numeric constant of the source: Go evaluates constant expressions exactly and
  rounds the result to the type of the expression it is used in.\<close>

definition const :: "fmt \<Rightarrow> rat \<Rightarrow> fl" where
  "const T q = fround T (Fin q)"

text \<open>Conversion of an integer to a float, \<^verbatim>\<open>float64(k)\<close> or \<^verbatim>\<open>T(n)\<close>.\<close>

definition of_go_int :: "fmt \<Rightarrow> int \<Rightarrow> fl" where
  "of_go_int T k = fround T (Fin (of_int k))"

text \<open>Conversion \<^verbatim>\<open>int(f)\<close> of a finite float in range: truncation.  (Go leaves the
  result for NaN, infinities and out-of-range values to the implementation; the code
  converts only after its range checks.)\<close>

fun to_go_int :: "fl \<Rightarrow> int" where
  "to_go_int (Fin q) = (if 0 \<le> q then \<lfloor>q\<rfloor> else - \<lfloor>- q\<rfloor>)"
| "to_go_int _ = 0"

subsection \<open>Bit patterns\<close>

text \<open>\<open>decode T n\<close> reads the bit pattern \<open>n\<close> (sign, biased exponent, fraction) as a
  value of the format; \<open>encode T v\<close> is the bit pattern of a value of the format.\<close>

definition decode :: "fmt \<Rightarrow> int \<Rightarrow> fl" where
  "decode T n =
     (let f = frac_bits T; w = exp_bits T;
          s = odd (n div 2 ^ (f + w));
          E = (n div 2 ^ f) mod 2 ^ w;
          M = n mod 2 ^ f
      in if E = 2 ^ w - 1 then (if M = 0 then signed_inf s else NaN)
         else (let mag = (if E = 0 then of_int M * pow2 (emin T - int f)
                          else of_int (2 ^ f + M) * pow2 (E - bias T - int f))
               in if s then (if mag = 0 then NZero else Fin (- mag)) else Fin mag))"

definition mag_bits :: "fmt \<Rightarrow> rat \<Rightarrow> int" where
  "mag_bits T q =
     (if q = 0 then 0
      else (let f = frac_bits T; e = ilog2 q
            in if e < emin T then \<lfloor>q / pow2 (emin T - int f)\<rfloor>
               else (e + bias T) * 2 ^ f + (\<lfloor>q / pow2 (e - int f)\<rfloor> - 2 ^ f)))"

fun encode :: "fmt \<Rightarrow> fl \<Rightarrow> int" where
  "encode T NaN = (2 ^ exp_bits T - 1) * 2 ^ frac_bits T + 2 ^ (frac_bits T - 1)"
| "encode T PInf = (2 ^ exp_bits T - 1) * 2 ^ frac_bits T"
| "encode T NInf = 2 ^ (frac_bits T + exp_bits T) + (2 ^ exp_bits T - 1) * 2 ^ frac_bits T"
| "encode T NZero = 2 ^ (frac_bits T + exp_bits T)"
| "encode T (Fin q) = (if q < 0 then 2 ^ (frac_bits T + exp_bits T) else 0) + mag_bits T \<bar>q\<bar>"

definition Float64bits :: "fl \<Rightarrow> 64 word" where
  "Float64bits v = word_of_int (encode Float64 v)"

definition Float64frombits :: "64 word \<Rightarrow> fl" where
  "Float64frombits w = decode Float64 (uint w)"

definition Float32bits :: "fl \<Rightarrow> 32 word" where
  "Float32bits v = word_of_int (encode Float32 v)"

definition Float32frombits :: "32 word \<Rightarrow> fl" where
  "Float32frombits w = decode Float32 (uint w)"

text \<open>\<^verbatim>\<open>math.IsInf(f, sign)\<close>.\<close>

definition IsInf :: "fl \<Rightarrow> int \<Rightarrow> bool" where
  "IsInf f sign = ((0 \<le> sign \<and> f = PInf) \<or> (sign \<le> 0 \<and> f = NInf))"


section \<open>Precision tiers and dispatch (types.go, dispatch.go)\<close>

text \<open>\<^verbatim>\<open>type Precision int\<close>: any integer is a value of the type; four are named.\<close>

type_synonym Precision = int

definition PrecisionAuto :: Precision where "PrecisionAuto = 0"
definition PrecisionFast :: Precision where "PrecisionFast = 1"
definition PrecisionBalanced :: Precision where "PrecisionBalanced = 2"
definition PrecisionHigh :: Precision where "PrecisionHigh = 3"

definition IsValid :: "Precision \<Rightarrow> bool" where
  "IsValid p = (p = PrecisionAuto \<or> p = PrecisionFast \<or> p = PrecisionBalanced \<or> p = PrecisionHigh)"

definition normalizePrecision :: "Precision \<Rightarrow> Precision" where
  "normalizePrecision p =
     (if p = PrecisionAuto then PrecisionBalanced
      else if \<not> IsValid p then PrecisionBalanced
      else p)"

definition selectImpl :: "(fl \<Rightarrow> fl) \<Rightarrow> (fl \<Rightarrow> fl) \<Rightarrow> (fl \<Rightarrow> fl) \<Rightarrow> Precision \<Rightarrow> fl \<Rightarrow> fl" where
  "selectImpl fast balanced high prec =
     (let p = normalizePrecision prec
      in if p = PrecisionFast then fast
         else if p = PrecisionBalanced \<or> p = PrecisionAuto then balanced
         else if p = PrecisionHigh then high
         else balanced)"

section \<open>Square root and inverse square root (sqrt.go, invsqrt.go)\<close>

text \<open>The type switch on \<^verbatim>\<open>T\<close> selects the 32-bit or the 64-bit seed.\<close>

fun sqrtInitialGuess :: "fmt \<Rightarrow> fl \<Rightarrow> fl" where
  "sqrtInitialGuess Float32 x =
     (let ux = Float32bits x; ux = drop_bit 1 ux + 0x1fc00000 in Float32frombits ux)"
| "sqrtInitialGuess Float64 x =
     (let ux = Float64bits x; ux = drop_bit 1 ux + 0x1ff8000000000000 in Float64frombits ux)"

text \<open>The loop \<^verbatim>\<open>for range iterations\<close> runs its body \<open>iterations\<close> times.\<close>

primrec babylonian_loop :: "fmt \<Rightarrow> fl \<Rightarrow> nat \<Rightarrow> fl \<Rightarrow> fl" where
  "babylonian_loop T x 0 y = y"
| "babylonian_loop T x (Suc n) y =
     babylonian_loop T x n (fmul T (Fin (1 / 2)) (fadd T y (fdiv T x y)))"

definition sqrtBabylonian :: "fmt \<Rightarrow> fl \<Rightarrow> int \<Rightarrow> fl" where
  "sqrtBabylonian T x iterations =
     (if feq x (Fin 0) then Fin 0
      else if flt x (Fin 0) then NaN
      else if fne x x then x
      else if IsInf x 0 then x
      else (let y = sqrtInitialGuess T x;
                y = (if feq y (Fin 0) then x else y)
            in babylonian_loop T x (nat iterations) y))"

definition sqrtFast :: "fmt \<Rightarrow> fl \<Rightarrow> fl" where
  "sqrtFast T x = sqrtBabylonian T x 1"

definition sqrtBalanced :: "fmt \<Rightarrow> fl \<Rightarrow> fl" where
  "sqrtBalanced T x = sqrtBabylonian T x 2"

definition sqrtHigh :: "fmt \<Rightarrow> fl \<Rightarrow> fl" where
  "sqrtHigh T x = sqrtBabylonian T x 3"

definition Sqrt :: "fmt \<Rightarrow> fl \<Rightarrow> Precision \<Rightarrow> fl" where
  "Sqrt T x prec = selectImpl (sqrtFast T) (sqrtBalanced T) (sqrtHigh T) prec x"

fun invSqrtQuake :: "fmt \<Rightarrow> fl \<Rightarrow> fl" where
  "invSqrtQuake Float32 x =
     (let i = Float32bits x; i = 0x5f3759df - drop_bit 1 i in Float32frombits i)"
| "invSqrtQuake Float64 x =
     (let i = Float64bits x; i = 0x5fe6eb50c7b537a9 - drop_bit 1 i in Float64frombits i)"

primrec newton_loop :: "fmt \<Rightarrow> fl \<Rightarrow> nat \<Rightarrow> fl \<Rightarrow> fl" where
  "newton_loop T x 0 y = y"
| "newton_loop T x (Suc n) y =
     newton_loop T x n
       (fmul T y (fsub T (Fin (3 / 2)) (fmul T (fmul T (fmul T (Fin (1 / 2)) x) y) y)))"

definition invSqrtQuakeNR :: "fmt \<Rightarrow> fl \<Rightarrow> int \<Rightarrow> fl" where
  "invSqrtQuakeNR T x iters =
     (if feq x (Fin 0) then PInf
      else if flt x (Fin 0) then NaN
      else if fne x x then x
      else if IsInf x 0 then Fin 0
      else newton_loop T x (nat iters) (invSqrtQuake T x))"

definition invSqrtFast :: "fmt \<Rightarrow> fl \<Rightarrow> fl" where
  "invSqrtFast T x = invSqrtQuakeNR T x 1"

definition invSqrtBalanced :: "fmt \<Rightarrow> fl \<Rightarrow> fl" where
  "invSqrtBalanced T x = invSqrtQuakeNR T x 2"

definition invSqrtHigh :: "fmt \<Rightarrow> fl \<Rightarrow> fl" where
  "invSqrtHigh T x = invSqrtQuakeNR T x 3"

definition InvSqrt :: "fmt \<Rightarrow> fl \<Rightarrow> Precision \<Rightarrow> fl" where
  "InvSqrt T x prec = selectImpl (invSqrtFast T) (invSqrtBalanced T) (invSqrtHigh T) prec x"


section \<open>Logarithm and exponential (log.go, exp.go)\<close>

definition ln2 :: rat where
  "ln2 = 693147180559945309417232121458176568 / 10 ^ 36"

definition invLn2 :: rat where
  "invLn2 = 1442695040888963407359924681001892137 / 10 ^ 36"

definition maxLogFloat64 :: rat where
  "maxLogFloat64 = 709782712893384 / 10 ^ 12"

definition minLogFloat64 :: rat where
  "minLogFloat64 = - (745133219101941 / 10 ^ 12)"

text \<open>The range reduction of \<^verbatim>\<open>Log\<close>: exponent and mantissa are read from the bit
  pattern of \<^verbatim>\<open>float64(x)\<close>; the result is the pair \<open>(m, e)\<close> after
  \<^verbatim>\<open>m *= 0.5; e++\<close>.  The exponent \<open>e\<close> is a Go \<^verbatim>\<open>int\<close> between \<open>-1022\<close> and
  \<open>1025\<close>, so no wrap-around can happen.\<close>

definition log_reduce :: "fl \<Rightarrow> fl \<times> int" where
  "log_reduce xf =
     (let bits = Float64bits xf;
          expBits = uint (drop_bit 52 bits AND 0x7ff) - 1023;
          mant = bits AND (push_bit 52 1 - 1);
          m = fadd Float64 (Fin 1)
                (fmul Float64 (of_go_int Float64 (uint mant)) (const Float64 (1 / 2 ^ 52)));
          e = expBits;
          m = fmul Float64 m (Fin (1 / 2));
          e = e + 1
      in (m, e))"

text \<open>The unrolled series of \<^verbatim>\<open>Log\<close>, from \<^verbatim>\<open>y := (m - 1) / (m + 1)\<close> to the
  return value in \<^verbatim>\<open>float64\<close>, before the conversion to \<^verbatim>\<open>T\<close>.\<close>

definition log_series :: "Precision \<Rightarrow> fl \<Rightarrow> int \<Rightarrow> fl" where
  "log_series prec m e =
     (let y = fdiv Float64 (fsub Float64 m (Fin 1)) (fadd Float64 m (Fin 1));
          y2 = fmul Float64 y y;
          sum = y;
          p = fmul Float64 y y2;
          sum =
            (if normalizePrecision prec = PrecisionFast then
               fadd Float64 sum (fmul Float64 p (const Float64 (1 / 3)))
             else if normalizePrecision prec = PrecisionHigh then
               (let sum = fadd Float64 sum (fmul Float64 p (const Float64 (1 / 3)));
                    p = fmul Float64 p y2;
                    sum = fadd Float64 sum (fmul Float64 p (const Float64 (1 / 5)));
                    p = fmul Float64 p y2;
                    sum = fadd Float64 sum (fmul Float64 p (const Float64 (1 / 7)));
                    p = fmul Float64 p y2;
                    sum = fadd Float64 sum (fmul Float64 p (const Float64 (1 / 9)));
                    p = fmul Float64 p y2
                in fadd Float64 sum (fmul Float64 p (const Float64 (1 / 11))))
             else
               (let sum = fadd Float64 sum (fmul Float64 p (const Float64 (1 / 3)));
                    p = fmul Float64 p y2;
                    sum = fadd Float64 sum (fmul Float64 p (const Float64 (1 / 5)));
                    p = fmul Float64 p y2
                in fadd Float64 sum (fmul Float64 p (const Float64 (1 / 7)))));
          lnm = fmul Float64 (Fin 2) sum
      in fadd Float64 lnm (fmul Float64 (of_go_int Float64 e) (const Float64 ln2)))"

definition Log :: "fmt \<Rightarrow> fl \<Rightarrow> Precision \<Rightarrow> fl" where
  "Log T x prec =
     (if fne x x then x
      else if feq x (Fin 0) then NInf
      else if flt x (Fin 0) then NaN
      else if IsInf x 1 then PInf
      else (let (m, e) = log_reduce x in fround T (log_series prec m e)))"

text \<open>The decomposition the specification describes for \<^verbatim>\<open>Log\<close>: \<open>x = m \<sqdot> 2^e\<close> with
  \<open>m\<close> in \<open>[1/2, 1)\<close>, for a positive rational \<open>x\<close>; and the result \<open>2\<sqdot>S(y) + e\<sqdot>ln2\<close>
  computed from it, with the series evaluated as the code evaluates it.\<close>

definition frexp_spec :: "rat \<Rightarrow> rat \<times> int" where
  "frexp_spec q = (q / pow2 (ilog2 q + 1), ilog2 q + 1)"

definition Log_spec :: "fmt \<Rightarrow> rat \<Rightarrow> Precision \<Rightarrow> fl" where
  "Log_spec T q prec = (let (m, e) = frexp_spec q in fround T (log_series prec (Fin m) e))"

definition expPoly :: "fl \<Rightarrow> Precision \<Rightarrow> fl" where
  "expPoly r prec =
     (let c = const Float64; add = fadd Float64; mul = fmul Float64;
          fast = add (Fin 1) (mul r (add (Fin 1) (mul r (add (c (1 / 2)) (mul r (c (1 / 6)))))));
          balanced =
            add (Fin 1) (mul r (add (Fin 1) (mul r (add (c (1 / 2)) (mul r (add (c (1 / 6))
              (mul r (add (c (1 / 24)) (mul r (c (1 / 120)))))))))));
          high =
            add (Fin 1) (mul r (add (Fin 1) (mul r (add (c (1 / 2)) (mul r (add (c (1 / 6))
              (mul r (add (c (1 / 24)) (mul r (add (c (1 / 120)) (mul r (add (c (1 / 720))
                (mul r (c (1 / 5040)))))))))))))))
      in if prec = PrecisionFast then fast
         else if prec = PrecisionAuto \<or> prec = PrecisionBalanced then balanced
         else if prec = PrecisionHigh then high
         else balanced)"

text \<open>One step \<^verbatim>\<open>c + r*t\<close> of the Horner scheme of \<^verbatim>\<open>expPoly\<close>, named for the proofs.\<close>

definition horner_step :: "fl \<Rightarrow> fl \<Rightarrow> fl \<Rightarrow> fl" where
  "horner_step r c t = fadd Float64 c (fmul Float64 r t)"

text \<open>After the clamps \<open>k\<close> lies between \<open>-1075\<close> and \<open>1024\<close>; it is modelled as an
  unbounded integer.  \<^verbatim>\<open>uint64(k+1023) << 52\<close> is the bit pattern of \<open>2^k\<close>.\<close>

definition Exp :: "fmt \<Rightarrow> fl \<Rightarrow> Precision \<Rightarrow> fl" where
  "Exp T x prec =
     (if fne x x then x
      else (let xf = x in
        if IsInf xf 1 then PInf
        else if IsInf xf (- 1) then Fin 0
        else if fgt xf (const Float64 maxLogFloat64) then PInf
        else if flt xf (const Float64 minLogFloat64) then Fin 0
        else (let k = to_go_int (ffloor (fadd Float64 (fmul Float64 xf (const Float64 invLn2))
                                           (Fin (1 / 2))));
                  r = fsub Float64 xf (fmul Float64 (of_go_int Float64 k) (const Float64 ln2));
                  expr = expPoly r (normalizePrecision prec);
                  res = (if - 1023 < k \<and> k < 1024
                         then fmul Float64 expr (Float64frombits (push_bit 52 (word_of_int (k + 1023))))
                         else Ldexp expr k)
              in fround T res)))"

section \<open>Power, root and integer power (power.go)\<close>

text \<open>Modelled from the spec: \<^verbatim>\<open>power.go\<close> calls \<^verbatim>\<open>Ln(base)\<close>, a one-argument
  \<^verbatim>\<open>Exp\<close> and \<^verbatim>\<open>Sqrt2(value)\<close>, none of which is among the sources.  The specification
  describes \<^verbatim>\<open>Power\<close> as \<open>Exp(exponent \<sqdot> Log(base))\<close>, the root for \<open>n = 2\<close> as the
  dedicated square-root kernel, and the form without a precision argument as
  equivalent to passing \<^verbatim>\<open>Auto\<close>.\<close>

definition Ln :: "fmt \<Rightarrow> fl \<Rightarrow> fl" where
  "Ln T x = Log T x PrecisionAuto"

definition Exp1 :: "fmt \<Rightarrow> fl \<Rightarrow> fl" where
  "Exp1 T x = Exp T x PrecisionAuto"

definition Sqrt2 :: "fmt \<Rightarrow> fl \<Rightarrow> fl" where
  "Sqrt2 T x = Sqrt T x PrecisionAuto"

definition Power :: "fmt \<Rightarrow> fl \<Rightarrow> fl \<Rightarrow> fl" where
  "Power T base exponent =
     (if fle base (Fin 0) then
        (if flt base (Fin 0) then NaN
         else if feq exponent (Fin 0) then Fin 1
         else if fgt exponent (Fin 0) then Fin 0
         else PInf)
      else if feq exponent (Fin 0) then Fin 1
      else if feq exponent (Fin 1) then base
      else Exp1 T (fmul T exponent (Ln T base)))"

text \<open>A Go \<^verbatim>\<open>int\<close> is a 64-bit two's complement integer.\<close>

type_synonym go_int = "64 word"

definition MinInt64 :: go_int where
  "MinInt64 = 0x8000000000000000"

definition Root :: "fmt \<Rightarrow> fl \<Rightarrow> go_int \<Rightarrow> fl" where
  "Root T v n =
     (if n = 0 then NaN
      else if n = 1 then v
      else if flt v (Fin 0) then NaN
      else if feq v (Fin 0) then Fin 0
      else if n = 2 then Sqrt2 T v
      else Power T v (fdiv T (Fin 1) (of_go_int T (sint n))))"

text \<open>The binary-exponentiation loop of \<^verbatim>\<open>IntPower\<close>; \<open>n\<close> is positive while the loop
  runs, so \<^verbatim>\<open>n%2\<close> and \<^verbatim>\<open>n /= 2\<close> are the mathematical remainder and quotient.\<close>

function pow_loop :: "fmt \<Rightarrow> fl \<Rightarrow> fl \<Rightarrow> int \<Rightarrow> fl" where
  "pow_loop T result currentBase n =
     (if 0 < n then
        pow_loop T (if n mod 2 = 1 then fmul T result currentBase else result)
          (fmul T currentBase currentBase) (n div 2)
      else result)"
  by pat_completeness auto
termination
  by (relation "measure (\<lambda>(T, r, c, n). nat n)") auto

declare pow_loop.simps [simp del]

text \<open>\<^verbatim>\<open>IntPower\<close> calls itself on \<^verbatim>\<open>-exponent\<close>, which wraps around for the least
  \<^verbatim>\<open>int\<close>: there the recursion never ends, and the model has no result (\<open>None\<close>).\<close>

partial_function (option) IntPower :: "fmt \<Rightarrow> fl \<Rightarrow> go_int \<Rightarrow> fl option" where
  "IntPower T base exponent =
     (if exponent = 0 then Some (Fin 1)
      else if exponent = 1 then Some base
      else if feq base (Fin 0) then (if 0 <s exponent then Some (Fin 0) else Some PInf)
      else if exponent <s 0 then
        Option.bind (IntPower T base (- exponent)) (\<lambda>r. Some (fdiv T (Fin 1) r))
      else Some (pow_loop T (Fin 1) base (sint exponent)))"

declare IntPower.simps [code]


section \<open>Trigonometric kernels (trig.go, tan.go, arctrig.go)\<close>

text \<open>\<^verbatim>\<open>math.Pi\<close> is the untyped constant below; \<open>c64\<close> rounds a constant expression to
  \<^verbatim>\<open>float64\<close>.\<close>

definition Pi :: rat where
  "Pi = 314159265358979323846264338327950288419716939937510582097494459 / 10 ^ 62"

abbreviation c64 :: "rat \<Rightarrow> fl" where
  "c64 \<equiv> const Float64"

abbreviation add64 :: "fl \<Rightarrow> fl \<Rightarrow> fl" where
  "add64 \<equiv> fadd Float64"

abbreviation sub64 :: "fl \<Rightarrow> fl \<Rightarrow> fl" where
  "sub64 \<equiv> fsub Float64"

abbreviation mul64 :: "fl \<Rightarrow> fl \<Rightarrow> fl" where
  "mul64 \<equiv> fmul Float64"

abbreviation div64 :: "fl \<Rightarrow> fl \<Rightarrow> fl" where
  "div64 \<equiv> fdiv Float64"

text \<open>Every sine kernel starts with the same statements: reduction modulo \<open>2\<pi>\<close>, then
  to \<open>[-\<pi>, \<pi>]\<close>, then to \<open>[-\<pi>/2, \<pi>/2]\<close>.  The variable \<^verbatim>\<open>sign\<close> stays \<^verbatim>\<open>T(1.0)\<close>.\<close>

definition sin_reduce :: "fl \<Rightarrow> fl" where
  "sin_reduce x =
     (let xf = fmod x (c64 (2 * Pi));
          xf = (if fgt xf (c64 Pi) then sub64 xf (c64 (2 * Pi))
                else if flt xf (c64 (- Pi)) then add64 xf (c64 (2 * Pi))
                else xf)
      in if fgt xf (c64 (Pi / 2)) then sub64 (c64 Pi) xf
         else if flt xf (c64 (- Pi / 2)) then sub64 (c64 (- Pi)) xf
         else xf)"

definition sin3Term :: "fmt \<Rightarrow> fl \<Rightarrow> fl" where
  "sin3Term T x =
     (let xf = sin_reduce x;
          x2 = mul64 xf xf; x3 = mul64 xf x2; x5 = mul64 x3 x2;
          result = add64 (sub64 xf (div64 x3 (Fin 6))) (div64 x5 (Fin 120))
      in fmul T (Fin 1) (fround T result))"

definition sin5Term :: "fmt \<Rightarrow> fl \<Rightarrow> fl" where
  "sin5Term T x =
     (let xf = sin_reduce x;
          x2 = mul64 xf xf; x3 = mul64 xf x2; x5 = mul64 x3 x2; x7 = mul64 x5 x2;
          x9 = mul64 x7 x2;
          result = add64 (sub64 (add64 (sub64 xf (div64 x3 (Fin 6))) (div64 x5 (Fin 120)))
                           (div64 x7 (Fin 5040))) (div64 x9 (Fin 362880))
      in fmul T (Fin 1) (fround T result))"

definition sin7Term :: "fmt \<Rightarrow> fl \<Rightarrow> fl" where
  "sin7Term T x =
     (let xf = sin_reduce x;
          x2 = mul64 xf xf; x3 = mul64 xf x2; x5 = mul64 x3 x2; x7 = mul64 x5 x2;
          x9 = mul64 x7 x2; x11 = mul64 x9 x2; x13 = mul64 x11 x2;
          result = add64 (sub64 (add64 (sub64 (add64 (sub64 xf (div64 x3 (Fin 6)))
                     (div64 x5 (Fin 120))) (div64 x7 (Fin 5040))) (div64 x9 (Fin 362880)))
                     (div64 x11 (Fin 39916800))) (div64 x13 (Fin 6227020800))
      in fmul T (Fin 1) (fround T result))"

text \<open>Every cosine kernel starts with: reduction modulo \<open>2\<pi>\<close>, to \<open>[0, 2\<pi>]\<close>, to
  \<open>[0, \<pi>]\<close>.\<close>

definition cos_reduce :: "fl \<Rightarrow> fl" where
  "cos_reduce x =
     (let xf = fmod x (c64 (2 * Pi));
          xf = (if flt xf (Fin 0) then add64 xf (c64 (2 * Pi)) else xf)
      in if fgt xf (c64 Pi) then sub64 (c64 (2 * Pi)) xf else xf)"

definition cos3Term :: "fmt \<Rightarrow> fl \<Rightarrow> fl" where
  "cos3Term T x =
     (let xf = cos_reduce x;
          x2 = mul64 xf xf; x4 = mul64 x2 x2;
          result = add64 (sub64 (Fin 1) (div64 x2 (Fin 2))) (div64 x4 (Fin 24))
      in fround T result)"

definition cos5Term :: "fmt \<Rightarrow> fl \<Rightarrow> fl" where
  "cos5Term T x =
     (let xf = cos_reduce x;
          x2 = mul64 xf xf; x4 = mul64 x2 x2; x6 = mul64 x4 x2; x8 = mul64 x6 x2;
          result = add64 (sub64 (add64 (sub64 (Fin 1) (div64 x2 (Fin 2))) (div64 x4 (Fin 24)))
                     (div64 x6 (Fin 720))) (div64 x8 (Fin 40320))
      in fround T result)"

definition cos7Term :: "fmt \<Rightarrow> fl \<Rightarrow> fl" where
  "cos7Term T x =
     (let xf = cos_reduce x;
          x2 = mul64 xf xf; x4 = mul64 x2 x2; x6 = mul64 x4 x2; x8 = mul64 x6 x2;
          x10 = mul64 x8 x2; x12 = mul64 x10 x2;
          result = add64 (sub64 (add64 (sub64 (add64 (sub64 (Fin 1) (div64 x2 (Fin 2)))
                     (div64 x4 (Fin 24))) (div64 x6 (Fin 720))) (div64 x8 (Fin 40320)))
                     (div64 x10 (Fin 3628800))) (div64 x12 (Fin 479001600))
      in fround T result)"

definition sec3Term :: "fmt \<Rightarrow> fl \<Rightarrow> fl" where
  "sec3Term T x = (let cosVal = cos3Term T x in fdiv T (Fin 1) cosVal)"

definition csc3Term :: "fmt \<Rightarrow> fl \<Rightarrow> fl" where
  "csc3Term T x = (let sinVal = sin3Term T x in fdiv T (Fin 1) sinVal)"

definition sec5Term :: "fmt \<Rightarrow> fl \<Rightarrow> fl" where
  "sec5Term T x = (let cosVal = cos5Term T x in fdiv T (Fin 1) cosVal)"

definition csc5Term :: "fmt \<Rightarrow> fl \<Rightarrow> fl" where
  "csc5Term T x = (let sinVal = sin5Term T x in fdiv T (Fin 1) sinVal)"

definition sec7Term :: "fmt \<Rightarrow> fl \<Rightarrow> fl" where
  "sec7Term T x = (let cosVal = cos7Term T x in fdiv T (Fin 1) cosVal)"

definition csc7Term :: "fmt \<Rightarrow> fl \<Rightarrow> fl" where
  "csc7Term T x = (let sinVal = sin7Term T x in fdiv T (Fin 1) sinVal)"

text \<open>The dispatchers switch on the precision as it is passed, without normalising it.
  (The 4- and 6-term sine and cosine kernels of \<^verbatim>\<open>trig.go\<close> are not reached by any
  dispatcher and are not modelled.)\<close>

definition Sin :: "fmt \<Rightarrow> fl \<Rightarrow> Precision \<Rightarrow> fl" where
  "Sin T x prec =
     (if prec = PrecisionAuto \<or> prec = PrecisionBalanced then sin5Term T x
      else if prec = PrecisionFast then sin3Term T x
      else if prec = PrecisionHigh then sin7Term T x
      else sin5Term T x)"

definition Cos :: "fmt \<Rightarrow> fl \<Rightarrow> Precision \<Rightarrow> fl" where
  "Cos T x prec =
     (if prec = PrecisionAuto \<or> prec = PrecisionBalanced then cos5Term T x
      else if prec = PrecisionFast then cos3Term T x
      else if prec = PrecisionHigh then cos7Term T x
      else cos5Term T x)"

definition Sec :: "fmt \<Rightarrow> fl \<Rightarrow> Precision \<Rightarrow> fl" where
  "Sec T x prec =
     (if prec = PrecisionAuto \<or> prec = PrecisionBalanced then sec5Term T x
      else if prec = PrecisionFast then sec3Term T x
      else if prec = PrecisionHigh then sec7Term T x
      else sec5Term T x)"

definition Csc :: "fmt \<Rightarrow> fl \<Rightarrow> Precision \<Rightarrow> fl" where
  "Csc T x prec =
     (if prec = PrecisionAuto \<or> prec = PrecisionBalanced then csc5Term T x
      else if prec = PrecisionFast then csc3Term T x
      else if prec = PrecisionHigh then csc7Term T x
      else csc5Term T x)"

text \<open>Every tangent kernel starts with: reduction modulo \<open>\<pi>\<close> to \<open>[0, \<pi>)\<close>, folding to
  \<open>[0, \<pi>/2]\<close> with a sign, folding to \<open>[0, \<pi>/4]\<close> with a reciprocal flag.  The result is
  the triple of the reduced argument, \<^verbatim>\<open>sign\<close> and \<^verbatim>\<open>reciprocal\<close>.\<close>

definition tan_reduce :: "fl \<Rightarrow> fl \<times> fl \<times> bool" where
  "tan_reduce x =
     (let xf = fmod x (c64 Pi);
          xf = (if flt xf (Fin 0) then add64 xf (c64 Pi) else xf);
          (xf, sign) = (if fgt xf (c64 (Pi / 2))
                        then (sub64 (c64 (Pi / 2)) (sub64 xf (c64 (Pi / 2))), Fin (- 1))
                        else (xf, Fin 1))
      in if fgt xf (c64 (Pi / 4)) then (sub64 (c64 (Pi / 2)) xf, sign, True)
         else (xf, sign, False))"

definition tan_finish :: "fmt \<Rightarrow> fl \<Rightarrow> fl \<Rightarrow> bool \<Rightarrow> fl" where
  "tan_finish T sign result reciprocal =
     (let result = (if reciprocal then div64 (Fin 1) result else result)
      in fround T (mul64 sign result))"

definition tan2Term :: "fmt \<Rightarrow> fl \<Rightarrow> fl" where
  "tan2Term T x =
     (let (xf, sign, reciprocal) = tan_reduce x;
          x2 = mul64 xf xf; x3 = mul64 xf x2;
          result = add64 xf (div64 x3 (Fin 3))
      in tan_finish T sign result reciprocal)"

definition tan3Term :: "fmt \<Rightarrow> fl \<Rightarrow> fl" where
  "tan3Term T x =
     (let (xf, sign, reciprocal) = tan_reduce x;
          x2 = mul64 xf xf; x3 = mul64 xf x2; x5 = mul64 x3 x2;
          result = add64 (add64 xf (div64 x3 (Fin 3))) (div64 (mul64 (Fin 2) x5) (Fin 15))
      in tan_finish T sign result reciprocal)"

definition tan4Term :: "fmt \<Rightarrow> fl \<Rightarrow> fl" where
  "tan4Term T x =
     (let (xf, sign, reciprocal) = tan_reduce x;
          x2 = mul64 xf xf; x3 = mul64 xf x2; x5 = mul64 x3 x2; x7 = mul64 x5 x2;
          result = add64 (add64 (add64 xf (div64 x3 (Fin 3))) (div64 (mul64 (Fin 2) x5) (Fin 15)))
                     (div64 (mul64 (Fin 17) x7) (Fin 315))
      in tan_finish T sign result reciprocal)"

definition tan6Term :: "fmt \<Rightarrow> fl \<Rightarrow> fl" where
  "tan6Term T x =
     (let (xf, sign, reciprocal) = tan_reduce x;
          x2 = mul64 xf xf; x3 = mul64 xf x2; x5 = mul64 x3 x2; x7 = mul64 x5 x2;
          x9 = mul64 x7 x2; x11 = mul64 x9 x2;
          result = add64 (add64 (add64 (add64 (add64 xf (div64 x3 (Fin 3)))
                     (div64 (mul64 (Fin 2) x5) (Fin 15))) (div64 (mul64 (Fin 17) x7) (Fin 315)))
                     (div64 (mul64 (Fin 62) x9) (Fin 2835))) (div64 (mul64 (Fin 1382) x11) (Fin 155925))
      in tan_finish T sign result reciprocal)"

definition cotan2Term :: "fmt \<Rightarrow> fl \<Rightarrow> fl" where
  "cotan2Term T x = (let tanVal = tan2Term T x in fdiv T (Fin 1) tanVal)"

definition cotan3Term :: "fmt \<Rightarrow> fl \<Rightarrow> fl" where
  "cotan3Term T x = (let tanVal = tan3Term T x in fdiv T (Fin 1) tanVal)"

definition cotan4Term :: "fmt \<Rightarrow> fl \<Rightarrow> fl" where
  "cotan4Term T x = (let tanVal = tan4Term T x in fdiv T (Fin 1) tanVal)"

definition cotan6Term :: "fmt \<Rightarrow> fl \<Rightarrow> fl" where
  "cotan6Term T x = (let tanVal = tan6Term T x in fdiv T (Fin 1) tanVal)"

definition Tan :: "fmt \<Rightarrow> fl \<Rightarrow> Precision \<Rightarrow> fl" where
  "Tan T x prec =
     (if prec = PrecisionFast then tan2Term T x
      else if prec = PrecisionBalanced then tan3Term T x
      else if prec = PrecisionHigh then tan6Term T x
      else tan3Term T x)"

definition Cotan :: "fmt \<Rightarrow> fl \<Rightarrow> Precision \<Rightarrow> fl" where
  "Cotan T x prec =
     (if prec = PrecisionFast then cotan2Term T x
      else if prec = PrecisionBalanced then cotan3Term T x
      else if prec = PrecisionHigh then cotan6Term T x
      else cotan3Term T x)"

text \<open>The inverse trigonometric kernels compute in \<^verbatim>\<open>T\<close>.\<close>

definition arctan3Term :: "fmt \<Rightarrow> fl \<Rightarrow> fl" where
  "arctan3Term T x =
     (let x2 = fmul T x x; x3 = fmul T x2 x; x5 = fmul T x3 x2
      in fadd T (fsub T x (fdiv T x3 (Fin 3))) (fdiv T x5 (Fin 5)))"

definition arctan6Term :: "fmt \<Rightarrow> fl \<Rightarrow> fl" where
  "arctan6Term T x =
     (let x2 = fmul T x x; x3 = fmul T x2 x; x5 = fmul T x3 x2; x7 = fmul T x5 x2;
          x9 = fmul T x7 x2; x11 = fmul T x9 x2
      in fsub T (fadd T (fsub T (fadd T (fsub T x (fdiv T x3 (Fin 3))) (fdiv T x5 (Fin 5)))
           (fdiv T x7 (Fin 7))) (fdiv T x9 (Fin 9))) (fdiv T x11 (Fin 11)))"

definition arccotan3Term :: "fmt \<Rightarrow> fl \<Rightarrow> fl" where
  "arccotan3Term T x = fsub T (fdiv T (const T Pi) (Fin 2)) (arctan3Term T x)"

definition arccotan6Term :: "fmt \<Rightarrow> fl \<Rightarrow> fl" where
  "arccotan6Term T x = fsub T (fdiv T (const T Pi) (Fin 2)) (arctan6Term T x)"

definition arccos3Term :: "fmt \<Rightarrow> fl \<Rightarrow> fl" where
  "arccos3Term T x =
     (if fgt x (const T (- (1 / 2))) \<and> flt x (const T (1 / 2)) then
        (let x2 = fmul T x x; x3 = fmul T x2 x; x5 = fmul T x3 x2;
             arcsinX = fadd T (fadd T x (fdiv T x3 (Fin 6))) (fdiv T (fmul T (Fin 3) x5) (Fin 40))
         in fsub T (fdiv T (const T Pi) (Fin 2)) arcsinX)
      else
        (let arg = fround T (fsqrt (fdiv T (fsub T (Fin 1) x) (Fin 2)));
             arg2 = fmul T arg arg; arg3 = fmul T arg2 arg; arg5 = fmul T arg3 arg2;
             arcsinArg = fadd T (fadd T arg (fdiv T arg3 (Fin 6)))
                           (fdiv T (fmul T (Fin 3) arg5) (Fin 40))
         in fmul T (Fin 2) arcsinArg))"

definition arcsin6 :: "fmt \<Rightarrow> fl \<Rightarrow> fl" where
  "arcsin6 T x =
     (let x2 = fmul T x x; x3 = fmul T x2 x; x5 = fmul T x3 x2; x7 = fmul T x5 x2;
          x9 = fmul T x7 x2; x11 = fmul T x9 x2
      in fadd T (fadd T (fadd T (fadd T (fadd T x (fdiv T x3 (Fin 6)))
           (fdiv T (fmul T (Fin 3) x5) (Fin 40))) (fdiv T (fmul T (Fin 15) x7) (Fin 336)))
           (fdiv T (fmul T (Fin 105) x9) (Fin 3456))) (fdiv T (fmul T (Fin 945) x11) (Fin 42240)))"

text \<open>Both branches of \<^verbatim>\<open>arccos6Term\<close> evaluate the same six-term arcsine polynomial
  (\<open>arcsin6\<close>), on \<open>x\<close> and on \<^verbatim>\<open>arg\<close>.\<close>

definition arccos6Term :: "fmt \<Rightarrow> fl \<Rightarrow> fl" where
  "arccos6Term T x =
     (if fgt x (const T (- (1 / 2))) \<and> flt x (const T (1 / 2)) then
        (let arcsinX = arcsin6 T x in fsub T (fdiv T (const T Pi) (Fin 2)) arcsinX)
      else
        (let arg = fround T (fsqrt (fdiv T (fsub T (Fin 1) x) (Fin 2)));
             arcsinArg = arcsin6 T arg
         in fmul T (Fin 2) arcsinArg))"

definition Arctan :: "fmt \<Rightarrow> fl \<Rightarrow> Precision \<Rightarrow> fl" where
  "Arctan T x prec =
     (if prec = PrecisionAuto \<or> prec = PrecisionFast \<or> prec = PrecisionBalanced
      then arctan3Term T x
      else if prec = PrecisionHigh then arctan6Term T x
      else arctan3Term T x)"

definition Arccotan :: "fmt \<Rightarrow> fl \<Rightarrow> Precision \<Rightarrow> fl" where
  "Arccotan T x prec =
     (if prec = PrecisionAuto \<or> prec = PrecisionFast \<or> prec = PrecisionBalanced
      then arccotan3Term T x
      else if prec = PrecisionHigh then arccotan6Term T x
      else arccotan3Term T x)"

definition Arccos :: "fmt \<Rightarrow> fl \<Rightarrow> Precision \<Rightarrow> fl" where
  "Arccos T x prec =
     (if prec = PrecisionAuto \<or> prec = PrecisionFast \<or> prec = PrecisionBalanced
      then arccos3Term T x
      else if prec = PrecisionHigh then arccos6Term T x
      else arccos3Term T x)"


section \<open>Properties of the floating-point operations\<close>

subsection \<open>NaN is absorbing and compares false\<close>

lemma fne_self [simp]: "fne x x = (x = NaN)"
  by (cases x) (simp_all add: fne_def)

lemma flt_NaN_right [simp]: "flt a NaN = False"
  by (cases a) simp_all

lemma feq_NaN_right [simp]: "feq a NaN = False"
  by (cases a) simp_all

lemma fgt_NaN [simp]: "fgt NaN b = False" "fgt a NaN = False"
  by (simp_all add: fgt_def)

lemma fle_NaN [simp]: "fle NaN b = False" "fle a NaN = False"
  by (simp_all add: fle_def)

lemma fadd_NaN [simp]: "fadd T NaN b = NaN" "fadd T a NaN = NaN"
  by (cases a; simp add: fadd_def)+

lemma fneg_NaN_iff [simp]: "(fneg a = NaN) = (a = NaN)"
  by (cases a) simp_all

lemma fsub_NaN [simp]: "fsub T NaN b = NaN" "fsub T a NaN = NaN"
  by (simp_all add: fsub_def)

lemma fmul_NaN [simp]: "fmul T NaN b = NaN" "fmul T a NaN = NaN"
  by (simp_all add: fmul_def)

lemma fdiv_NaN [simp]: "fdiv T NaN b = NaN" "fdiv T a NaN = NaN"
  by (simp_all add: fdiv_def)

lemma fmod_NaN [simp]: "fmod NaN b = NaN" "fmod a NaN = NaN"
  by (simp_all add: fmod_def)

lemma IsInf_NaN [simp]: "IsInf NaN s = False"
  by (simp add: IsInf_def)

lemma selectImpl_cases:
  "selectImpl f b h p = f \<or> selectImpl f b h p = b \<or> selectImpl f b h p = h"
  by (simp add: selectImpl_def Let_def)

lemma Sqrt_cases:
  "Sqrt T x p = sqrtBabylonian T x 1 \<or> Sqrt T x p = sqrtBabylonian T x 2 \<or> Sqrt T x p = sqrtBabylonian T x 3"
  using selectImpl_cases [of "sqrtFast T" "sqrtBalanced T" "sqrtHigh T" p]
  by (auto simp: Sqrt_def sqrtFast_def sqrtBalanced_def sqrtHigh_def fun_eq_iff)

lemma sqrtBabylonian_NaN [simp]: "sqrtBabylonian T NaN k = NaN"
  by (simp add: sqrtBabylonian_def)

lemma Sqrt_NaN: "Sqrt T NaN p = NaN"
  using Sqrt_cases [of T NaN p] by auto

lemma sin_reduce_NaN [simp]: "sin_reduce NaN = NaN"
  by (simp add: sin_reduce_def Let_def)
lemma cos_reduce_NaN [simp]: "cos_reduce NaN = NaN"
  by (simp add: cos_reduce_def Let_def)
lemma tan_reduce_NaN [simp]: "tan_reduce NaN = (NaN, Fin 1, False)"
  by (simp add: tan_reduce_def Let_def)
lemma Sin_NaN: "Sin T NaN p = NaN"
  by (simp add: Sin_def sin3Term_def sin5Term_def sin7Term_def Let_def)
lemma Cos_NaN: "Cos T NaN p = NaN"
  by (simp add: Cos_def cos3Term_def cos5Term_def cos7Term_def Let_def)
lemma Tan_NaN: "Tan T NaN p = NaN"
  by (simp add: Tan_def tan2Term_def tan3Term_def tan6Term_def tan_finish_def Let_def)
lemma Arccos_NaN: "Arccos T NaN p = NaN"
  by (simp add: Arccos_def arccos3Term_def arccos6Term_def arcsin6_def Let_def)
lemma Log_NaN: "Log T NaN p = NaN"
  by (simp add: Log_def)
lemma Exp_NaN: "Exp T NaN p = NaN"
  by (simp add: Exp_def)

subsection \<open>Binary exponents and rounding\<close>

lemma pow2_powi: "pow2 k = 2 powi k"
  by (simp add: pow2_def power_int_def field_simps)

lemma pow2_pos [simp]: "0 < pow2 k"
  by (simp add: pow2_powi)

lemma pow2_add: "pow2 (a + b) = pow2 a * pow2 b"
  by (simp add: pow2_powi power_int_add)

lemma pow2_mono: "a \<le> b \<Longrightarrow> pow2 a \<le> pow2 b"
  by (simp add: pow2_powi power_int_increasing)

lemma pow2_strict_mono: "a < b \<Longrightarrow> pow2 a < pow2 b"
  by (simp add: pow2_powi power_int_strict_increasing)

lemma pow2_less_iff: "pow2 a < pow2 b \<longleftrightarrow> a < b"
  using pow2_strict_mono [of a b] pow2_mono [of b a] by (cases "a < b") auto

lemma pow2_0 [simp]: "pow2 0 = 1"
  by (simp add: pow2_def)

lemma pow2_of_nat: "pow2 (int n) = 2 ^ n"
  by (simp add: pow2_def)

lemma pow2_nonneg: "0 \<le> k \<Longrightarrow> pow2 k = of_int (2 ^ nat k)"
  by (simp add: pow2_def)

lemma bitlen_rat_bounds:
  assumes "0 < a"
  shows "pow2 (bitlen a - 1) \<le> of_int a" and "of_int a < pow2 (bitlen a)"
proof -
  have l: "1 \<le> bitlen a"
    using assms bitlen_eq_zero_iff [of a] bitlen_nonneg [of a] by linarith
  have "pow2 (bitlen a - 1) = of_int (2 ^ nat (bitlen a - 1))"
    using l by (intro pow2_nonneg) simp
  also have "\<dots> \<le> of_int a"
    using bitlen_bounds [OF assms] by (simp only: of_int_le_iff)
  finally show "pow2 (bitlen a - 1) \<le> of_int a" .
  have "(of_int a :: rat) < of_int (2 ^ nat (bitlen a))"
    using bitlen_bounds [OF assms] by (simp only: of_int_less_iff)
  also have "\<dots> = pow2 (bitlen a)"
    using l by (intro pow2_nonneg [symmetric]) simp
  finally show "of_int a < pow2 (bitlen a)" .
qed

lemma ilog2_bounds:
  assumes "0 < q"
  shows "pow2 (ilog2 q) \<le> q" and "q < pow2 (ilog2 q + 1)"
proof -
  obtain a b where ab: "quotient_of q = (a, b)" by (cases "quotient_of q")
  then have b: "0 < b" and q: "q = of_int a / of_int b"
    using quotient_of_denom_pos quotient_of_div by blast+
  with assms have a: "0 < a"
    by (simp add: zero_less_divide_iff)
  define d where "d = bitlen a - bitlen b"
  note A = bitlen_rat_bounds [OF a]
  note B = bitlen_rat_bounds [OF b]
  have bpos: "(0::rat) < of_int b" using b by simp
  have up: "q < pow2 (d + 1)"
  proof -
    have "of_int a < pow2 (bitlen a - (bitlen b - 1)) * pow2 (bitlen b - 1)"
      using A(2) by (simp flip: pow2_add)
    also have "\<dots> \<le> pow2 (bitlen a - (bitlen b - 1)) * of_int b"
      using B(1) by (simp add: mult_left_mono less_imp_le)
    finally show ?thesis
      using bpos by (simp add: q d_def pos_divide_less_eq algebra_simps)
  qed
  have low: "pow2 (d - 1) < q"
  proof -
    have "pow2 (d - 1) * of_int b < pow2 (d - 1) * pow2 (bitlen b)"
      using B(2) by (simp add: mult_strict_left_mono)
    also have "\<dots> = pow2 (bitlen a - 1)"
      by (simp add: d_def flip: pow2_add)
    also have "\<dots> \<le> of_int a" by (rule A(1))
    finally show ?thesis
      using bpos by (simp add: q pos_less_divide_eq)
  qed
  have il: "ilog2 q = (if pow2 d \<le> q then d else d - 1)"
    by (simp add: ilog2_def ab d_def Let_def)
  show "pow2 (ilog2 q) \<le> q"
    using low by (simp add: il less_imp_le)
  show "q < pow2 (ilog2 q + 1)"
    using up by (simp add: il not_le)
qed

lemma ilog2_ge: "0 < q \<Longrightarrow> pow2 k \<le> q \<Longrightarrow> k \<le> ilog2 q"
  using ilog2_bounds(2) [of q] pow2_less_iff [of k "ilog2 q + 1"] by simp

lemma ilog2_less: "0 < q \<Longrightarrow> q < pow2 k \<Longrightarrow> ilog2 q < k"
  using ilog2_bounds(1) [of q] pow2_less_iff [of "ilog2 q" k] by simp

text \<open>Rounding a rational of the normal range keeps it within its binade.\<close>

lemma round_pos_normal:
  assumes "pow2 (emin T) \<le> q" and "q < pow2 (emax T)"
  shows "\<exists>v. round_pos T q = Fin v \<and> pow2 (ilog2 q) \<le> v \<and> v \<le> pow2 (ilog2 q + 1)"
proof -
  have qpos: "0 < q" using assms(1) pow2_pos [of "emin T"] by linarith
  define e where "e = ilog2 q"
  define u where "u = pow2 (e - int (frac_bits T))"
  define s where "s = q / u"
  define n where "n = \<lfloor>s\<rfloor>"
  define m where "m = rne s"
  have e_min: "emin T \<le> e" unfolding e_def using ilog2_ge [OF qpos assms(1)] .
  have e_max: "e < emax T" unfolding e_def using ilog2_less [OF qpos assms(2)] .
  have upos: "0 < u" by (simp add: u_def)
  have maxe: "max (ilog2 q) (emin T) = e" using e_min by (simp add: e_def)
  have rp: "round_pos T q = (if pow2 (emax T + 1) \<le> of_int m * u then PInf else Fin (of_int m * u))"
    unfolding round_pos_def Let_def maxe m_def s_def u_def by (rule refl)
  have pe: "pow2 e = pow2 (int (frac_bits T)) * u"
    by (simp add: u_def flip: pow2_add)
  have pe1: "pow2 (e + 1) = pow2 (int (frac_bits T) + 1) * u"
    unfolding u_def pow2_add [symmetric] by (rule arg_cong [of _ _ pow2]) simp
  have s_lo: "pow2 (int (frac_bits T)) \<le> s"
    using ilog2_bounds(1) [OF qpos] upos by (simp add: s_def e_def [symmetric] pe pos_le_divide_eq)
  have s_hi: "s < pow2 (int (frac_bits T) + 1)"
    using ilog2_bounds(2) [OF qpos] upos by (simp add: s_def e_def [symmetric] pe1 pos_divide_less_eq)
  have pf: "pow2 (int (frac_bits T)) = of_int (2 ^ frac_bits T)"
    by (simp add: pow2_of_nat)
  have pf1: "pow2 (int (frac_bits T) + 1) = of_int (2 ^ (frac_bits T + 1))"
    using pow2_of_nat [of "frac_bits T + 1"] by (simp add: add.commute)
  have n_lo: "2 ^ frac_bits T \<le> n"
    using s_lo unfolding pf n_def by (simp add: le_floor_iff)
  have n_hi: "n < 2 ^ (frac_bits T + 1)"
    using s_hi unfolding pf1 n_def by (simp add: floor_less_iff)
  have m_lo: "2 ^ frac_bits T \<le> m" using n_lo by (simp add: m_def rne_def n_def Let_def)
  have m_hi: "m \<le> 2 ^ (frac_bits T + 1)" using n_hi by (simp add: m_def rne_def n_def Let_def)
  have v_lo: "pow2 e \<le> of_int m * u"
    unfolding pe pf using m_lo upos by (simp add: mult_right_mono less_imp_le)
  have v_hi: "of_int m * u \<le> pow2 (e + 1)"
    unfolding pe1 pf1 using m_hi upos
    by (intro mult_right_mono) (simp_all add: less_imp_le flip: of_int_le_iff [where 'a = rat])
  have "pow2 (e + 1) < pow2 (emax T + 1)"
    using e_max by (simp add: pow2_less_iff)
  with v_hi have "\<not> pow2 (emax T + 1) \<le> of_int m * u" by linarith
  with rp v_lo v_hi show ?thesis by (simp add: e_def)
qed


subsection \<open>NaN through the remaining operations\<close>


lemma InvSqrt_cases:
  "InvSqrt T x p = invSqrtQuakeNR T x 1 \<or> InvSqrt T x p = invSqrtQuakeNR T x 2 \<or> InvSqrt T x p = invSqrtQuakeNR T x 3"
  using selectImpl_cases [of "invSqrtFast T" "invSqrtBalanced T" "invSqrtHigh T" p]
  by (auto simp: InvSqrt_def invSqrtFast_def invSqrtBalanced_def invSqrtHigh_def fun_eq_iff)

lemma invSqrtQuakeNR_NaN [simp]: "invSqrtQuakeNR T NaN k = NaN"
  by (simp add: invSqrtQuakeNR_def)

lemma InvSqrt_NaN: "InvSqrt T NaN p = NaN"
  using InvSqrt_cases [of T NaN p] by auto

lemma Sec_NaN: "Sec T NaN p = NaN"
  by (simp add: Sec_def sec3Term_def sec5Term_def sec7Term_def cos3Term_def cos5Term_def cos7Term_def Let_def)

lemma Csc_NaN: "Csc T NaN p = NaN"
  by (simp add: Csc_def csc3Term_def csc5Term_def csc7Term_def sin3Term_def sin5Term_def sin7Term_def Let_def)

lemma Cotan_NaN: "Cotan T NaN p = NaN"
  by (simp add: Cotan_def cotan2Term_def cotan3Term_def cotan6Term_def tan2Term_def tan3Term_def tan6Term_def tan_finish_def Let_def)

lemma Arctan_NaN: "Arctan T NaN p = NaN"
  by (simp add: Arctan_def arctan3Term_def arctan6Term_def Let_def)

lemma Arccotan_NaN: "Arccotan T NaN p = NaN"
  by (simp add: Arccotan_def arccotan3Term_def arccotan6Term_def arctan3Term_def arctan6Term_def Let_def)

lemma Power_NaN_base: "\<not> feq e (Fin 0) \<Longrightarrow> Power T NaN e = NaN"
  by (simp add: Power_def Ln_def Exp1_def Log_NaN Exp_NaN)

lemma Power_NaN_exponent: "\<not> is_zero b \<Longrightarrow> Power T b NaN = NaN"
  by (cases b) (simp_all add: Power_def Ln_def Exp1_def Exp_NaN fle_def)

lemma pow_loop_NaN_result_aux: "r = NaN \<Longrightarrow> pow_loop T r c n = NaN"
proof (induct T r c n rule: pow_loop.induct)
  case (1 T r c n)
  show ?case
    using "1.hyps" "1.prems" by (subst pow_loop.simps) simp
qed

lemma pow_loop_NaN_result: "pow_loop T NaN c n = NaN"
  by (simp add: pow_loop_NaN_result_aux)

lemma pow_loop_NaN_base_aux: "c = NaN \<Longrightarrow> 0 < n \<Longrightarrow> pow_loop T r c n = NaN"
proof (induct T r c n rule: pow_loop.induct)
  case (1 T r c n)
  show ?case
  proof (cases "n mod 2 = 1")
    case True
    then show ?thesis
      using "1.prems" by (subst pow_loop.simps) (simp add: pow_loop_NaN_result)
  next
    case False
    with "1.prems" have "0 < n div 2" by presburger
    with "1.hyps" "1.prems" False show ?thesis
      by (subst pow_loop.simps) simp
  qed
qed

lemma pow_loop_NaN_base: "0 < n \<Longrightarrow> pow_loop T r NaN n = NaN"
  by (simp add: pow_loop_NaN_base_aux)


lemma sint_neg:
  fixes e :: go_int
  assumes "e \<noteq> MinInt64"
  shows "sint (- e) = - sint e"
proof -
  have "sint e \<noteq> - (2 ^ 63)"
  proof
    assume "sint e = - (2 ^ 63)"
    then have "sint e = sint MinInt64" by (simp add: MinInt64_def)
    then have "e = MinInt64" by (rule signed_word_eqI)
    with assms show False by simp
  qed
  moreover have "- (2 ^ 63) \<le> sint e" "sint e < 2 ^ 63"
    using sint_range_size [of e] by (simp_all add: word_size)
  ultimately have "- (2 ^ 63) \<le> - sint e" "- sint e < 2 ^ 63" by linarith+
  then show ?thesis
    by (simp add: sint_word_ariths signed_take_bit_int_eq_self)
qed

lemma IntPower_pos:
  fixes e :: go_int
  assumes "1 < sint e" "\<not> feq b (Fin 0)"
  shows "IntPower T b e = Some (pow_loop T (Fin 1) b (sint e))"
proof -
  have "e \<noteq> 0" "e \<noteq> 1" "\<not> e <s 0" using assms(1) by (auto simp: word_sless_alt)
  then show ?thesis using assms(2) by (subst IntPower.simps) simp
qed

lemma IntPower_NaN:
  fixes e :: go_int
  assumes "e \<noteq> 0" "e \<noteq> MinInt64"
  shows "IntPower T NaN e = Some NaN"
proof -
  have pos: "IntPower T NaN k = Some NaN" if "0 < sint k" for k :: go_int
  proof (cases "k = 1")
    case True
    then show ?thesis by (subst IntPower.simps) simp
  next
    case False
    have "sint k \<noteq> 1"
    proof
      assume "sint k = 1"
      then have "sint k = sint (1 :: go_int)" by simp
      then have "k = 1" by (rule signed_word_eqI)
      with False show False by simp
    qed
    with that have "1 < sint k" by linarith
    then show ?thesis using that by (simp add: IntPower_pos pow_loop_NaN_base)
  qed
  show ?thesis
  proof (cases "0 < sint e")
    case True
    then show ?thesis by (rule pos)
  next
    case False
    have "sint e \<noteq> 0"
    proof
      assume "sint e = 0"
      then have "sint e = sint (0 :: go_int)" by simp
      then have "e = 0" by (rule signed_word_eqI)
      with assms(1) show False by simp
    qed
    with False have neg: "sint e < 0" by linarith
    then have "0 < sint (- e)" using sint_neg [OF assms(2)] by simp
    then have "IntPower T NaN (- e) = Some NaN" by (rule pos)
    moreover have "e \<noteq> 1" using neg by auto
    moreover have "e <s 0" using neg by (simp add: word_sless_alt)
    ultimately show ?thesis using assms(1) by (subst IntPower.simps) simp
  qed
qed

subsection \<open>The reciprocal of a converted integer is not zero\<close>

lemma emin_le: "emin T \<le> - 126" and emax_ge: "127 \<le> emax T"
  by (cases T; simp add: emin_def emax_def)+

lemma fround_normal:
  assumes "pow2 (emin T) \<le> \<bar>q\<bar>" and "\<bar>q\<bar> < pow2 (emax T)"
  shows "\<exists>v. fround T (Fin q) = Fin v \<and> pow2 (ilog2 \<bar>q\<bar>) \<le> \<bar>v\<bar> \<and> \<bar>v\<bar> \<le> pow2 (ilog2 \<bar>q\<bar> + 1)"
proof -
  have qpos: "0 < \<bar>q\<bar>" using assms(1) pow2_pos [of "emin T"] by linarith
  obtain v where v: "round_pos T \<bar>q\<bar> = Fin v" "pow2 (ilog2 \<bar>q\<bar>) \<le> v" "v \<le> pow2 (ilog2 \<bar>q\<bar> + 1)"
    using round_pos_normal [OF assms] by blast
  have vpos: "0 < v" using v(2) pow2_pos [of "ilog2 \<bar>q\<bar>"] by linarith
  show ?thesis
  proof (cases "0 < q")
    case True
    then show ?thesis using v vpos by simp
  next
    case False
    with qpos have "q < 0" by simp
    then show ?thesis using v vpos by simp
  qed
qed

lemma of_go_int_bounds:
  assumes "k \<noteq> 0" and "\<bar>k\<bar> \<le> 2 ^ 63"
  shows "\<exists>v. of_go_int T k = Fin v \<and> 1 \<le> \<bar>v\<bar> \<and> \<bar>v\<bar> \<le> 2 ^ 64"
proof -
  let ?q = "of_int k :: rat"
  have q1: "1 \<le> \<bar>?q\<bar>" using assms(1) by (simp flip: of_int_abs)
  have q2: "\<bar>?q\<bar> \<le> 2 ^ 63"
    using assms(2) by (simp flip: of_int_abs add: of_int_le_numeral_power_cancel_iff)
  have "pow2 (emin T) \<le> pow2 0" using emin_le [of T] by (intro pow2_mono) simp
  with q1 have a: "pow2 (emin T) \<le> \<bar>?q\<bar>" by simp
  have "(2::rat) ^ 63 < pow2 127" by (simp add: pow2_def)
  also have "\<dots> \<le> pow2 (emax T)" using emax_ge [of T] by (intro pow2_mono)
  finally have b: "\<bar>?q\<bar> < pow2 (emax T)" using q2 by simp
  obtain v where v: "fround T (Fin ?q) = Fin v" "pow2 (ilog2 \<bar>?q\<bar>) \<le> \<bar>v\<bar>" "\<bar>v\<bar> \<le> pow2 (ilog2 \<bar>?q\<bar> + 1)"
    using fround_normal [OF a b] by blast
  have qpos: "0 < \<bar>?q\<bar>" using q1 by simp
  have "0 \<le> ilog2 \<bar>?q\<bar>" using ilog2_ge [OF qpos, of 0] q1 by simp
  then have "pow2 0 \<le> pow2 (ilog2 \<bar>?q\<bar>)" by (rule pow2_mono)
  then have lo: "1 \<le> \<bar>v\<bar>" using v(2) by simp
  have "\<bar>?q\<bar> < pow2 64" using q2 by (simp add: pow2_def)
  then have "ilog2 \<bar>?q\<bar> < 64" by (rule ilog2_less [OF qpos])
  then have "pow2 (ilog2 \<bar>?q\<bar> + 1) \<le> pow2 64" by (intro pow2_mono) simp
  then have hi: "\<bar>v\<bar> \<le> 2 ^ 64" using v(3) by (simp add: pow2_def)
  show ?thesis using v(1) lo hi by (simp add: of_go_int_def)
qed

lemma reciprocal_of_go_int_nonzero:
  assumes "k \<noteq> 0" and "\<bar>k\<bar> \<le> 2 ^ 63"
  shows "\<not> feq (fdiv T (Fin 1) (of_go_int T k)) (Fin 0)"
proof -
  obtain v where v: "of_go_int T k = Fin v" "1 \<le> \<bar>v\<bar>" "\<bar>v\<bar> \<le> 2 ^ 64"
    using of_go_int_bounds [OF assms] by blast
  have vnz: "v \<noteq> 0" using v(2) by auto
  let ?q = "1 / v"
  have q: "\<bar>?q\<bar> = 1 / \<bar>v\<bar>" by (simp add: abs_divide)
  have avpos: "0 < \<bar>v\<bar>" using vnz by simp
  have "pow2 (emin T) \<le> pow2 (- 64)" using emin_le [of T] by (intro pow2_mono) simp
  also have "\<dots> = 1 / 2 ^ 64" by (simp add: pow2_def)
  also have "\<dots> \<le> \<bar>?q\<bar>" unfolding q using v(3) avpos by (simp add: frac_le)
  finally have a: "pow2 (emin T) \<le> \<bar>?q\<bar>" .
  have "\<bar>?q\<bar> \<le> 1" unfolding q using v(2) by simp
  also have "(1::rat) < pow2 127" by (simp add: pow2_def)
  also have "\<dots> \<le> pow2 (emax T)" using emax_ge [of T] by (intro pow2_mono)
  finally have b: "\<bar>?q\<bar> < pow2 (emax T)" .
  obtain w where w: "fround T (Fin ?q) = Fin w" "pow2 (ilog2 \<bar>?q\<bar>) \<le> \<bar>w\<bar>"
    using fround_normal [OF a b] by blast
  have "0 < \<bar>w\<bar>" by (rule less_le_trans [OF pow2_pos w(2)])
  then have "w \<noteq> 0" by simp
  moreover have "fdiv T (Fin 1) (Fin v) = fround T (Fin ?q)"
    using vnz by (simp add: fdiv_def)
  ultimately show ?thesis using v(1) w(1) by simp
qed

lemma sint_abs_bound: "\<bar>sint (n :: go_int)\<bar> \<le> 2 ^ 63"
proof -
  have "- (2 ^ 63) \<le> sint n" "sint n < 2 ^ 63"
    using sint_range_size [of n] by (simp_all add: word_size)
  then show ?thesis by linarith
qed

lemma sint_nonzero: "(n :: go_int) \<noteq> 0 \<Longrightarrow> sint n \<noteq> 0"
proof
  assume "n \<noteq> 0" and "sint n = 0"
  then have "sint n = sint (0 :: go_int)" by simp
  then have "n = 0" by (rule signed_word_eqI)
  with \<open>n \<noteq> 0\<close> show False by simp
qed

lemma Root_NaN: "Root T NaN n = NaN"
proof (cases "n = 0 \<or> n = 1 \<or> n = 2")
  case True
  then show ?thesis by (auto simp: Root_def Sqrt2_def Sqrt_NaN)
next
  case False
  then have "\<not> feq (fdiv T (Fin 1) (of_go_int T (sint n))) (Fin 0)"
    by (intro reciprocal_of_go_int_nonzero sint_nonzero sint_abs_bound) simp
  with False show ?thesis by (simp add: Root_def Power_NaN_base)
qed


section \<open>Edge cases of the square-root kernels\<close>

lemma sqrtBabylonian_edge:
  "flt x (Fin 0) \<Longrightarrow> sqrtBabylonian T x k = NaN"
  "feq x (Fin 0) \<Longrightarrow> sqrtBabylonian T x k = Fin 0"
  "sqrtBabylonian T PInf k = PInf"
  by (cases x; simp add: sqrtBabylonian_def IsInf_def fne_def)+

lemma invSqrtQuakeNR_edge:
  "flt x (Fin 0) \<Longrightarrow> invSqrtQuakeNR T x k = NaN"
  "feq x (Fin 0) \<Longrightarrow> invSqrtQuakeNR T x k = PInf"
  "invSqrtQuakeNR T PInf k = Fin 0"
  by (cases x; simp add: invSqrtQuakeNR_def IsInf_def fne_def)+

text \<open>
  Claim C2.  For every precision value \<open>p\<close> and both widths: \<^verbatim>\<open>Sqrt\<close> returns NaN on NaN
  and on a negative input \<open>xn\<close>, 0 on a zero input \<open>xz\<close> (either zero) and +Infinity on
  +Infinity; \<^verbatim>\<open>InvSqrt\<close> returns NaN on NaN and on a negative input, +Infinity on a zero
  input and 0 on +Infinity.
\<close>

theorem C2_sqrt_edge_cases:
  "Sqrt T NaN p = NaN \<and>
   (flt xn (Fin 0) \<longrightarrow> Sqrt T xn p = NaN) \<and>
   (feq xz (Fin 0) \<longrightarrow> Sqrt T xz p = Fin 0) \<and>
   Sqrt T PInf p = PInf \<and>
   InvSqrt T NaN p = NaN \<and>
   (flt xn (Fin 0) \<longrightarrow> InvSqrt T xn p = NaN) \<and>
   (feq xz (Fin 0) \<longrightarrow> InvSqrt T xz p = PInf) \<and>
   InvSqrt T PInf p = Fin 0"
  using Sqrt_cases [of T xn p] Sqrt_cases [of T xz p] Sqrt_cases [of T PInf p]
    InvSqrt_cases [of T xn p] InvSqrt_cases [of T xz p] InvSqrt_cases [of T PInf p]
  by (auto simp: Sqrt_NaN InvSqrt_NaN sqrtBabylonian_edge invSqrtQuakeNR_edge)

theorem C2_sqrt_edge_cases_witness:
  "flt (Fin (- 4)) (Fin 0) \<and> feq NZero (Fin 0) \<and>
   Sqrt Float32 (Fin (- 4)) PrecisionFast = NaN \<and> Sqrt Float32 NZero PrecisionFast = Fin 0 \<and>
   InvSqrt Float32 (Fin (- 4)) PrecisionFast = NaN \<and> InvSqrt Float32 NZero PrecisionFast = PInf"
  using C2_sqrt_edge_cases [of Float32 PrecisionFast "Fin (- 4)" NZero] by simp

section \<open>Power, root and integer power\<close>

text \<open>
  Claim C5.  \<^verbatim>\<open>Power(b, e)\<close> is NaN whenever \<open>b < 0\<close>, for every exponent; and for a
  zero base \<open>z\<close> it is 1 when the exponent is zero, 0 when the exponent is positive and
  +Infinity when the exponent is negative.
\<close>

theorem C5_power_nonpositive_base:
  "(flt b (Fin 0) \<longrightarrow> Power T b e = NaN) \<and>
   (feq z (Fin 0) \<longrightarrow>
      (feq e0 (Fin 0) \<longrightarrow> Power T z e0 = Fin 1) \<and>
      (fgt ep (Fin 0) \<longrightarrow> Power T z ep = Fin 0) \<and>
      (flt en (Fin 0) \<longrightarrow> Power T z en = PInf))"
proof -
  have "Power T b e = NaN" if "flt b (Fin 0)"
    using that by (simp add: Power_def fle_def)
  moreover have "Power T z e0 = Fin 1" if "feq z (Fin 0)" "feq e0 (Fin 0)"
    using that by (cases z; simp add: Power_def fle_def)
  moreover have "Power T z ep = Fin 0" if "feq z (Fin 0)" "fgt ep (Fin 0)"
    using that by (cases z; cases ep; simp add: Power_def fle_def fgt_def)
  moreover have "Power T z en = PInf" if "feq z (Fin 0)" "flt en (Fin 0)"
    using that by (cases z; cases en; simp add: Power_def fle_def fgt_def)
  ultimately show ?thesis by blast
qed

theorem C5_power_nonpositive_base_witness:
  "flt (Fin (- 2)) (Fin 0) \<and> feq NZero (Fin 0) \<and> feq (Fin 0) (Fin 0) \<and> fgt (Fin 3) (Fin 0) \<and>
   flt NInf (Fin 0) \<and> Power Float64 (Fin (- 2)) (Fin (1 / 2)) = NaN \<and>
   Power Float64 NZero (Fin 0) = Fin 1 \<and> Power Float64 NZero (Fin 3) = Fin 0 \<and>
   Power Float64 NZero NInf = PInf"
  using C5_power_nonpositive_base [of "Fin (- 2)" Float64 "Fin (1 / 2)" NZero "Fin 0" "Fin 3" NInf]
  by (simp add: fgt_def)

section \<open>Reciprocal trigonometric functions\<close>

text \<open>
  Claim C9.  For every input and every precision value, \<^verbatim>\<open>Sec\<close> is \<open>1 / Cos\<close>, \<^verbatim>\<open>Csc\<close>
  is \<open>1 / Sin\<close> and \<^verbatim>\<open>Cotan\<close> is \<open>1 / Tan\<close>, where the division is the one of the type
  \<^verbatim>\<open>T\<close>: the same datum, not merely a close one.
\<close>

theorem C9_reciprocal_functions:
  "Sec T x p = fdiv T (Fin 1) (Cos T x p) \<and>
   Csc T x p = fdiv T (Fin 1) (Sin T x p) \<and>
   Cotan T x p = fdiv T (Fin 1) (Tan T x p)"
  by (simp add: Sec_def Cos_def Csc_def Sin_def Cotan_def Tan_def sec3Term_def sec5Term_def
      sec7Term_def csc3Term_def csc5Term_def csc7Term_def cotan2Term_def cotan3Term_def
      cotan6Term_def)

text \<open>
  Claim C10.  \<^verbatim>\<open>Root(value, 1)\<close> returns \<^verbatim>\<open>value\<close> unchanged, whatever the value is
  (negative, NaN, infinite): the test \<^verbatim>\<open>n == 1\<close> precedes the test for a negative value.
\<close>

theorem C10_root_one_identity: "Root T v 1 = v"
  by (simp add: Root_def)


section \<open>NaN propagation\<close>

text \<open>
  Claim C1 says that every operation returns NaN as soon as a floating-point argument is
  NaN.  Two calls return 1 instead: \<^verbatim>\<open>Power(NaN, 0)\<close> and \<^verbatim>\<open>IntPower(NaN, 0)\<close>, because the
  guard \<^verbatim>\<open>exponent == 0\<close> comes before anything is done with the base.
\<close>

theorem C1_counterexample:
  "Power Float64 NaN (Fin 0) = Fin 1 \<and> IntPower Float64 NaN 0 = Some (Fin 1)"
  by code_simp

text \<open>
  Claim C1, amended.  For every precision value and both widths, a NaN argument gives a
  NaN result in \<^verbatim>\<open>Sqrt\<close>, \<^verbatim>\<open>InvSqrt\<close>, \<^verbatim>\<open>Log\<close>, \<^verbatim>\<open>Exp\<close>, \<^verbatim>\<open>Sin\<close>, \<^verbatim>\<open>Cos\<close>, \<^verbatim>\<open>Sec\<close>,
  \<^verbatim>\<open>Csc\<close>, \<^verbatim>\<open>Tan\<close>, \<^verbatim>\<open>Cotan\<close>, \<^verbatim>\<open>Arctan\<close>, \<^verbatim>\<open>Arccotan\<close>, \<^verbatim>\<open>Arccos\<close> and \<^verbatim>\<open>Root\<close> (for every
  \<open>n\<close>); in \<^verbatim>\<open>Power\<close> a NaN base gives NaN for every exponent other than zero, and a NaN
  exponent gives NaN for every base other than zero; \<^verbatim>\<open>IntPower\<close> with a NaN base
  returns NaN for every exponent other than 0 and the least \<^verbatim>\<open>int\<close>.  (A zero base with
  a NaN exponent, and the least \<^verbatim>\<open>int\<close> as exponent, are not part of the statement.)
\<close>

theorem C1_nan_propagation:
  "Sqrt T NaN p = NaN \<and> InvSqrt T NaN p = NaN \<and> Log T NaN p = NaN \<and> Exp T NaN p = NaN \<and>
   Sin T NaN p = NaN \<and> Cos T NaN p = NaN \<and> Sec T NaN p = NaN \<and> Csc T NaN p = NaN \<and>
   Tan T NaN p = NaN \<and> Cotan T NaN p = NaN \<and> Arctan T NaN p = NaN \<and>
   Arccotan T NaN p = NaN \<and> Arccos T NaN p = NaN \<and>
   (\<not> feq e (Fin 0) \<longrightarrow> Power T NaN e = NaN) \<and>
   (\<not> is_zero b \<longrightarrow> Power T b NaN = NaN) \<and>
   Root T NaN n = NaN \<and>
   (k \<noteq> 0 \<and> k \<noteq> MinInt64 \<longrightarrow> IntPower T NaN k = Some NaN)"
  by (simp add: Sqrt_NaN InvSqrt_NaN Log_NaN Exp_NaN Sin_NaN Cos_NaN Sec_NaN Csc_NaN Tan_NaN
      Cotan_NaN Arctan_NaN Arccotan_NaN Arccos_NaN Power_NaN_base Power_NaN_exponent Root_NaN
      IntPower_NaN)

theorem C1_nan_propagation_witness:
  "\<not> feq (Fin 2) (Fin 0) \<and> \<not> is_zero (Fin 2) \<and> (- 5 :: go_int) \<noteq> 0 \<and> (- 5 :: go_int) \<noteq> MinInt64 \<and>
   Power Float64 NaN (Fin 2) = NaN \<and> Power Float64 (Fin 2) NaN = NaN \<and>
   Root Float64 NaN 3 = NaN \<and> IntPower Float64 NaN (- 5) = Some NaN \<and> Tan Float64 NaN PrecisionHigh = NaN"
  using C1_nan_propagation [of Float64 PrecisionHigh "Fin 2" "Fin 2" 3 "- 5"]
  by (simp add: MinInt64_def)

text \<open>
  The two cases outside that statement.  With a zero base a NaN exponent fails
  both \<^verbatim>\<open>exponent == 0\<close> and \<^verbatim>\<open>exponent > 0\<close> and reaches the return commented
  \<^verbatim>\<open>0^negative = infinity\<close>.  With the least \<^verbatim>\<open>int\<close> as exponent and a non-zero base,
  \<^verbatim>\<open>-exponent\<close> is the exponent again and the recursion does not end.
\<close>

lemma Power_zero_base_NaN_exponent: "Power T (Fin 0) NaN = PInf"
  by (simp add: Power_def fle_def)

lemma neg_MinInt64: "- MinInt64 = MinInt64"
  by (simp add: MinInt64_def)

lemma IntPower_MinInt64_aux:
  assumes "IntPower T b e = Some y"
  shows "e = MinInt64 \<longrightarrow> feq b (Fin 0)"
proof (rule IntPower.raw_induct [where P = "\<lambda>T b e y. e = MinInt64 \<longrightarrow> feq b (Fin 0)", OF _ assms],
    goal_cases)
  case (1 f T b e y)
  show ?case
  proof (intro impI, rule ccontr)
    assume e: "e = MinInt64" and b: "\<not> feq b (Fin 0)"
    have "MinInt64 \<noteq> 0" "MinInt64 \<noteq> 1" "MinInt64 <s 0"
      by (simp_all add: MinInt64_def word_sless_alt)
    with 1(2) e b obtain r where "f T b MinInt64 = Some r"
      by (auto simp: neg_MinInt64 split: Option.bind_splits)
    from 1(1) [OF this] b show False by simp
  qed
qed

lemma IntPower_MinInt64: "\<not> feq b (Fin 0) \<Longrightarrow> IntPower T b MinInt64 = None"
  using IntPower_MinInt64_aux [of T b MinInt64] by (cases "IntPower T b MinInt64") auto

section \<open>Integer power with a negative exponent\<close>

text \<open>
  Claim C6 says that \<^verbatim>\<open>IntPower(base, -n)\<close> is \<open>1 / IntPower(base, n)\<close> for every base
  and every positive \<open>n\<close>.  For the base \<open>-0\<close> and \<open>n = 1\<close> it is not: the test
  \<^verbatim>\<open>exponent == 1\<close> returns the base \<open>-0\<close>, whose reciprocal is \<open>-\<infinity>\<close>, while for the
  exponent \<open>-1\<close> the test \<^verbatim>\<open>base == 0\<close> returns \<open>+\<infinity>\<close>.
\<close>

theorem C6_counterexample:
  "IntPower Float64 NZero (- 1) = Some PInf \<and>
   map_option (fdiv Float64 (Fin 1)) (IntPower Float64 NZero 1) = Some NInf"
  by code_simp

lemma fdiv_one_zero: "feq b (Fin 0) \<Longrightarrow> b \<noteq> NZero \<Longrightarrow> fdiv T (Fin 1) b = PInf"
  by (cases b) (simp_all add: fdiv_def signed_inf_def)

lemma sint_eq_1: "sint (n :: go_int) = 1 \<Longrightarrow> n = 1"
proof -
  assume "sint n = 1"
  then have "sint n = sint (1 :: go_int)" by simp
  then show "n = 1" by (rule signed_word_eqI)
qed

text \<open>
  Claim C6, amended.  For every positive \<^verbatim>\<open>int\<close> \<open>n\<close> and every base (zero, negative,
  infinite and NaN included), except the base \<open>-0\<close> together with \<open>n = 1\<close>,
  \<^verbatim>\<open>IntPower(base, n)\<close> returns some \<open>r\<close> and \<^verbatim>\<open>IntPower(base, -n)\<close> returns \<open>1 / r\<close>,
  the same datum.
\<close>

theorem C6_intpower_negative_reciprocal:
  fixes n :: go_int
  assumes "0 <s n" and "\<not> (base = NZero \<and> n = 1)"
  shows "\<exists>r. IntPower T base n = Some r \<and> IntPower T base (- n) = Some (fdiv T (Fin 1) r)"
proof -
  have pos: "0 < sint n" using assms(1) by (simp add: word_sless_alt)
  then have n0: "n \<noteq> 0" by auto
  have nmin: "n \<noteq> MinInt64" using pos by (auto simp: MinInt64_def)
  have sneg: "sint (- n) = - sint n" by (rule sint_neg [OF nmin])
  have m0: "- n \<noteq> 0" using n0 by simp
  have m1: "- n \<noteq> 1" using sneg pos by auto
  have mneg: "- n <s 0" using sneg pos by (simp add: word_sless_alt)
  have mnpos: "\<not> 0 <s - n" using sneg pos by (simp add: word_sless_alt)
  have nneg: "\<not> n <s 0" using pos by (simp add: word_sless_alt)
  show ?thesis
  proof (cases "feq base (Fin 0)")
    case True
    have neg: "IntPower T base (- n) = Some PInf"
      using True m0 m1 mnpos by (subst IntPower.simps) simp
    show ?thesis
    proof (cases "n = 1")
      case n1: True
      with assms(2) have "base \<noteq> NZero" by simp
      then have "fdiv T (Fin 1) base = PInf" using True by (simp add: fdiv_one_zero)
      moreover have "IntPower T base n = Some base"
        using n1 by (subst IntPower.simps) simp
      ultimately show ?thesis using neg by simp
    next
      case False
      then have "IntPower T base n = Some (Fin 0)"
        using True n0 assms(1) by (subst IntPower.simps) simp
      moreover have "fdiv T (Fin 1) (Fin 0) = PInf" by (simp add: fdiv_one_zero)
      ultimately show ?thesis using neg by simp
    qed
  next
    case False
    have "\<exists>r. IntPower T base n = Some r"
      using False n0 nneg by (subst IntPower.simps) simp
    then obtain r where r: "IntPower T base n = Some r" ..
    have "IntPower T base (- n) = Option.bind (IntPower T base (- (- n))) (\<lambda>r. Some (fdiv T (Fin 1) r))"
      using False m0 m1 mneg by (subst IntPower.simps) simp
    with r show ?thesis by simp
  qed
qed

theorem C6_intpower_negative_reciprocal_witness:
  "0 <s (3 :: go_int) \<and> \<not> (Fin 2 = NZero \<and> (3 :: go_int) = 1) \<and>
   (\<exists>r. IntPower Float64 (Fin 2) 3 = Some r \<and>
        IntPower Float64 (Fin 2) (- 3) = Some (fdiv Float64 (Fin 1) r))"
  using C6_intpower_negative_reciprocal [of 3 "Fin 2" Float64]
  by (simp add: word_sless_alt)


section \<open>Evaluating the kernels on concrete inputs\<close>

lemma ilog2_unique: "pow2 e \<le> q \<Longrightarrow> q < pow2 (e + 1) \<Longrightarrow> ilog2 q = e"
proof -
  assume a: "pow2 e \<le> q" and b: "q < pow2 (e + 1)"
  have qpos: "0 < q" using a pow2_pos [of e] by linarith
  have "e \<le> ilog2 q" by (rule ilog2_ge [OF qpos a])
  moreover have "ilog2 q < e + 1" by (rule ilog2_less [OF qpos b])
  ultimately show ?thesis by simp
qed

lemma rne_le: "s \<le> of_int k \<Longrightarrow> rne s \<le> k"
proof -
  assume a: "s \<le> of_int k"
  have fl: "\<lfloor>s\<rfloor> \<le> k" using a by (simp add: floor_le_iff) 
  show ?thesis
  proof (cases "\<lfloor>s\<rfloor> = k")
    case True
    then have "s - of_int \<lfloor>s\<rfloor> \<le> 0" using a by simp
    then show ?thesis using True by (simp add: rne_def Let_def)
  next
    case False
    with fl have "\<lfloor>s\<rfloor> + 1 \<le> k" by simp
    then show ?thesis by (simp add: rne_def Let_def)
  qed
qed

text \<open>Rounding with a known binary exponent: the result is read off without search.\<close>

lemma round_pos_eval:
  assumes "pow2 e0 \<le> q" and "q < pow2 (e0 + 1)" and "e0 < emax T"
  shows "round_pos T q =
         Fin (of_int (rne (q / pow2 (max e0 (emin T) - int (frac_bits T))))
                * pow2 (max e0 (emin T) - int (frac_bits T)))"
proof -
  define e where "e = max e0 (emin T)"
  define u where "u = pow2 (e - int (frac_bits T))"
  have il: "ilog2 q = e0" by (rule ilog2_unique [OF assms(1,2)])
  have upos: "0 < u" by (simp add: u_def)
  have "emin T < emax T" by (cases T) (simp_all add: emin_def emax_def)
  with assms(3) have e_max: "e < emax T" by (simp add: e_def)
  have pe1: "pow2 (e + 1) = pow2 (int (frac_bits T) + 1) * u"
    unfolding u_def pow2_add [symmetric] by (rule arg_cong [of _ _ pow2]) simp
  have pf1: "pow2 (int (frac_bits T) + 1) = of_int (2 ^ (frac_bits T + 1))"
    using pow2_of_nat [of "frac_bits T + 1"] by (simp add: add.commute)
  have "e0 + 1 \<le> e + 1" by (simp add: e_def)
  then have "pow2 (e0 + 1) \<le> pow2 (e + 1)" by (rule pow2_mono)
  then have "q < pow2 (int (frac_bits T) + 1) * u" using assms(2) pe1 by simp
  then have "q / u < pow2 (int (frac_bits T) + 1)"
    using upos by (simp add: pos_divide_less_eq)
  then have "rne (q / u) \<le> 2 ^ (frac_bits T + 1)"
    unfolding pf1 by (intro rne_le) simp
  then have "(of_int (rne (q / u)) :: rat) \<le> of_int (2 ^ (frac_bits T + 1))"
    by (simp only: of_int_le_iff)
  then have "of_int (rne (q / u)) * u \<le> of_int (2 ^ (frac_bits T + 1)) * u"
    using upos by (simp add: mult_right_mono)
  also have "\<dots> = pow2 (e + 1)"
    by (simp only: pe1 pf1)
  also have "\<dots> < pow2 (emax T + 1)" using e_max by (simp add: pow2_less_iff)
  finally have "\<not> pow2 (emax T + 1) \<le> of_int (rne (q / u)) * u" by simp
  then show ?thesis
    by (simp add: round_pos_def il Let_def e_def [symmetric] u_def [symmetric])
qed

lemma fround_eval:
  assumes "pow2 e0 \<le> \<bar>q\<bar>" and "\<bar>q\<bar> < pow2 (e0 + 1)" and "e0 < emax T"
    and "v = sgn q * (of_int (rne (\<bar>q\<bar> / pow2 (max e0 (emin T) - int (frac_bits T))))
                * pow2 (max e0 (emin T) - int (frac_bits T)))"
    and "v \<noteq> 0"
  shows "fround T (Fin q) = Fin v"
proof -
  have qpos: "0 < \<bar>q\<bar>" using assms(1) pow2_pos [of e0] by linarith
  note rp = round_pos_eval [OF assms(1-3)]
  show ?thesis
  proof (cases "0 < q")
    case True
    then show ?thesis using rp assms(4) by simp
  next
    case False
    with qpos have "q < 0" by simp
    then show ?thesis using rp assms(4,5) by simp
  qed
qed

lemma fadd_Fin: "fadd T (Fin a) (Fin b) = fround T (Fin (a + b))"
  by (simp add: fadd_def)

lemma fsub_Fin: "fsub T (Fin a) (Fin b) = fround T (Fin (a - b))"
  by (simp add: fsub_def fadd_def)

lemma fmul_Fin: "a \<noteq> 0 \<Longrightarrow> b \<noteq> 0 \<Longrightarrow> fmul T (Fin a) (Fin b) = fround T (Fin (a * b))"
  by (simp add: fmul_def)

lemma fdiv_Fin: "a \<noteq> 0 \<Longrightarrow> b \<noteq> 0 \<Longrightarrow> fdiv T (Fin a) (Fin b) = fround T (Fin (a / b))"
  by (simp add: fdiv_def)

lemma floor_rat_numeral_div:
  "\<lfloor>numeral a / numeral b :: rat\<rfloor> = numeral a div numeral b"
  by (metis floor_divide_of_int_eq of_int_numeral)

lemma floor_rat_one_div:
  "\<lfloor>1 / numeral b :: rat\<rfloor> = 1 div numeral b"
  by (metis floor_divide_of_int_eq of_int_numeral of_int_1)

lemmas eval_simps = rne_def pow2_def emin_def emax_def Let_def floor_rat_numeral_div
  floor_rat_one_div


section \<open>Dispatch of the tangent\<close>

text \<open>The roundings met when the tangent kernels run on \<open>x = 1/2\<close>.\<close>

lemma tan_half_1: "round_pos Float64 (314159265358979323846264338327950288419716939937510582097494459 / 100000000000000000000000000000000000000000000000000000000000000) = Fin (884279719003555 / 281474976710656)"
  by (simp add: round_pos_eval [where ?e0.0 = "1"] eval_simps)

lemma tan_half_2: "round_pos Float64 (314159265358979323846264338327950288419716939937510582097494459 / 200000000000000000000000000000000000000000000000000000000000000) = Fin (884279719003555 / 562949953421312)"
  by (simp add: round_pos_eval [where ?e0.0 = "0"] eval_simps)

lemma tan_half_3: "round_pos Float64 (314159265358979323846264338327950288419716939937510582097494459 / 400000000000000000000000000000000000000000000000000000000000000) = Fin (884279719003555 / 1125899906842624)"
  by (simp add: round_pos_eval [where ?e0.0 = "-1"] eval_simps)

lemma tan_half_4: "round_pos Float64 (1 / 4) = Fin (1 / 4)"
  by (simp add: round_pos_eval [where ?e0.0 = "-2"] eval_simps)

lemma tan_half_5: "round_pos Float64 (1 / 8) = Fin (1 / 8)"
  by (simp add: round_pos_eval [where ?e0.0 = "-3"] eval_simps)

lemma tan_half_6: "round_pos Float64 (1 / 24) = Fin (6004799503160661 / 144115188075855872)"
  by (simp add: round_pos_eval [where ?e0.0 = "-5"] eval_simps)

lemma tan_half_7: "round_pos Float64 (78062393541088597 / 144115188075855872) = Fin (4878899596318037 / 9007199254740992)"
  by (simp add: round_pos_eval [where ?e0.0 = "-1"] eval_simps)

lemma tan_half_8: "round_pos Float64 (4878899596318037 / 9007199254740992) = Fin (4878899596318037 / 9007199254740992)"
  by (simp add: round_pos_eval [where ?e0.0 = "-1"] eval_simps)

lemma tan_half_9: "round_pos Float64 (1 / 32) = Fin (1 / 32)"
  by (simp add: round_pos_eval [where ?e0.0 = "-5"] eval_simps)

lemma tan_half_10: "round_pos Float64 (1 / 16) = Fin (1 / 16)"
  by (simp add: round_pos_eval [where ?e0.0 = "-4"] eval_simps)

lemma tan_half_11: "round_pos Float64 (1 / 240) = Fin (4803839602528529 / 1152921504606846976)"
  by (simp add: round_pos_eval [where ?e0.0 = "-8"] eval_simps)

lemma tan_half_12: "round_pos Float64 (629302987931237265 / 1152921504606846976) = Fin (4916429593212791 / 9007199254740992)"
  by (simp add: round_pos_eval [where ?e0.0 = "-1"] eval_simps)

lemma tan_half_13: "round_pos Float64 (4916429593212791 / 9007199254740992) = Fin (4916429593212791 / 9007199254740992)"
  by (simp add: round_pos_eval [where ?e0.0 = "-1"] eval_simps)

lemma tan_half_14: "round_pos Float64 (1 / 128) = Fin (1 / 128)"
  by (simp add: round_pos_eval [where ?e0.0 = "-7"] eval_simps)

lemma tan_half_15: "round_pos Float64 (17 / 128) = Fin (17 / 128)"
  by (simp add: round_pos_eval [where ?e0.0 = "-3"] eval_simps)

lemma tan_half_16: "round_pos Float64 (17 / 40320) = Fin (1944411267690119 / 4611686018427387904)"
  by (simp add: round_pos_eval [where ?e0.0 = "-12"] eval_simps)

lemma tan_half_17: "round_pos Float64 (2519156362992639111 / 4611686018427387904) = Fin (2460113635734999 / 4503599627370496)"
  by (simp add: round_pos_eval [where ?e0.0 = "-1"] eval_simps)

lemma tan_half_18: "round_pos Float64 (2460113635734999 / 4503599627370496) = Fin (2460113635734999 / 4503599627370496)"
  by (simp add: round_pos_eval [where ?e0.0 = "-1"] eval_simps)

lemma tan_half_19: "round_pos Float64 (1 / 512) = Fin (1 / 512)"
  by (simp add: round_pos_eval [where ?e0.0 = "-9"] eval_simps)

lemma tan_half_20: "round_pos Float64 (1 / 2048) = Fin (1 / 2048)"
  by (simp add: round_pos_eval [where ?e0.0 = "-11"] eval_simps)

lemma tan_half_21: "round_pos Float64 (31 / 256) = Fin (31 / 256)"
  by (simp add: round_pos_eval [where ?e0.0 = "-4"] eval_simps)

lemma tan_half_22: "round_pos Float64 (31 / 725760) = Fin (3151725453510781 / 73786976294838206464)"
  by (simp add: round_pos_eval [where ?e0.0 = "-15"] eval_simps)

lemma tan_half_23: "round_pos Float64 (40309653533335734397 / 73786976294838206464) = Fin (2460306001790511 / 4503599627370496)"
  by (simp add: round_pos_eval [where ?e0.0 = "-1"] eval_simps)

lemma tan_half_24: "round_pos Float64 (691 / 1024) = Fin (691 / 1024)"
  by (simp add: round_pos_eval [where ?e0.0 = "-1"] eval_simps)

lemma tan_half_25: "round_pos Float64 (691 / 159667200) = Fin (5109307421409853 / 1180591620717411303424)"
  by (simp add: round_pos_eval [where ?e0.0 = "-18"] eval_simps)

lemma tan_half_26: "round_pos Float64 (644959565840793125437 / 1180591620717411303424) = Fin (4920650984503121 / 9007199254740992)"
  by (simp add: round_pos_eval [where ?e0.0 = "-1"] eval_simps)

lemma tan_half_27: "round_pos Float64 (4920650984503121 / 9007199254740992) = Fin (4920650984503121 / 9007199254740992)"
  by (simp add: round_pos_eval [where ?e0.0 = "-1"] eval_simps)

lemmas tan_half_steps = tan_half_1 tan_half_2 tan_half_3 tan_half_4 tan_half_5 tan_half_6 tan_half_7 tan_half_8 tan_half_9 tan_half_10 tan_half_11 tan_half_12 tan_half_13 tan_half_14 tan_half_15 tan_half_16 tan_half_17 tan_half_18 tan_half_19 tan_half_20 tan_half_21 tan_half_22 tan_half_23 tan_half_24 tan_half_25 tan_half_26 tan_half_27

lemma tan_reduce_half: "tan_reduce (Fin (1 / 2)) = (Fin (1 / 2), Fin 1, False)"
  by (simp add: tan_reduce_def fmod_def const_def Pi_def fgt_def tan_half_steps Let_def
      floor_rat_numeral_div floor_rat_one_div)

lemma tan2Term_half: "tan2Term Float64 (Fin (1 / 2)) = Fin (4878899596318037 / 9007199254740992)"
  by (simp add: tan2Term_def tan_reduce_half tan_finish_def fadd_Fin fmul_Fin fdiv_Fin tan_half_steps Let_def)

lemma tan3Term_half: "tan3Term Float64 (Fin (1 / 2)) = Fin (4916429593212791 / 9007199254740992)"
  by (simp add: tan3Term_def tan_reduce_half tan_finish_def fadd_Fin fmul_Fin fdiv_Fin tan_half_steps Let_def)

lemma tan4Term_half: "tan4Term Float64 (Fin (1 / 2)) = Fin (2460113635734999 / 4503599627370496)"
  by (simp add: tan4Term_def tan_reduce_half tan_finish_def fadd_Fin fmul_Fin fdiv_Fin tan_half_steps Let_def)

lemma tan6Term_half: "tan6Term Float64 (Fin (1 / 2)) = Fin (4920650984503121 / 9007199254740992)"
  by (simp add: tan6Term_def tan_reduce_half tan_finish_def fadd_Fin fmul_Fin fdiv_Fin tan_half_steps Let_def)

text \<open>
  Claim C8 says that the dispatch of \<^verbatim>\<open>Tan\<close> uses the kernels with 2, 3, 4 and 6 terms,
  each selected by some tier.  No tier selects the 4-term kernel: at \<open>x = 1/2\<close> the
  result of \<^verbatim>\<open>Tan\<close> differs from that of \<^verbatim>\<open>tan4Term\<close> for each of the four named tiers.
\<close>

theorem C8_counterexample:
  "Tan Float64 (Fin (1 / 2)) PrecisionAuto \<noteq> tan4Term Float64 (Fin (1 / 2)) \<and>
   Tan Float64 (Fin (1 / 2)) PrecisionFast \<noteq> tan4Term Float64 (Fin (1 / 2)) \<and>
   Tan Float64 (Fin (1 / 2)) PrecisionBalanced \<noteq> tan4Term Float64 (Fin (1 / 2)) \<and>
   Tan Float64 (Fin (1 / 2)) PrecisionHigh \<noteq> tan4Term Float64 (Fin (1 / 2))"
  by (simp add: Tan_def PrecisionAuto_def PrecisionFast_def PrecisionBalanced_def
      PrecisionHigh_def tan2Term_half tan3Term_half tan4Term_half tan6Term_half)

text \<open>
  Claim C8, amended.  \<^verbatim>\<open>Tan\<close> selects the 2-term kernel for Fast, the 3-term kernel for
  Balanced, for Auto and for every unrecognised precision value, and the 6-term kernel
  for High; it is never the 4-term kernel (its value at \<open>x = 1/2\<close> differs from that of
  \<^verbatim>\<open>tan4Term\<close>, whatever the precision).
\<close>

theorem C8_tan_dispatch:
  "Tan T x PrecisionFast = tan2Term T x \<and> Tan T x PrecisionBalanced = tan3Term T x \<and>
   Tan T x PrecisionAuto = tan3Term T x \<and> Tan T x PrecisionHigh = tan6Term T x \<and>
   (q \<noteq> PrecisionFast \<and> q \<noteq> PrecisionBalanced \<and> q \<noteq> PrecisionHigh \<longrightarrow>
      Tan T x q = tan3Term T x) \<and>
   Tan Float64 (Fin (1 / 2)) p \<noteq> tan4Term Float64 (Fin (1 / 2))"
  by (simp add: Tan_def PrecisionAuto_def PrecisionFast_def PrecisionBalanced_def
      PrecisionHigh_def tan2Term_half tan3Term_half tan4Term_half tan6Term_half)

theorem C8_tan_dispatch_witness:
  "(7 :: Precision) \<noteq> PrecisionFast \<and> (7 :: Precision) \<noteq> PrecisionBalanced \<and>
   (7 :: Precision) \<noteq> PrecisionHigh \<and>
   Tan Float32 (Fin 3) 7 = tan3Term Float32 (Fin 3) \<and>
   Tan Float32 (Fin 3) PrecisionHigh = tan6Term Float32 (Fin 3) \<and>
   Tan Float64 (Fin (1 / 2)) 7 \<noteq> tan4Term Float64 (Fin (1 / 2))"
  using C8_tan_dispatch [of Float32 "Fin 3" 7 7]
  by (simp add: PrecisionFast_def PrecisionBalanced_def PrecisionHigh_def)

section \<open>The logarithm of a subnormal number\<close>

text \<open>The roundings met when \<^verbatim>\<open>Log\<close> runs on \<open>2^-1074\<close>, and when the series runs on the
  decomposition \<open>(1/2, -1073)\<close>.\<close>

lemma log_tiny_1: "round_pos Float64 1 = Fin 1"
  by (simp add: round_pos_eval [where ?e0.0 = "0"] eval_simps)

lemma log_tiny_2: "round_pos Float64 (1 / 4503599627370496) = Fin (1 / 4503599627370496)"
  by (simp add: round_pos_eval [where ?e0.0 = "-52"] eval_simps)

lemma log_tiny_3: "round_pos Float64 (4503599627370497 / 4503599627370496) = Fin (4503599627370497 / 4503599627370496)"
  by (simp add: round_pos_eval [where ?e0.0 = "0"] eval_simps)

lemma log_tiny_4: "round_pos Float64 (4503599627370497 / 9007199254740992) = Fin (4503599627370497 / 9007199254740992)"
  by (simp add: round_pos_eval [where ?e0.0 = "-1"] eval_simps)

lemma log_tiny_5: "round_pos Float64 (4503599627370495 / 9007199254740992) = Fin (4503599627370495 / 9007199254740992)"
  by (simp add: round_pos_eval [where ?e0.0 = "-2"] eval_simps)

lemma log_tiny_6: "round_pos Float64 (13510798882111489 / 9007199254740992) = Fin (3 / 2)"
  by (simp add: round_pos_eval [where ?e0.0 = "0"] eval_simps)

lemma log_tiny_7: "round_pos Float64 (1501199875790165 / 4503599627370496) = Fin (1501199875790165 / 4503599627370496)"
  by (simp add: round_pos_eval [where ?e0.0 = "-2"] eval_simps)

lemma log_tiny_8: "round_pos Float64 (2253601067072406824083110727225 / 20282409603651670423947251286016) = Fin (8006399337547545 / 72057594037927936)"
  by (simp add: round_pos_eval [where ?e0.0 = "-4"] eval_simps)

lemma log_tiny_9: "round_pos Float64 (12019205691052833893110130894925 / 324518553658426726783156020576256) = Fin (5337599558365029 / 144115188075855872)"
  by (simp add: round_pos_eval [where ?e0.0 = "-5"] eval_simps)

lemma log_tiny_10: "round_pos Float64 (1 / 3) = Fin (6004799503160661 / 18014398509481984)"
  by (simp add: round_pos_eval [where ?e0.0 = "-2"] eval_simps)

lemma log_tiny_11: "round_pos Float64 (32051215176140889714427070924169 / 2596148429267413814265248164610048) = Fin (1779199852788343 / 144115188075855872)"
  by (simp add: round_pos_eval [where ?e0.0 = "-7"] eval_simps)

lemma log_tiny_12: "round_pos Float64 (49817595878073623 / 144115188075855872) = Fin (6227199484759203 / 18014398509481984)"
  by (simp add: round_pos_eval [where ?e0.0 = "-2"] eval_simps)

lemma log_tiny_13: "round_pos Float64 (6227199484759203 / 9007199254740992) = Fin (6227199484759203 / 9007199254740992)"
  by (simp add: round_pos_eval [where ?e0.0 = "-1"] eval_simps)

lemma log_tiny_14: "round_pos Float64 1022 = Fin 1022"
  by (simp add: round_pos_eval [where ?e0.0 = "9"] eval_simps)

lemma log_tiny_15: "round_pos Float64 (86643397569993163677154015182272071 / 125000000000000000000000000000000000) = Fin (6243314768165359 / 9007199254740992)"
  by (simp add: round_pos_eval [where ?e0.0 = "-1"] eval_simps)

lemma log_tiny_16: "round_pos Float64 (3190333846532498449 / 4503599627370496) = Fin (3115560397004393 / 4398046511104)"
  by (simp add: round_pos_eval [where ?e0.0 = "9"] eval_simps)

lemma log_tiny_17: "round_pos Float64 (6386894892549756067 / 9007199254740992) = Fin (6237202043505621 / 8796093022208)"
  by (simp add: round_pos_eval [where ?e0.0 = "9"] eval_simps)

lemma log_tiny_18: "round_pos Float64 (6237202043505621 / 8796093022208) = Fin (6237202043505621 / 8796093022208)"
  by (simp add: round_pos_eval [where ?e0.0 = "9"] eval_simps)

lemma log_tiny_19: "round_pos Float64 (42734953568187836939770752803805 / 10384593717069655257060992658440192) = Fin (4744532940768913 / 1152921504606846976)"
  by (simp add: round_pos_eval [where ?e0.0 = "-8"] eval_simps)

lemma log_tiny_20: "round_pos Float64 (1 / 5) = Fin (3602879701896397 / 18014398509481984)"
  by (simp add: round_pos_eval [where ?e0.0 = "-3"] eval_simps)

lemma log_tiny_21: "round_pos Float64 (17093981427275137074041444306461 / 20769187434139310514121985316880384) = Fin (7591252705230261 / 9223372036854775808)"
  by (simp add: round_pos_eval [where ?e0.0 = "-11"] eval_simps)

lemma log_tiny_22: "round_pos Float64 (3195917388901942197 / 9223372036854775808) = Fin (3121013075099553 / 9007199254740992)"
  by (simp add: round_pos_eval [where ?e0.0 = "-2"] eval_simps)

lemma log_tiny_23: "round_pos Float64 (37986625393944730602463995468585 / 83076749736557242056487941267521536) = Fin (8434725228033619 / 18446744073709551616)"
  by (simp add: round_pos_eval [where ?e0.0 = "-12"] eval_simps)

lemma log_tiny_24: "round_pos Float64 (1 / 7) = Fin (2573485501354569 / 18014398509481984)"
  by (simp add: round_pos_eval [where ?e0.0 = "-3"] eval_simps)

lemma log_tiny_25: "round_pos Float64 (21706643082254129326436771255211 / 332306998946228968225951765070086144) = Fin (2409921493723891 / 36893488147419103232)"
  by (simp add: round_pos_eval [where ?e0.0 = "-14"] eval_simps)

lemma log_tiny_26: "round_pos Float64 (12786079477101492979 / 36893488147419103232) = Fin (6243202869678463 / 18014398509481984)"
  by (simp add: round_pos_eval [where ?e0.0 = "-2"] eval_simps)

lemma log_tiny_27: "round_pos Float64 (6243202869678463 / 9007199254740992) = Fin (6243202869678463 / 9007199254740992)"
  by (simp add: round_pos_eval [where ?e0.0 = "-1"] eval_simps)

lemma log_tiny_28: "round_pos Float64 (6386910895934675327 / 9007199254740992) = Fin (3118608835905603 / 4398046511104)"
  by (simp add: round_pos_eval [where ?e0.0 = "9"] eval_simps)

lemma log_tiny_29: "round_pos Float64 (3118608835905603 / 4398046511104) = Fin (3118608835905603 / 4398046511104)"
  by (simp add: round_pos_eval [where ?e0.0 = "9"] eval_simps)

lemma log_tiny_30: "round_pos Float64 (67531778478123932600294270915355 / 1329227995784915872903807060280344576) = Fin (937191692003735 / 18446744073709551616)"
  by (simp add: round_pos_eval [where ?e0.0 = "-15"] eval_simps)

lemma log_tiny_31: "round_pos Float64 (1 / 9) = Fin (2001599834386887 / 18014398509481984)"
  by (simp add: round_pos_eval [where ?e0.0 = "-4"] eval_simps)

lemma log_tiny_32: "round_pos Float64 (1875882735503442385524239022945 / 332306998946228968225951765070086144) = Fin (3332237127124391 / 590295810358705651712)"
  by (simp add: round_pos_eval [where ?e0.0 = "-18"] eval_simps)

lemma log_tiny_33: "round_pos Float64 (204580603870750999975 / 590295810358705651712) = Fin (6243304561485321 / 18014398509481984)"
  by (simp add: round_pos_eval [where ?e0.0 = "-2"] eval_simps)

lemma log_tiny_34: "round_pos Float64 (7503530942013766730521880080575 / 1329227995784915872903807060280344576) = Fin (6664474254248779 / 1180591620717411303424)"
  by (simp add: round_pos_eval [where ?e0.0 = "-18"] eval_simps)

lemma log_tiny_35: "round_pos Float64 (1 / 11) = Fin (3275345183542179 / 36028797018963968)"
  by (simp add: round_pos_eval [where ?e0.0 = "-4"] eval_simps)

lemma log_tiny_36: "round_pos Float64 (21828453649494593567975905749441 / 42535295865117307932921825928971026432) = Fin (4846890366726385 / 9444732965739290427392)"
  by (simp add: round_pos_eval [where ?e0.0 = "-21"] eval_simps)

lemma log_tiny_37: "round_pos Float64 (3273294508822382702833 / 9444732965739290427392) = Fin (6243313806195035 / 18014398509481984)"
  by (simp add: round_pos_eval [where ?e0.0 = "-2"] eval_simps)

lemma log_tiny_38: "round_pos Float64 (6243313806195035 / 9007199254740992) = Fin (6243313806195035 / 9007199254740992)"
  by (simp add: round_pos_eval [where ?e0.0 = "-1"] eval_simps)

lemma log_tiny_39: "round_pos Float64 (6386911006871191899 / 9007199254740992) = Fin (97456527814807 / 137438953472)"
  by (simp add: round_pos_eval [where ?e0.0 = "9"] eval_simps)

lemma log_tiny_40: "round_pos Float64 (97456527814807 / 137438953472) = Fin (97456527814807 / 137438953472)"
  by (simp add: round_pos_eval [where ?e0.0 = "9"] eval_simps)

lemma log_tiny_41: "round_pos Float64 (1 / 2) = Fin (1 / 2)"
  by (simp add: round_pos_eval [where ?e0.0 = "-1"] eval_simps)

lemma log_tiny_42: "round_pos Float64 (3 / 2) = Fin (3 / 2)"
  by (simp add: round_pos_eval [where ?e0.0 = "0"] eval_simps)

lemma log_tiny_43: "round_pos Float64 (36057617073158521194928777956921 / 324518553658426726783156020576256) = Fin (2001599834386887 / 18014398509481984)"
  by (simp add: round_pos_eval [where ?e0.0 = "-4"] eval_simps)

lemma log_tiny_44: "round_pos Float64 (12019205691052840398309592652307 / 324518553658426726783156020576256) = Fin (667199944795629 / 18014398509481984)"
  by (simp add: round_pos_eval [where ?e0.0 = "-5"] eval_simps)

lemma log_tiny_45: "round_pos Float64 (4006401897017613466103197550769 / 324518553658426726783156020576256) = Fin (222399981598543 / 18014398509481984)"
  by (simp add: round_pos_eval [where ?e0.0 = "-7"] eval_simps)

lemma log_tiny_46: "round_pos Float64 (1556799871189801 / 4503599627370496) = Fin (1556799871189801 / 4503599627370496)"
  by (simp add: round_pos_eval [where ?e0.0 = "-2"] eval_simps)

lemma log_tiny_47: "round_pos Float64 (1556799871189801 / 2251799813685248) = Fin (1556799871189801 / 2251799813685248)"
  by (simp add: round_pos_eval [where ?e0.0 = "-1"] eval_simps)

lemma log_tiny_48: "round_pos Float64 1073 = Fin 1073"
  by (simp add: round_pos_eval [where ?e0.0 = "10"] eval_simps)

lemma log_tiny_49: "round_pos Float64 (6699076746241430207 / 9007199254740992) = Fin (6542067135001397 / 8796093022208)"
  by (simp add: round_pos_eval [where ?e0.0 = "9"] eval_simps)

lemma log_tiny_50: "round_pos Float64 (1676325986431547433 / 2251799813685248) = Fin (818518548062279 / 1099511627776)"
  by (simp add: round_pos_eval [where ?e0.0 = "9"] eval_simps)

lemma log_tiny_51: "round_pos Float64 (818518548062279 / 1099511627776) = Fin (818518548062279 / 1099511627776)"
  by (simp add: round_pos_eval [where ?e0.0 = "9"] eval_simps)

lemma log_tiny_52: "round_pos Float64 (1335467299005871155367732516923 / 324518553658426726783156020576256) = Fin (4744532940768917 / 1152921504606846976)"
  by (simp add: round_pos_eval [where ?e0.0 = "-8"] eval_simps)

lemma log_tiny_53: "round_pos Float64 (17093981427275151485560251892049 / 20769187434139310514121985316880384) = Fin (1897813176307567 / 2305843009213693952)"
  by (simp add: round_pos_eval [where ?e0.0 = "-11"] eval_simps)

lemma log_tiny_54: "round_pos Float64 (798979347225485679 / 2305843009213693952) = Fin (6242026150199107 / 18014398509481984)"
  by (simp add: round_pos_eval [where ?e0.0 = "-2"] eval_simps)

lemma log_tiny_55: "round_pos Float64 (9496656348486194215415041991379 / 20769187434139310514121985316880384) = Fin (4217362614016815 / 9223372036854775808)"
  by (simp add: round_pos_eval [where ?e0.0 = "-12"] eval_simps)

lemma log_tiny_56: "round_pos Float64 (10853321541127078817388643077735 / 166153499473114484112975882535043072) = Fin (1204960746861947 / 18446744073709551616)"
  by (simp add: round_pos_eval [where ?e0.0 = "-14"] eval_simps)

lemma log_tiny_57: "round_pos Float64 (6393039738550747515 / 18446744073709551616) = Fin (48775022419363 / 140737488355328)"
  by (simp add: round_pos_eval [where ?e0.0 = "-2"] eval_simps)

lemma log_tiny_58: "round_pos Float64 (48775022419363 / 70368744177664) = Fin (48775022419363 / 70368744177664)"
  by (simp add: round_pos_eval [where ?e0.0 = "-1"] eval_simps)

lemma log_tiny_59: "round_pos Float64 (52385312102430539 / 70368744177664) = Fin (6548164012803817 / 8796093022208)"
  by (simp add: round_pos_eval [where ?e0.0 = "9"] eval_simps)

lemma log_tiny_60: "round_pos Float64 (6548164012803817 / 8796093022208) = Fin (6548164012803817 / 8796093022208)"
  by (simp add: round_pos_eval [where ?e0.0 = "9"] eval_simps)

lemma log_tiny_61: "round_pos Float64 (8441472309765505746857833504905 / 166153499473114484112975882535043072) = Fin (7497533536029893 / 147573952589676412928)"
  by (simp add: round_pos_eval [where ?e0.0 = "-15"] eval_simps)

lemma log_tiny_62: "round_pos Float64 (15007061884027565104991759213091 / 2658455991569831745807614120560689152) = Fin (6664474254248793 / 1180591620717411303424)"
  by (simp add: round_pos_eval [where ?e0.0 = "-18"] eval_simps)

lemma log_tiny_63: "round_pos Float64 (409161207741502065497 / 1180591620717411303424) = Fin (3121652280742661 / 9007199254740992)"
  by (simp add: round_pos_eval [where ?e0.0 = "-2"] eval_simps)

lemma log_tiny_64: "round_pos Float64 (21828453649494639422808475339947 / 42535295865117307932921825928971026432) = Fin (4846890366726395 / 9444732965739290427392)"
  by (simp add: round_pos_eval [where ?e0.0 = "-21"] eval_simps)

lemma log_tiny_65: "round_pos Float64 (3273294508822383227131 / 9444732965739290427392) = Fin (1560828451548759 / 4503599627370496)"
  by (simp add: round_pos_eval [where ?e0.0 = "-2"] eval_simps)

lemma log_tiny_66: "round_pos Float64 (1560828451548759 / 2251799813685248) = Fin (1560828451548759 / 2251799813685248)"
  by (simp add: round_pos_eval [where ?e0.0 = "-1"] eval_simps)

lemma log_tiny_67: "round_pos Float64 (1676330015011906391 / 2251799813685248) = Fin (6548164121140259 / 8796093022208)"
  by (simp add: round_pos_eval [where ?e0.0 = "9"] eval_simps)

lemma log_tiny_68: "round_pos Float64 (6548164121140259 / 8796093022208) = Fin (6548164121140259 / 8796093022208)"
  by (simp add: round_pos_eval [where ?e0.0 = "9"] eval_simps)

lemmas log_tiny_steps = log_tiny_1 log_tiny_2 log_tiny_3 log_tiny_4 log_tiny_5 log_tiny_6 log_tiny_7 log_tiny_8 log_tiny_9 log_tiny_10 log_tiny_11 log_tiny_12 log_tiny_13 log_tiny_14 log_tiny_15 log_tiny_16 log_tiny_17 log_tiny_18 log_tiny_19 log_tiny_20 log_tiny_21 log_tiny_22 log_tiny_23 log_tiny_24 log_tiny_25 log_tiny_26 log_tiny_27 log_tiny_28 log_tiny_29 log_tiny_30 log_tiny_31 log_tiny_32 log_tiny_33 log_tiny_34 log_tiny_35 log_tiny_36 log_tiny_37 log_tiny_38 log_tiny_39 log_tiny_40 log_tiny_41 log_tiny_42 log_tiny_43 log_tiny_44 log_tiny_45 log_tiny_46 log_tiny_47 log_tiny_48 log_tiny_49 log_tiny_50 log_tiny_51 log_tiny_52 log_tiny_53 log_tiny_54 log_tiny_55 log_tiny_56 log_tiny_57 log_tiny_58 log_tiny_59 log_tiny_60 log_tiny_61 log_tiny_62 log_tiny_63 log_tiny_64 log_tiny_65 log_tiny_66 log_tiny_67 log_tiny_68

lemma ilog2_tiny: "ilog2 (1 / 202402253307310618352495346718917307049556649764142118356901358027430339567995346891960383701437124495187077864316811911389808737385793476867013399940738509921517424276566361364466907742093216341239767678472745068562007483424692698618103355649159556340810056512358769552333414615230502532186327508646006263307707741093494784) = - 1074"
  by (rule ilog2_unique) (simp_all add: pow2_def)

lemma Float64bits_tiny: "Float64bits (Fin (1 / 202402253307310618352495346718917307049556649764142118356901358027430339567995346891960383701437124495187077864316811911389808737385793476867013399940738509921517424276566361364466907742093216341239767678472745068562007483424692698618103355649159556340810056512358769552333414615230502532186327508646006263307707741093494784)) = 1"
  by (simp add: Float64bits_def mag_bits_def ilog2_tiny emin_def pow2_def Let_def)

lemma log_reduce_tiny: "log_reduce (Fin (1 / 202402253307310618352495346718917307049556649764142118356901358027430339567995346891960383701437124495187077864316811911389808737385793476867013399940738509921517424276566361364466907742093216341239767678472745068562007483424692698618103355649159556340810056512358769552333414615230502532186327508646006263307707741093494784)) = (Fin (4503599627370497 / 9007199254740992), -1022)"
  by (simp add: log_reduce_def Float64bits_tiny of_go_int_def const_def fadd_Fin fmul_Fin
      log_tiny_steps Let_def)

lemma frexp_spec_tiny: "frexp_spec (1 / 202402253307310618352495346718917307049556649764142118356901358027430339567995346891960383701437124495187077864316811911389808737385793476867013399940738509921517424276566361364466907742093216341239767678472745068562007483424692698618103355649159556340810056512358769552333414615230502532186327508646006263307707741093494784) = (1 / 2, - 1073)"
  by (simp add: frexp_spec_def ilog2_tiny pow2_def)

lemma Log_tiny_1: "Log Float64 (Fin (1 / 202402253307310618352495346718917307049556649764142118356901358027430339567995346891960383701437124495187077864316811911389808737385793476867013399940738509921517424276566361364466907742093216341239767678472745068562007483424692698618103355649159556340810056512358769552333414615230502532186327508646006263307707741093494784)) PrecisionFast = Fin (- (6237202043505621 / 8796093022208))"
  by (simp add: Log_def IsInf_def log_reduce_tiny log_series_def normalizePrecision_def IsValid_def PrecisionAuto_def PrecisionFast_def
      PrecisionBalanced_def PrecisionHigh_def fadd_Fin fsub_Fin fmul_Fin fdiv_Fin const_def of_go_int_def
      ln2_def log_tiny_steps Let_def)

lemma Log_spec_tiny_1: "Log_spec Float64 (1 / 202402253307310618352495346718917307049556649764142118356901358027430339567995346891960383701437124495187077864316811911389808737385793476867013399940738509921517424276566361364466907742093216341239767678472745068562007483424692698618103355649159556340810056512358769552333414615230502532186327508646006263307707741093494784) PrecisionFast = Fin (- (818518548062279 / 1099511627776))"
  by (simp add: Log_spec_def frexp_spec_tiny log_series_def normalizePrecision_def IsValid_def PrecisionAuto_def PrecisionFast_def
      PrecisionBalanced_def PrecisionHigh_def fadd_Fin fsub_Fin fmul_Fin fdiv_Fin const_def of_go_int_def
      ln2_def log_tiny_steps Let_def)

lemma Log_tiny_2: "Log Float64 (Fin (1 / 202402253307310618352495346718917307049556649764142118356901358027430339567995346891960383701437124495187077864316811911389808737385793476867013399940738509921517424276566361364466907742093216341239767678472745068562007483424692698618103355649159556340810056512358769552333414615230502532186327508646006263307707741093494784)) PrecisionBalanced = Fin (- (3118608835905603 / 4398046511104))"
  by (simp add: Log_def IsInf_def log_reduce_tiny log_series_def normalizePrecision_def IsValid_def PrecisionAuto_def PrecisionFast_def
      PrecisionBalanced_def PrecisionHigh_def fadd_Fin fsub_Fin fmul_Fin fdiv_Fin const_def of_go_int_def
      ln2_def log_tiny_steps Let_def)

lemma Log_spec_tiny_2: "Log_spec Float64 (1 / 202402253307310618352495346718917307049556649764142118356901358027430339567995346891960383701437124495187077864316811911389808737385793476867013399940738509921517424276566361364466907742093216341239767678472745068562007483424692698618103355649159556340810056512358769552333414615230502532186327508646006263307707741093494784) PrecisionBalanced = Fin (- (6548164012803817 / 8796093022208))"
  by (simp add: Log_spec_def frexp_spec_tiny log_series_def normalizePrecision_def IsValid_def PrecisionAuto_def PrecisionFast_def
      PrecisionBalanced_def PrecisionHigh_def fadd_Fin fsub_Fin fmul_Fin fdiv_Fin const_def of_go_int_def
      ln2_def log_tiny_steps Let_def)

lemma Log_tiny_3: "Log Float64 (Fin (1 / 202402253307310618352495346718917307049556649764142118356901358027430339567995346891960383701437124495187077864316811911389808737385793476867013399940738509921517424276566361364466907742093216341239767678472745068562007483424692698618103355649159556340810056512358769552333414615230502532186327508646006263307707741093494784)) PrecisionHigh = Fin (- (97456527814807 / 137438953472))"
  by (simp add: Log_def IsInf_def log_reduce_tiny log_series_def normalizePrecision_def IsValid_def PrecisionAuto_def PrecisionFast_def
      PrecisionBalanced_def PrecisionHigh_def fadd_Fin fsub_Fin fmul_Fin fdiv_Fin const_def of_go_int_def
      ln2_def log_tiny_steps Let_def)

lemma Log_spec_tiny_3: "Log_spec Float64 (1 / 202402253307310618352495346718917307049556649764142118356901358027430339567995346891960383701437124495187077864316811911389808737385793476867013399940738509921517424276566361364466907742093216341239767678472745068562007483424692698618103355649159556340810056512358769552333414615230502532186327508646006263307707741093494784) PrecisionHigh = Fin (- (6548164121140259 / 8796093022208))"
  by (simp add: Log_spec_def frexp_spec_tiny log_series_def normalizePrecision_def IsValid_def PrecisionAuto_def PrecisionFast_def
      PrecisionBalanced_def PrecisionHigh_def fadd_Fin fsub_Fin fmul_Fin fdiv_Fin const_def of_go_int_def
      ln2_def log_tiny_steps Let_def)

text \<open>
  Claim C3 says that for every positive finite \<open>x\<close>, subnormal ones included, \<^verbatim>\<open>Log\<close>
  returns \<open>2\<sqdot>S(y) + e\<sqdot>ln2\<close> for the decomposition \<open>x = m \<sqdot> 2^e\<close> with \<open>m\<close> in
  \<open>[1/2, 1)\<close>.  On the least positive \<^verbatim>\<open>float64\<close>, \<open>2^-1074\<close>, the code reads the exponent
  field 0 and the fraction 1 as if the datum were normal: it continues with
  \<open>m = (1 + 2^-52) / 2\<close> and \<open>e = -1022\<close>, whose product is not \<open>x\<close>, where the
  decomposition of \<open>x\<close> is \<open>m = 1/2\<close> and \<open>e = -1073\<close>.  The results differ in every tier:
  about \<open>-709.09\<close> from the code, about \<open>-744.44\<close> from the decomposition of the claim.
\<close>

theorem C3_log_subnormal:
  "log_reduce (Fin (1 / 2 ^ 1074)) = (Fin (4503599627370497 / 9007199254740992), -1022) \<and>
   frexp_spec (1 / 2 ^ 1074) = (1 / 2, - 1073) \<and>
   Log Float64 (Fin (1 / 2 ^ 1074)) PrecisionFast = Fin (- (6237202043505621 / 8796093022208)) \<and>
   Log_spec Float64 (1 / 2 ^ 1074) PrecisionFast = Fin (- (818518548062279 / 1099511627776)) \<and>
   Log Float64 (Fin (1 / 2 ^ 1074)) PrecisionBalanced = Fin (- (3118608835905603 / 4398046511104)) \<and>
   Log_spec Float64 (1 / 2 ^ 1074) PrecisionBalanced = Fin (- (6548164012803817 / 8796093022208)) \<and>
   Log Float64 (Fin (1 / 2 ^ 1074)) PrecisionHigh = Fin (- (97456527814807 / 137438953472)) \<and>
   Log_spec Float64 (1 / 2 ^ 1074) PrecisionHigh = Fin (- (6548164121140259 / 8796093022208))"
  using log_reduce_tiny frexp_spec_tiny Log_tiny_1 Log_spec_tiny_1 Log_tiny_2 Log_spec_tiny_2
    Log_tiny_3 Log_spec_tiny_3
  by simp


section \<open>Edge cases of the exponential\<close>

subsection \<open>The error of one rounding\<close>

lemma rne_error: "\<bar>of_int (rne s) - s\<bar> \<le> 1 / 2"
proof -
  define n where "n = \<lfloor>s\<rfloor>"
  define r where "r = s - of_int n"
  have r: "0 \<le> r" "r < 1" unfolding r_def n_def by linarith+
  have s: "s = of_int n + r" by (simp add: r_def)
  have "rne s = (if r < 1 / 2 then n else if 1 / 2 < r then n + 1 else if even n then n else n + 1)"
    unfolding rne_def Let_def n_def r_def by (rule refl)
  then show ?thesis using r unfolding s by (auto simp: abs_if)
qed

lemma rne_nonneg: "0 \<le> s \<Longrightarrow> 0 \<le> rne s"
  by (simp add: rne_def Let_def)

lemma rne_ge: "of_int k \<le> s \<Longrightarrow> k \<le> rne s"
proof -
  assume "of_int k \<le> s"
  then have "k \<le> \<lfloor>s\<rfloor>" by (simp add: le_floor_iff)
  then show ?thesis by (simp add: rne_def Let_def)
qed

lemma round_pos_unfold:
  "round_pos T q =
    (if pow2 (emax T + 1) \<le> of_int (rne (q / pow2 (max (ilog2 q) (emin T) - int (frac_bits T))))
          * pow2 (max (ilog2 q) (emin T) - int (frac_bits T))
     then PInf
     else Fin (of_int (rne (q / pow2 (max (ilog2 q) (emin T) - int (frac_bits T))))
          * pow2 (max (ilog2 q) (emin T) - int (frac_bits T))))"
  unfolding round_pos_def Let_def by (rule refl)

text \<open>The error of one rounding is at most half the spacing.\<close>

lemma round_pos_error:
  assumes "0 < q" and "q < pow2 (emax T)"
  shows "\<exists>v. round_pos T q = Fin v \<and> 0 \<le> v \<and>
    \<bar>v - q\<bar> \<le> pow2 (max (ilog2 q) (emin T) - int (frac_bits T) - 1)"
proof -
  define u where "u = pow2 (max (ilog2 q) (emin T) - int (frac_bits T))"
  define n where "n = rne (q / u)"
  have upos: "0 < u" by (simp add: u_def)
  have e0: "ilog2 q < emax T" by (rule ilog2_less [OF assms])
  have rp: "round_pos T q = Fin (of_int n * u)"
    unfolding u_def n_def by (rule round_pos_eval [OF ilog2_bounds [OF assms(1)] e0])
  have "0 \<le> n" unfolding n_def using assms(1) upos by (intro rne_nonneg) simp
  then have nonneg: "0 \<le> of_int n * u" using upos by simp
  have eq: "of_int n * u - q = (of_int n - q / u) * u"
    using upos by (simp add: left_diff_distrib)
  have "\<bar>of_int n * u - q\<bar> = \<bar>of_int n - q / u\<bar> * \<bar>u\<bar>"
    unfolding eq by (rule abs_mult)
  also have "\<dots> = \<bar>of_int n - q / u\<bar> * u" using upos by simp
  also have "\<dots> \<le> 1 / 2 * u"
    using rne_error [of "q / u"] upos unfolding n_def by (intro mult_right_mono) simp_all
  also have "\<dots> = pow2 (max (ilog2 q) (emin T) - int (frac_bits T) - 1)"
    unfolding u_def using pow2_add [of "max (ilog2 q) (emin T) - int (frac_bits T) - 1" 1]
    by (simp add: pow2_def [of 1])
  finally show ?thesis using rp nonneg by simp
qed

lemma round_pos_error64:
  assumes "0 < q" and "q < pow2 1023"
  shows "\<exists>v. round_pos Float64 q = Fin v \<and> 0 \<le> v \<and> \<bar>v - q\<bar> \<le> q / 2 ^ 53 + 1 / 2 ^ 1075"
proof -
  obtain v where v: "round_pos Float64 q = Fin v" "0 \<le> v"
    "\<bar>v - q\<bar> \<le> pow2 (max (ilog2 q) (emin Float64) - int (frac_bits Float64) - 1)"
    using round_pos_error [of q Float64] assms by (auto simp: emax_def)
  have "pow2 (max (ilog2 q) (emin Float64) - int (frac_bits Float64) - 1) \<le> q / 2 ^ 53 + 1 / 2 ^ 1075"
  proof (cases "emin Float64 \<le> ilog2 q")
    case True
    then have "max (ilog2 q) (emin Float64) - int (frac_bits Float64) - 1 = ilog2 q + (- 53)"
      by simp
    then have "pow2 (max (ilog2 q) (emin Float64) - int (frac_bits Float64) - 1) = pow2 (ilog2 q) * pow2 (- 53)"
      by (simp only: pow2_add)
    also have "\<dots> \<le> q * pow2 (- 53)"
      using ilog2_bounds(1) [OF assms(1)] by (intro mult_right_mono) (simp_all add: less_imp_le)
    also have "\<dots> = q / 2 ^ 53" by (simp add: pow2_def)
    finally show ?thesis by simp
  next
    case False
    then have mm: "max (ilog2 q) (emin Float64) - int (frac_bits Float64) - 1 = - 1075"
      by (simp add: emin_def)
    have "pow2 (max (ilog2 q) (emin Float64) - int (frac_bits Float64) - 1) = pow2 (- 1075)"
      by (simp only: mm)
    also have "\<dots> = 1 / 2 ^ 1075" by (simp add: pow2_def)
    finally show ?thesis using assms(1) by simp
  qed
  with v show ?thesis by force
qed

text \<open>Rounding is monotone against a power of two.\<close>

lemma round_pos_ge:
  assumes "pow2 j \<le> q" and "emin T \<le> j"
  shows "round_pos T q = PInf \<or> (\<exists>v. round_pos T q = Fin v \<and> pow2 j \<le> v)"
proof -
  have qpos: "0 < q" using assms(1) pow2_pos [of j] by linarith
  define u where "u = pow2 (max (ilog2 q) (emin T) - int (frac_bits T))"
  define n where "n = rne (q / u)"
  define K where "K = (2 :: int) ^ frac_bits T"
  have upos: "0 < u" by (simp add: u_def)
  have je: "j \<le> ilog2 q" by (rule ilog2_ge [OF qpos assms(1)])
  then have m: "max (ilog2 q) (emin T) = ilog2 q" using assms(2) by simp
  have pe: "pow2 (ilog2 q) = of_int K * u"
  proof -
    have "pow2 (ilog2 q) = pow2 (int (frac_bits T) + (ilog2 q - int (frac_bits T)))" by simp
    also have "\<dots> = pow2 (int (frac_bits T)) * u" unfolding u_def m by (rule pow2_add)
    finally show ?thesis by (simp add: pow2_of_nat K_def)
  qed
  have "of_int K * u \<le> q" using ilog2_bounds(1) [OF qpos] pe by simp
  then have "of_int K \<le> q / u" using upos by (simp add: pos_le_divide_eq)
  then have "K \<le> n" unfolding n_def by (rule rne_ge)
  then have "(of_int K :: rat) \<le> of_int n" by (simp only: of_int_le_iff)
  then have "of_int K * u \<le> of_int n * u" using upos by (intro mult_right_mono) simp_all
  then have "pow2 (ilog2 q) \<le> of_int n * u" by (simp only: pe)
  moreover have "pow2 j \<le> pow2 (ilog2 q)" by (rule pow2_mono [OF je])
  ultimately have v: "pow2 j \<le> of_int n * u" by linarith
  have "round_pos T q = (if pow2 (emax T + 1) \<le> of_int n * u then PInf else Fin (of_int n * u))"
    unfolding n_def u_def by (rule round_pos_unfold)
  with v show ?thesis by auto
qed

lemma round_pos_overflow:
  assumes "pow2 (emax T + 1) \<le> q"
  shows "round_pos T q = PInf"
proof -
  have "emin T \<le> emax T + 1" by (cases T) (simp_all add: emin_def emax_def)
  from round_pos_ge [OF assms this] show ?thesis
    by (auto simp: round_pos_unfold split: if_splits)
qed

lemma round_pos_le:
  assumes "0 < q" and "q \<le> pow2 j" and "emin T - int (frac_bits T) \<le> j" and "j \<le> emax T"
  shows "\<exists>v. round_pos T q = Fin v \<and> 0 \<le> v \<and> v \<le> pow2 j"
proof -
  define e where "e = max (ilog2 q) (emin T)"
  define u where "u = pow2 (e - int (frac_bits T))"
  define n where "n = rne (q / u)"
  define K where "K = (2 :: int) ^ nat (j - e + int (frac_bits T))"
  have upos: "0 < u" by (simp add: u_def)
  have "q < pow2 (j + 1)" using assms(2) pow2_strict_mono [of j "j + 1"] by simp
  then have "ilog2 q < j + 1" by (rule ilog2_less [OF assms(1)])
  then have d: "0 \<le> j - e + int (frac_bits T)" using assms(3) by (auto simp: e_def max_def)
  have pj: "pow2 j = of_int K * u"
  proof -
    have "pow2 j = pow2 ((j - e + int (frac_bits T)) + (e - int (frac_bits T)))" by simp
    also have "\<dots> = pow2 (j - e + int (frac_bits T)) * u" unfolding u_def by (rule pow2_add)
    finally show ?thesis using pow2_nonneg [OF d] by (simp add: K_def)
  qed
  have "q / u \<le> of_int K" using assms(2) upos pj by (simp add: pos_divide_le_eq)
  then have "n \<le> K" unfolding n_def by (rule rne_le)
  then have "(of_int n :: rat) \<le> of_int K" by (simp only: of_int_le_iff)
  then have "of_int n * u \<le> of_int K * u" using upos by (intro mult_right_mono) simp_all
  then have le: "of_int n * u \<le> pow2 j" by (simp only: pj)
  have "0 \<le> n" unfolding n_def using assms(1) upos by (intro rne_nonneg) simp
  then have ge: "0 \<le> of_int n * u" using upos by simp
  have "pow2 j < pow2 (emax T + 1)" using assms(4) by (intro pow2_strict_mono) simp
  with le have "\<not> pow2 (emax T + 1) \<le> of_int n * u" by simp
  moreover have "round_pos T q = (if pow2 (emax T + 1) \<le> of_int n * u then PInf else Fin (of_int n * u))"
    unfolding n_def u_def e_def by (rule round_pos_unfold)
  ultimately show ?thesis using le ge by simp
qed

lemma round_pos_zero:
  assumes "0 < q" and "q \<le> pow2 (emin T - int (frac_bits T) - 1)"
  shows "round_pos T q = Fin 0"
proof -
  define u where "u = pow2 (emin T - int (frac_bits T))"
  have upos: "0 < u" by (simp add: u_def)
  have "pow2 (emin T - int (frac_bits T) - 1) < pow2 (emin T)" by (intro pow2_strict_mono) simp
  with assms(2) have "q < pow2 (emin T)" by simp
  then have "ilog2 q < emin T" by (rule ilog2_less [OF assms(1)])
  then have m: "max (ilog2 q) (emin T) = emin T" by simp
  have "u = pow2 ((emin T - int (frac_bits T) - 1) + 1)" by (simp add: u_def)
  also have "\<dots> = pow2 (emin T - int (frac_bits T) - 1) * 2"
    by (simp only: pow2_add) (simp add: pow2_def)
  finally have "q \<le> u / 2" using assms(2) by simp
  then have s: "0 < q / u" "q / u \<le> 1 / 2" using assms(1) upos by (simp_all add: pos_divide_le_eq)
  from s(2) have s3: "q / u < 1" by linarith
  have "\<lfloor>q / u\<rfloor> = 0"
  proof (rule floor_unique)
    show "of_int 0 \<le> q / u" using s(1) by simp
    show "q / u < of_int 0 + 1" using s3 by simp
  qed
  then have "rne (q / u) = 0" using s(2) by (simp add: rne_def Let_def)
  moreover have "\<not> pow2 (emax T + 1) \<le> 0" using pow2_pos [of "emax T + 1"] by linarith
  ultimately show ?thesis unfolding round_pos_unfold m u_def [symmetric] by simp
qed

subsection \<open>Error bounds of the \<^verbatim>\<open>float64\<close> operations\<close>

lemma rval_fneg [simp]: "rval (fneg z) = - rval z"
  by (cases z) simp_all

lemma is_finite_fneg [simp]: "is_finite (fneg z) = is_finite z"
  by (cases z) simp_all

lemma lt_pow2_1023: "\<bar>x\<bar> \<le> 4096 \<Longrightarrow> \<bar>x\<bar> < pow2 1023"
proof -
  assume a: "\<bar>x\<bar> \<le> 4096"
  have "pow2 12 \<le> pow2 1023" by (rule pow2_mono) simp
  moreover have "pow2 12 = 4096" by (simp add: pow2_def)
  moreover have "pow2 12 < pow2 1023" by (rule pow2_strict_mono) simp
  ultimately show ?thesis using a by linarith
qed

lemma fround_near64:
  assumes "\<bar>q\<bar> < pow2 1023"
  shows "near64 (fround Float64 (Fin q)) q"
proof -
  consider "q = 0" | "0 < q" | "q < 0" by linarith
  then show ?thesis
  proof cases
    case 1
    then show ?thesis by (simp add: near64_def)
  next
    case 2
    with assms obtain v where "round_pos Float64 q = Fin v" "0 \<le> v"
      "\<bar>v - q\<bar> \<le> q / 2 ^ 53 + 1 / 2 ^ 1075"
      using round_pos_error64 [of q] by auto
    with 2 show ?thesis by (simp add: near64_def)
  next
    case 3
    with assms obtain v where v: "round_pos Float64 (- q) = Fin v" "0 \<le> v"
      "\<bar>v - (- q)\<bar> \<le> (- q) / 2 ^ 53 + 1 / 2 ^ 1075"
      using round_pos_error64 [of "- q"] by auto
    have fr: "fround Float64 (Fin q) = fneg (Fin v)" using 3 v(1) by simp
    have "\<bar>- v - q\<bar> = \<bar>v - (- q)\<bar>" by (simp add: abs_if)
    with v(3) 3 have "\<bar>- v - q\<bar> \<le> \<bar>q\<bar> / 2 ^ 53 + 1 / 2 ^ 1075" by simp
    then show ?thesis unfolding fr near64_def rval_fneg is_finite_fneg using v(2) 3 by simp
  qed
qed

lemma near64_err:
  assumes "near64 z q" and "\<bar>q\<bar> \<le> B" and "(B + 1) / 9007199254740992 \<le> E"
  shows "q - E \<le> rval z" and "rval z \<le> q + E"
proof -
  have a: "\<bar>rval z - q\<bar> \<le> \<bar>q\<bar> / 2 ^ 53 + 1 / 2 ^ 1075"
    using assms(1) unfolding near64_def by (rule conjunct1 [OF conjunct2])
  have b: "\<bar>q\<bar> / 2 ^ 53 \<le> B / 2 ^ 53" using assms(2) by (intro divide_right_mono) simp_all
  have "(2 :: rat) ^ 53 \<le> 2 ^ 1075" by (rule power_increasing) simp_all
  then have c: "(1 :: rat) / 2 ^ 1075 \<le> 1 / 2 ^ 53" by (intro divide_left_mono) simp_all
  have d: "(2 :: rat) ^ 53 = 9007199254740992" by simp
  from a b c have "\<bar>rval z - q\<bar> \<le> B / 2 ^ 53 + 1 / 2 ^ 53" by linarith
  then have "\<bar>rval z - q\<bar> \<le> (B + 1) / 9007199254740992" unfolding d by (simp add: add_divide_distrib)
  with assms(3) have e: "\<bar>rval z - q\<bar> \<le> E" by linarith
  from e show "q - E \<le> rval z" by linarith
  from e show "rval z \<le> q + E" by linarith
qed

lemma near64_finite: "near64 z q \<Longrightarrow> is_finite z"
  by (simp add: near64_def)

lemma near64_nonneg: "near64 z q \<Longrightarrow> 0 \<le> q \<Longrightarrow> 0 \<le> rval z"
  by (simp add: near64_def)

lemma near64_nonpos: "near64 z q \<Longrightarrow> q \<le> 0 \<Longrightarrow> rval z \<le> 0"
  by (simp add: near64_def)

lemma fadd_near64:
  assumes "is_finite a" and "is_finite b" and "\<bar>rval a + rval b\<bar> < pow2 1023"
  shows "near64 (fadd Float64 a b) (rval a + rval b)"
proof (cases "a = NZero \<and> b = NZero")
  case True
  then show ?thesis by (simp add: fadd_def near64_def)
next
  case False
  with assms(1,2) have "add_exact a b = Fin (rval a + rval b)" by (cases a; cases b) simp_all
  then show ?thesis using fround_near64 [OF assms(3)] by (simp add: fadd_def)
qed

lemma fsub_near64:
  assumes "is_finite a" and "is_finite b" and "\<bar>rval a - rval b\<bar> < pow2 1023"
  shows "near64 (fsub Float64 a b) (rval a - rval b)"
  using fadd_near64 [of a "fneg b"] assms by (simp add: fsub_def)

lemma fmul_near64:
  assumes "is_finite a" and "is_finite b" and "\<bar>rval a * rval b\<bar> < pow2 1023"
  shows "near64 (fmul Float64 a b) (rval a * rval b)"
proof (cases "is_zero a \<or> is_zero b")
  case True
  then have "rval a * rval b = 0" by (cases a; cases b) auto
  then have z: "rval a * rval b = 0" .
  have eq: "fmul Float64 a b = signed_zero (fsign a \<noteq> fsign b)"
    using True assms(1,2) by (cases a; cases b) (simp_all add: fmul_def)
  have n: "near64 (signed_zero s) 0" for s by (simp add: near64_def signed_zero_def)
  show ?thesis unfolding eq z by (rule n)
next
  case False
  then have "fmul Float64 a b = fround Float64 (Fin (rval a * rval b))"
    using assms(1,2) by (cases a; cases b) (simp_all add: fmul_def)
  then show ?thesis using fround_near64 [OF assms(3)] by simp
qed

lemma const_bound:
  assumes "0 \<le> q" and "q \<le> 1"
  shows "is_finite (const Float64 q)" and "0 \<le> rval (const Float64 q)"
    and "q - 1 / 1125899906842624 \<le> rval (const Float64 q)"
    and "rval (const Float64 q) \<le> q + 1 / 1125899906842624"
proof -
  have a: "\<bar>q\<bar> \<le> 1" using assms by simp
  then have "\<bar>q\<bar> < pow2 1023" by (intro lt_pow2_1023) simp
  then have n: "near64 (const Float64 q) q" unfolding const_def by (rule fround_near64)
  show "is_finite (const Float64 q)" by (rule near64_finite [OF n])
  show "0 \<le> rval (const Float64 q)" by (rule near64_nonneg [OF n assms(1)])
  show "q - 1 / 1125899906842624 \<le> rval (const Float64 q)" by (rule near64_err(1) [OF n a]) simp
  show "rval (const Float64 q) \<le> q + 1 / 1125899906842624" by (rule near64_err(2) [OF n a]) simp
qed

subsection \<open>One step of the Horner scheme of \<^verbatim>\<open>expPoly\<close>\<close>

lemma horner_step_bound:
  assumes r: "is_finite r" "\<bar>rval r\<bar> \<le> 3 / 8"
    and t: "is_finite t" "\<bar>rval t\<bar> \<le> S" "S \<le> 2"
    and c: "is_finite c" "lo \<le> rval c" "rval c \<le> hi" "- 2 \<le> lo" "hi \<le> 2"
  shows "is_finite (horner_step r c t)"
    and "lo - 3 / 8 * S - 1 / 562949953421312 \<le> rval (horner_step r c t)"
    and "rval (horner_step r c t) \<le> hi + 3 / 8 * S + 1 / 562949953421312"
proof -
  define m where "m = fmul Float64 r t"
  define p where "p = rval r * rval t"
  have "\<bar>rval r\<bar> * \<bar>rval t\<bar> \<le> 3 / 8 * S" using r(2) t(2) by (intro mult_mono) simp_all
  then have rt: "\<bar>p\<bar> \<le> 3 / 8 * S" by (simp add: p_def abs_mult)
  then have rt1: "\<bar>p\<bar> \<le> 1" using t(3) by linarith
  then have "\<bar>p\<bar> < pow2 1023" by (intro lt_pow2_1023) simp
  then have nm: "near64 m p" unfolding m_def p_def using r(1) t(1) by (intro fmul_near64)
  have fm: "is_finite m" by (rule near64_finite [OF nm])
  have em: "p - 1 / 2251799813685248 \<le> rval m" "rval m \<le> p + 1 / 2251799813685248"
    by (rule near64_err [OF nm rt1], simp)+
  have s: "\<bar>rval c + rval m\<bar> \<le> 4" using c em rt1 by linarith
  then have "\<bar>rval c + rval m\<bar> < pow2 1023" by (intro lt_pow2_1023) simp
  then have na: "near64 (fadd Float64 c m) (rval c + rval m)" using c(1) fm by (intro fadd_near64)
  have ea: "rval c + rval m - 1 / 1125899906842624 \<le> rval (fadd Float64 c m)"
    "rval (fadd Float64 c m) \<le> rval c + rval m + 1 / 1125899906842624"
    by (rule near64_err [OF na s], simp)+
  have hs: "horner_step r c t = fadd Float64 c m" by (simp add: horner_step_def m_def)
  show "is_finite (horner_step r c t)" unfolding hs by (rule near64_finite [OF na])
  show "lo - 3 / 8 * S - 1 / 562949953421312 \<le> rval (horner_step r c t)"
    unfolding hs using ea em rt c by linarith
  show "rval (horner_step r c t) \<le> hi + 3 / 8 * S + 1 / 562949953421312"
    unfolding hs using ea em rt c by linarith
qed

lemma horner_step_abs:
  assumes "is_finite r" "\<bar>rval r\<bar> \<le> 3 / 8"
    and "is_finite t" "\<bar>rval t\<bar> \<le> S" "S \<le> 2"
    and "is_finite c" "0 \<le> rval c" "rval c \<le> hi" "hi \<le> 2"
    and "hi + 3 / 8 * S + 1 / 562949953421312 \<le> B"
  shows "is_finite (horner_step r c t) \<and> \<bar>rval (horner_step r c t)\<bar> \<le> B"
proof -
  have S: "0 \<le> S" using assms(4) by linarith
  note h = horner_step_bound [OF assms(1-6) assms(7) assms(8) _ assms(9)]
  have "0 - 3 / 8 * S - 1 / 562949953421312 \<le> rval (horner_step r c t)" by (rule h(2)) simp
  moreover have "rval (horner_step r c t) \<le> hi + 3 / 8 * S + 1 / 562949953421312" by (rule h(3)) simp
  moreover have "is_finite (horner_step r c t)" by (rule h(1)) simp
  ultimately show ?thesis using assms(7,8,10) S by (simp add: abs_le_iff)
qed

lemma pow2_ge0 [simp]: "0 \<le> pow2 k"
  using pow2_pos [of k] by linarith

lemma fround_pos: "0 < q \<Longrightarrow> fround T (Fin q) = round_pos T q"
  by simp

lemma const_le:
  assumes "0 \<le> q" and "q \<le> 1" and "q + 1 / 1125899906842624 \<le> h"
  shows "is_finite (const Float64 q) \<and> \<bar>rval (const Float64 q)\<bar> \<le> h \<and> 0 \<le> rval (const Float64 q)
    \<and> rval (const Float64 q) \<le> h"
  using const_bound [OF assms(1,2)] assms(3) by (simp add: abs_le_iff)

lemma expPoly_tail:
  assumes r: "is_finite r" "\<bar>rval r\<bar> \<le> 3 / 8"
  shows "\<exists>t. is_finite t \<and> \<bar>rval t\<bar> \<le> 1 / 4 \<and>
     expPoly r p = horner_step r (Fin 1) (horner_step r (Fin 1) (horner_step r (const Float64 (1 / 2)) t))"
proof -
  have c6: "is_finite (const Float64 (1 / 6)) \<and> \<bar>rval (const Float64 (1 / 6))\<bar> \<le> 1 / 5
      \<and> 0 \<le> rval (const Float64 (1 / 6)) \<and> rval (const Float64 (1 / 6)) \<le> 1 / 5"
    by (rule const_le) simp_all
  have c24: "is_finite (const Float64 (1 / 24)) \<and> \<bar>rval (const Float64 (1 / 24))\<bar> \<le> 1 / 20
      \<and> 0 \<le> rval (const Float64 (1 / 24)) \<and> rval (const Float64 (1 / 24)) \<le> 1 / 20"
    by (rule const_le) simp_all
  have c120: "is_finite (const Float64 (1 / 120)) \<and> \<bar>rval (const Float64 (1 / 120))\<bar> \<le> 1 / 100
      \<and> 0 \<le> rval (const Float64 (1 / 120)) \<and> rval (const Float64 (1 / 120)) \<le> 1 / 100"
    by (rule const_le) simp_all
  have c720: "is_finite (const Float64 (1 / 720)) \<and> \<bar>rval (const Float64 (1 / 720))\<bar> \<le> 1 / 500
      \<and> 0 \<le> rval (const Float64 (1 / 720)) \<and> rval (const Float64 (1 / 720)) \<le> 1 / 500"
    by (rule const_le) simp_all
  have c5040: "is_finite (const Float64 (1 / 5040)) \<and> \<bar>rval (const Float64 (1 / 5040))\<bar> \<le> 1 / 1000
      \<and> 0 \<le> rval (const Float64 (1 / 5040)) \<and> rval (const Float64 (1 / 5040)) \<le> 1 / 1000"
    by (rule const_le) simp_all
  consider "p = PrecisionFast" | "p = PrecisionHigh" | "p \<noteq> PrecisionFast" "p \<noteq> PrecisionHigh"
    by blast
  then show ?thesis
  proof cases
    case 1
    have "expPoly r p = horner_step r (Fin 1) (horner_step r (Fin 1)
        (horner_step r (const Float64 (1 / 2)) (const Float64 (1 / 6))))"
      using 1 by (simp add: expPoly_def Let_def horner_step_def)
    moreover have "\<bar>rval (const Float64 (1 / 6))\<bar> \<le> 1 / 4" using c6 by linarith
    ultimately show ?thesis using c6 by blast
  next
    case 2
    define v1 where "v1 = horner_step r (const Float64 (1 / 720)) (const Float64 (1 / 5040))"
    define v2 where "v2 = horner_step r (const Float64 (1 / 120)) v1"
    define v3 where "v3 = horner_step r (const Float64 (1 / 24)) v2"
    define t where "t = horner_step r (const Float64 (1 / 6)) v3"
    have v1: "is_finite v1 \<and> \<bar>rval v1\<bar> \<le> 1 / 100" unfolding v1_def
      using c720 c5040 by (intro horner_step_abs [OF r, where S = "1 / 1000" and hi = "1 / 500"]) simp_all
    have v2: "is_finite v2 \<and> \<bar>rval v2\<bar> \<le> 1 / 50" unfolding v2_def
      using c120 v1 by (intro horner_step_abs [OF r, where S = "1 / 100" and hi = "1 / 100"]) simp_all
    have v3: "is_finite v3 \<and> \<bar>rval v3\<bar> \<le> 1 / 10" unfolding v3_def
      using c24 v2 by (intro horner_step_abs [OF r, where S = "1 / 50" and hi = "1 / 20"]) simp_all
    have t: "is_finite t \<and> \<bar>rval t\<bar> \<le> 1 / 4" unfolding t_def
      using c6 v3 by (intro horner_step_abs [OF r, where S = "1 / 10" and hi = "1 / 5"]) simp_all
    have "expPoly r p = horner_step r (Fin 1) (horner_step r (Fin 1)
        (horner_step r (const Float64 (1 / 2)) t))"
      using 2 by (simp add: expPoly_def Let_def horner_step_def t_def v3_def v2_def v1_def
          PrecisionFast_def PrecisionHigh_def PrecisionAuto_def PrecisionBalanced_def)
    then show ?thesis using t by blast
  next
    case 3
    define v3 where "v3 = horner_step r (const Float64 (1 / 24)) (const Float64 (1 / 120))"
    define t where "t = horner_step r (const Float64 (1 / 6)) v3"
    have v3: "is_finite v3 \<and> \<bar>rval v3\<bar> \<le> 1 / 10" unfolding v3_def
      using c24 c120 by (intro horner_step_abs [OF r, where S = "1 / 100" and hi = "1 / 20"]) simp_all
    have t: "is_finite t \<and> \<bar>rval t\<bar> \<le> 1 / 4" unfolding t_def
      using c6 v3 by (intro horner_step_abs [OF r, where S = "1 / 10" and hi = "1 / 5"]) simp_all
    have "expPoly r p = horner_step r (Fin 1) (horner_step r (Fin 1)
        (horner_step r (const Float64 (1 / 2)) t))"
      using 3 by (simp add: expPoly_def Let_def horner_step_def t_def v3_def)
    then show ?thesis using t by blast
  qed
qed

lemma horner_one_sign:
  assumes r: "is_finite r" "\<bar>rval r\<bar> \<le> 3 / 8"
    and s: "is_finite s" "3 / 4 \<le> rval s" "rval s \<le> 5 / 4"
  shows "(0 \<le> rval r \<longrightarrow> 1 \<le> rval (horner_step r (Fin 1) s)) \<and>
         (rval r \<le> 0 \<longrightarrow> rval (horner_step r (Fin 1) s) \<le> 1)"
proof -
  define m where "m = fmul Float64 r s"
  define p where "p = rval r * rval s"
  have sa: "\<bar>rval s\<bar> \<le> 5 / 4" using s by linarith
  have "\<bar>rval r\<bar> * \<bar>rval s\<bar> \<le> 3 / 8 * (5 / 4)" using r(2) sa by (intro mult_mono) simp_all
  then have p1: "\<bar>p\<bar> \<le> 1 / 2" by (simp add: p_def abs_mult)
  then have "\<bar>p\<bar> < pow2 1023" by (intro lt_pow2_1023) simp
  then have nm: "near64 m p" unfolding m_def p_def using r(1) s(1) by (intro fmul_near64)
  have fm: "is_finite m" by (rule near64_finite [OF nm])
  have em: "p - 1 / 1125899906842624 \<le> rval m" "rval m \<le> p + 1 / 1125899906842624"
    by (rule near64_err [OF nm p1], simp)+
  have q: "0 < 1 + rval m" "\<bar>1 + rval m\<bar> \<le> 4" using p1 em by linarith+
  have lt: "1 + rval m < pow2 1023" using lt_pow2_1023 [of "1 + rval m"] q by linarith
  have "fadd Float64 (Fin 1) m = round_pos Float64 (1 + rval m)"
    using fm q(1) by (cases m) (simp_all add: fadd_def)
  then have eq: "horner_step r (Fin 1) s = round_pos Float64 (1 + rval m)"
    by (simp add: horner_step_def m_def)
  have A: "1 \<le> rval (horner_step r (Fin 1) s)" if a: "0 \<le> rval r"
  proof -
    have "0 \<le> p" unfolding p_def using a s(2) by simp
    then have "0 \<le> rval m" by (rule near64_nonneg [OF nm])
    then have "pow2 0 \<le> 1 + rval m" by simp
    from round_pos_ge [OF this, of Float64] round_pos_error64 [OF q(1) lt]
    show ?thesis unfolding eq by (auto simp: emin_def)
  qed
  have B: "rval (horner_step r (Fin 1) s) \<le> 1" if a: "rval r \<le> 0"
  proof -
    have "p \<le> 0" unfolding p_def using a s(2) by (simp add: mult_le_0_iff)
    then have "rval m \<le> 0" by (rule near64_nonpos [OF nm])
    then have "1 + rval m \<le> pow2 0" by simp
    from round_pos_le [OF q(1) this, of Float64]
    show ?thesis unfolding eq by (auto simp: emin_def emax_def)
  qed
  show ?thesis using A B by blast
qed

lemma expPoly_bounds:
  assumes r: "is_finite r" "\<bar>rval r\<bar> \<le> 3 / 8"
  shows "is_finite (expPoly r p) \<and> 1 / 2 \<le> rval (expPoly r p) \<and> rval (expPoly r p) \<le> 3 / 2 \<and>
    (0 \<le> rval r \<longrightarrow> 1 \<le> rval (expPoly r p)) \<and> (rval r \<le> 0 \<longrightarrow> rval (expPoly r p) \<le> 1)"
proof -
  obtain t where t: "is_finite t" "\<bar>rval t\<bar> \<le> 1 / 4"
    and eq: "expPoly r p = horner_step r (Fin 1) (horner_step r (Fin 1) (horner_step r (const Float64 (1 / 2)) t))"
    using expPoly_tail [OF r] by blast
  define s1 where "s1 = horner_step r (const Float64 (1 / 2)) t"
  define s0 where "s0 = horner_step r (Fin 1) s1"
  have c2: "is_finite (const Float64 (1 / 2))" "1 / 2 - 1 / 1125899906842624 \<le> rval (const Float64 (1 / 2))"
    "rval (const Float64 (1 / 2)) \<le> 1 / 2 + 1 / 1125899906842624"
    using const_bound [of "1 / 2"] by simp_all
  have h1: "is_finite s1"
    "1 / 2 - 1 / 1125899906842624 - 3 / 8 * (1 / 4) - 1 / 562949953421312 \<le> rval s1"
    "rval s1 \<le> 1 / 2 + 1 / 1125899906842624 + 3 / 8 * (1 / 4) + 1 / 562949953421312"
    unfolding s1_def by (rule horner_step_bound [OF r t _ c2]; simp)+
  then have s1: "is_finite s1" "\<bar>rval s1\<bar> \<le> 3 / 5" by linarith+
  have f1: "is_finite (Fin 1)" "1 \<le> rval (Fin 1)" "rval (Fin 1) \<le> 1" by simp_all
  have h0: "is_finite s0" "1 - 3 / 8 * (3 / 5) - 1 / 562949953421312 \<le> rval s0"
    "rval s0 \<le> 1 + 3 / 8 * (3 / 5) + 1 / 562949953421312"
    unfolding s0_def by (rule horner_step_bound [OF r s1 _ f1]; simp)+
  then have s0: "is_finite s0" "3 / 4 \<le> rval s0" "rval s0 \<le> 5 / 4" "\<bar>rval s0\<bar> \<le> 5 / 4" by linarith+
  have he: "is_finite (horner_step r (Fin 1) s0)"
    "1 - 3 / 8 * (5 / 4) - 1 / 562949953421312 \<le> rval (horner_step r (Fin 1) s0)"
    "rval (horner_step r (Fin 1) s0) \<le> 1 + 3 / 8 * (5 / 4) + 1 / 562949953421312"
    by (rule horner_step_bound [OF r s0(1) s0(4) _ f1]; simp)+
  then have "1 / 2 \<le> rval (horner_step r (Fin 1) s0)" "rval (horner_step r (Fin 1) s0) \<le> 3 / 2"
    by linarith+
  with he(1) horner_one_sign [OF r s0(1-3)] show ?thesis
    unfolding eq s1_def [symmetric] s0_def [symmetric] by blast
qed

subsection \<open>The range reduction of \<^verbatim>\<open>Exp\<close>\<close>

lemma invLn2_value: "const Float64 invLn2 = Fin (3248660424278399 / 2251799813685248)"
  by (simp add: const_def invLn2_def round_pos_eval [where ?e0.0 = 0] eval_simps)

lemma ln2_value: "const Float64 ln2 = Fin (6243314768165359 / 9007199254740992)"
  by (simp add: const_def ln2_def round_pos_eval [where ?e0.0 = "- 1"] eval_simps)

lemma maxLogFloat64_value:
  "const Float64 maxLogFloat64 = Fin (6243314768165359 / 8796093022208)"
  by (simp add: const_def maxLogFloat64_def round_pos_eval [where ?e0.0 = 9] eval_simps)

lemma minLogFloat64_value:
  "const Float64 minLogFloat64 = Fin (- (409641319322373 / 549755813888))"
  by (simp add: const_def minLogFloat64_def round_pos_eval [where ?e0.0 = 9] eval_simps)

lemma to_go_int_ffloor: "is_finite z \<Longrightarrow> to_go_int (ffloor z) = \<lfloor>rval z\<rfloor>"
  by (cases z) simp_all

lemma exp_k_bounds:
  assumes "\<bar>q\<bar> \<le> 746"
    and "k = to_go_int (ffloor (fadd Float64 (fmul Float64 (Fin q) (const Float64 invLn2)) (Fin (1 / 2))))"
  shows "of_int k \<le> q * (3248660424278399 / 2251799813685248) + 1 / 2 + 1 / 1099511627776"
    and "q * (3248660424278399 / 2251799813685248) + 1 / 2 - 1 / 1099511627776 < of_int k + 1"
proof -
  define t1 where "t1 = fmul Float64 (Fin q) (Fin (3248660424278399 / 2251799813685248))"
  define t2 where "t2 = fadd Float64 t1 (Fin (1 / 2))"
  have b1: "\<bar>q * (3248660424278399 / 2251799813685248)\<bar> \<le> 1100" using assms(1) by linarith
  then have "\<bar>rval (Fin q) * rval (Fin (3248660424278399 / 2251799813685248))\<bar> < pow2 1023"
    using lt_pow2_1023 [of "q * (3248660424278399 / 2251799813685248)"] by simp
  then have "near64 t1 (rval (Fin q) * rval (Fin (3248660424278399 / 2251799813685248)))"
    unfolding t1_def by (intro fmul_near64) simp_all
  then have n1: "near64 t1 (q * (3248660424278399 / 2251799813685248))" by simp
  have e1: "q * (3248660424278399 / 2251799813685248) - 1 / 2199023255552 \<le> rval t1"
    "rval t1 \<le> q * (3248660424278399 / 2251799813685248) + 1 / 2199023255552"
    by (rule near64_err [OF n1 b1], simp)+
  have b2: "\<bar>rval t1 + 1 / 2\<bar> \<le> 1102" using b1 e1 by linarith
  then have "\<bar>rval t1 + rval (Fin (1 / 2))\<bar> < pow2 1023"
    using lt_pow2_1023 [of "rval t1 + 1 / 2"] by simp
  then have "near64 t2 (rval t1 + rval (Fin (1 / 2)))"
    unfolding t2_def using near64_finite [OF n1] by (intro fadd_near64) simp_all
  then have n2: "near64 t2 (rval t1 + 1 / 2)" by simp
  have e2: "rval t1 + 1 / 2 - 1 / 2199023255552 \<le> rval t2"
    "rval t2 \<le> rval t1 + 1 / 2 + 1 / 2199023255552"
    by (rule near64_err [OF n2 b2], simp)+
  have k: "k = \<lfloor>rval t2\<rfloor>"
    unfolding assms(2) invLn2_value t1_def [symmetric] t2_def [symmetric]
    by (rule to_go_int_ffloor [OF near64_finite [OF n2]])
  have fl: "of_int \<lfloor>rval t2\<rfloor> \<le> rval t2" "rval t2 < of_int \<lfloor>rval t2\<rfloor> + 1" by linarith+
  show "of_int k \<le> q * (3248660424278399 / 2251799813685248) + 1 / 2 + 1 / 1099511627776"
    unfolding k using fl e1 e2 by linarith
  show "q * (3248660424278399 / 2251799813685248) + 1 / 2 - 1 / 1099511627776 < of_int k + 1"
    unfolding k using fl e1 e2 by linarith
qed

lemma exp_r_bounds:
  assumes q: "\<bar>q\<bar> \<le> 746"
    and k1: "of_int k \<le> q * (3248660424278399 / 2251799813685248) + 1 / 2 + 1 / 1099511627776"
    and k2: "q * (3248660424278399 / 2251799813685248) + 1 / 2 - 1 / 1099511627776 < of_int k + 1"
    and pr: "pr = fmul Float64 (of_go_int Float64 k) (const Float64 ln2)"
  shows "is_finite pr"
    and "of_int k * (6243314768165359 / 9007199254740992) - 1 / 1099511627776 \<le> rval pr"
    and "rval pr \<le> of_int k * (6243314768165359 / 9007199254740992) + 1 / 1099511627776"
    and "\<bar>q - rval pr\<bar> \<le> 7 / 20"
proof -
  define kf where "kf = of_go_int Float64 k"
  have kb: "\<bar>of_int k :: rat\<bar> \<le> 1100" using q k1 k2 by linarith
  then have "\<bar>of_int k :: rat\<bar> < pow2 1023" using lt_pow2_1023 [of "of_int k"] by simp
  then have nk: "near64 kf (of_int k)" unfolding kf_def of_go_int_def by (rule fround_near64)
  have ek: "of_int k - 1 / 2199023255552 \<le> rval kf" "rval kf \<le> of_int k + 1 / 2199023255552"
    by (rule near64_err [OF nk kb], simp)+
  have b: "\<bar>rval kf * (6243314768165359 / 9007199254740992)\<bar> \<le> 1100" using kb ek by linarith
  then have "\<bar>rval kf * rval (Fin (6243314768165359 / 9007199254740992))\<bar> < pow2 1023"
    using lt_pow2_1023 [of "rval kf * (6243314768165359 / 9007199254740992)"] by simp
  then have "near64 pr (rval kf * rval (Fin (6243314768165359 / 9007199254740992)))"
    unfolding pr ln2_value kf_def [symmetric] using near64_finite [OF nk] by (intro fmul_near64) simp_all
  then have np: "near64 pr (rval kf * (6243314768165359 / 9007199254740992))" by simp
  have ep: "rval kf * (6243314768165359 / 9007199254740992) - 1 / 2199023255552 \<le> rval pr"
    "rval pr \<le> rval kf * (6243314768165359 / 9007199254740992) + 1 / 2199023255552"
    by (rule near64_err [OF np b], simp)+
  show "is_finite pr" by (rule near64_finite [OF np])
  show lo: "of_int k * (6243314768165359 / 9007199254740992) - 1 / 1099511627776 \<le> rval pr"
    using ek ep by linarith
  show hi: "rval pr \<le> of_int k * (6243314768165359 / 9007199254740992) + 1 / 1099511627776"
    using ek ep by linarith
  show "\<bar>q - rval pr\<bar> \<le> 7 / 20" using lo hi k1 k2 kb by linarith
qed

subsection \<open>The scaling by \<open>2^k\<close>\<close>

lemma Float64frombits_pow2:
  assumes "- 1023 < k" and "k < 1024"
  shows "Float64frombits (push_bit 52 (word_of_int (k + 1023))) = Fin (pow2 k)"
proof -
  define n where "n = k + 1023"
  have n: "0 < n" "n < 2047" using assms by (simp_all add: n_def)
  have u0: "uint (word_of_int n :: 64 word) = n"
    using n by (simp add: uint_word_of_int take_bit_eq_mod)
  have "uint (push_bit 52 (word_of_int n :: 64 word)) =
      take_bit LENGTH(64) (push_bit 52 (uint (word_of_int n :: 64 word)))"
    by (rule unsigned_push_bit_eq)
  also have "\<dots> = take_bit 64 (n * 4503599627370496)" unfolding u0 by (simp add: push_bit_eq_mult)
  also have "\<dots> = n * 4503599627370496" using n by (simp add: take_bit_eq_mod)
  finally have u: "uint (push_bit 52 (word_of_int n :: 64 word)) = n * 4503599627370496" .
  have d1: "n * 4503599627370496 div 9223372036854775808 = 0" using n by simp
  have d2: "n * 4503599627370496 div 4503599627370496 = n" by simp
  have d3: "n mod 2048 = n" using n by simp
  have d4: "n * 4503599627370496 mod 4503599627370496 = 0" by simp
  have p: "4503599627370496 * pow2 (n - 1075) = pow2 k"
  proof -
    have "pow2 k = pow2 (52 + (n - 1075))" by (simp add: n_def)
    also have "\<dots> = pow2 52 * pow2 (n - 1075)" by (rule pow2_add)
    finally show ?thesis by (simp add: pow2_def [of 52])
  qed
  show ?thesis
    unfolding Float64frombits_def n_def [symmetric] u
    using n p by (simp add: decode_def Let_def d1 d2 d3 d4)
qed

lemma exp_scale_eq:
  assumes "is_finite expr" and "rval expr \<noteq> 0"
  shows "(if - 1023 < k \<and> k < 1024
          then fmul Float64 expr (Float64frombits (push_bit 52 (word_of_int (k + 1023))))
          else Ldexp expr k) = fround Float64 (Fin (rval expr * pow2 k))"
proof -
  obtain e where e: "expr = Fin e" "e \<noteq> 0" using assms by (cases expr) simp_all
  have pk: "pow2 k \<noteq> 0" using pow2_pos [of k] by linarith
  show ?thesis
  proof (cases "- 1023 < k \<and> k < 1024")
    case True
    then have fb: "Float64frombits (push_bit 52 (word_of_int (k + 1023))) = Fin (pow2 k)"
      by (intro Float64frombits_pow2) simp_all
    have "fmul Float64 (Fin e) (Fin (pow2 k)) = fround Float64 (Fin (e * pow2 k))"
      by (rule fmul_Fin [OF e(2) pk])
    then show ?thesis unfolding e(1) fb using True by (simp only: if_True rval.simps simp_thms)
  next
    case False
    then show ?thesis unfolding e(1) by (simp only: if_False rval.simps Ldexp.simps)
  qed
qed

subsection \<open>The unclamped branch of \<^verbatim>\<open>Exp\<close>\<close>

lemma Exp_overflow: "fgt x (const Float64 maxLogFloat64) \<Longrightarrow> Exp T x p = PInf"
  by (cases x) (simp_all add: Exp_def IsInf_def fgt_def fne_def maxLogFloat64_value Let_def)

lemma Exp_underflow: "flt x (const Float64 minLogFloat64) \<Longrightarrow> Exp T x p = Fin 0"
  by (cases x)
    (simp_all add: Exp_def IsInf_def fgt_def fne_def maxLogFloat64_value minLogFloat64_value Let_def)

lemma Exp_core:
  assumes lo: "- (409641319322373 / 549755813888) \<le> q" and hi: "q \<le> 6243314768165359 / 8796093022208"
  shows "\<exists>k e. Exp T (Fin q) p = fround T (fround Float64 (Fin (e * pow2 k))) \<and>
      1 / 2 \<le> e \<and> e \<le> 3 / 2 \<and>
      of_int k \<le> q * (3248660424278399 / 2251799813685248) + 1 / 2 + 1 / 1099511627776 \<and>
      q * (3248660424278399 / 2251799813685248) + 1 / 2 - 1 / 1099511627776 < of_int k + 1 \<and>
      (of_int k * (6243314768165359 / 9007199254740992) + 1 / 1099511627776 \<le> q \<longrightarrow> 1 \<le> e) \<and>
      (q \<le> of_int k * (6243314768165359 / 9007199254740992) - 1 / 1099511627776 \<longrightarrow> e \<le> 1)"
proof -
  define k where "k = to_go_int (ffloor (fadd Float64 (fmul Float64 (Fin q) (const Float64 invLn2)) (Fin (1 / 2))))"
  define pr where "pr = fmul Float64 (of_go_int Float64 k) (const Float64 ln2)"
  define r where "r = fsub Float64 (Fin q) pr"
  define expr where "expr = expPoly r (normalizePrecision p)"
  have qb: "\<bar>q\<bar> \<le> 746" using lo hi by linarith
  note kb = exp_k_bounds [OF qb k_def]
  note rb = exp_r_bounds [OF qb kb pr_def]
  have "\<bar>rval (Fin q) - rval pr\<bar> < pow2 1023" using rb(4) lt_pow2_1023 [of "q - rval pr"] by simp
  then have "near64 r (rval (Fin q) - rval pr)" unfolding r_def using rb(1) by (intro fsub_near64) simp_all
  then have nr: "near64 r (q - rval pr)" by simp
  have er: "q - rval pr - 1 / 1125899906842624 \<le> rval r" "rval r \<le> q - rval pr + 1 / 1125899906842624"
    by (rule near64_err [OF nr rb(4)], simp)+
  have r: "is_finite r" "\<bar>rval r\<bar> \<le> 3 / 8"
    using near64_finite [OF nr] er rb(4) by (simp, linarith)
  have eb: "is_finite expr" "1 / 2 \<le> rval expr" "rval expr \<le> 3 / 2"
    "0 \<le> rval r \<longrightarrow> 1 \<le> rval expr" "rval r \<le> 0 \<longrightarrow> rval expr \<le> 1"
    unfolding expr_def using expPoly_bounds [OF r, of "normalizePrecision p"] by blast+
  have ne: "rval expr \<noteq> 0" using eb(2) by linarith
  have ex: "Exp T (Fin q) p = fround T (fround Float64 (Fin (rval expr * pow2 k)))"
  proof -
    have g: "\<not> fgt (Fin q) (const Float64 maxLogFloat64)" "\<not> flt (Fin q) (const Float64 minLogFloat64)"
      using lo hi by (simp_all add: fgt_def maxLogFloat64_value minLogFloat64_value)
    have "Exp T (Fin q) p = fround T (if - 1023 < k \<and> k < 1024
        then fmul Float64 expr (Float64frombits (push_bit 52 (word_of_int (k + 1023))))
        else Ldexp expr k)"
      unfolding Exp_def Let_def expr_def r_def pr_def k_def using g by (simp add: fne_def IsInf_def)
    then show ?thesis by (simp only: exp_scale_eq [OF eb(1) ne])
  qed
  have s1: "1 \<le> rval expr" if "of_int k * (6243314768165359 / 9007199254740992) + 1 / 1099511627776 \<le> q"
  proof -
    from that rb(3) have "0 \<le> q - rval pr" by linarith
    then have "0 \<le> rval r" by (rule near64_nonneg [OF nr])
    with eb(4) show ?thesis by blast
  qed
  have s2: "rval expr \<le> 1" if "q \<le> of_int k * (6243314768165359 / 9007199254740992) - 1 / 1099511627776"
  proof -
    from that rb(2) have "q - rval pr \<le> 0" by linarith
    then have "rval r \<le> 0" by (rule near64_nonpos [OF nr])
    with eb(5) show ?thesis by blast
  qed
  show ?thesis
    using ex eb(2,3) kb s1 s2 by (intro exI [of _ k] exI [of _ "rval expr"]) blast
qed

subsection \<open>The thresholds of \<^verbatim>\<open>float32\<close>\<close>

lemma Exp32_overflow:
  assumes "fle (Fin (11629080 / 131072)) x"
  shows "Exp Float32 x p = PInf"
proof (cases x)
  case (Fin q)
  with assms have q: "11629080 / 131072 \<le> q" by (auto simp: fle_def)
  show ?thesis
  proof (cases "q \<le> 6243314768165359 / 8796093022208")
    case False
    then have "fgt x (const Float64 maxLogFloat64)" using Fin by (simp add: fgt_def maxLogFloat64_value)
    then show ?thesis by (rule Exp_overflow)
  next
    case True
    have lo: "- (409641319322373 / 549755813888) \<le> q" using q by linarith
    from Exp_core [OF lo True, of Float32 p] obtain k e where
      ex: "Exp Float32 (Fin q) p = fround Float32 (fround Float64 (Fin (e * pow2 k)))"
      and e: "1 / 2 \<le> e" "e \<le> 3 / 2"
      and k2: "q * (3248660424278399 / 2251799813685248) + 1 / 2 - 1 / 1099511627776 < of_int k + 1"
      and s1: "of_int k * (6243314768165359 / 9007199254740992) + 1 / 1099511627776 \<le> q \<longrightarrow> 1 \<le> e"
      by blast
    have "(of_int 127 :: rat) < of_int k" using q k2 by simp
    then have k: "128 \<le> k" by (simp only: of_int_less_iff)
    have big: "pow2 128 \<le> e * pow2 k"
    proof (cases "k = 128")
      case True
      have "1 \<le> e" using s1 q unfolding True by simp
      then have "1 * pow2 128 \<le> e * pow2 128"
        using pow2_pos [of 128] by (intro mult_right_mono) simp_all
      then show ?thesis unfolding True by simp
    next
      case False
      with k have "129 \<le> k" by simp
      then have "pow2 129 \<le> pow2 k" by (rule pow2_mono)
      moreover have "pow2 129 = 2 * pow2 128" using pow2_add [of 1 128] by (simp add: pow2_def [of 1])
      moreover have "1 / 2 * pow2 k \<le> e * pow2 k" using e(1) by (intro mult_right_mono) simp_all
      ultimately show ?thesis by linarith
    qed
    have pos: "0 < e * pow2 k" using big pow2_pos [of 128] by linarith
    then have f64: "fround Float64 (Fin (e * pow2 k)) = round_pos Float64 (e * pow2 k)"
      by (rule fround_pos)
    from round_pos_ge [OF big, of Float64]
    consider "round_pos Float64 (e * pow2 k) = PInf"
      | v where "round_pos Float64 (e * pow2 k) = Fin v" "pow2 128 \<le> v"
      by (auto simp: emin_def)
    then show ?thesis
    proof cases
      case 1
      then show ?thesis unfolding Fin ex f64 by simp
    next
      case 2
      have vpos: "0 < v" using 2(2) pow2_pos [of 128] by linarith
      have "round_pos Float32 v = PInf" using 2(2) by (intro round_pos_overflow) (simp add: emax_def)
      then show ?thesis unfolding Fin ex f64 2(1) using vpos by simp
    qed
  qed
qed (use assms in \<open>simp_all add: fle_def Exp_def IsInf_def fne_def\<close>)

lemma Exp32_underflow:
  assumes "fle x (Fin (- (13627829 / 131072)))"
  shows "Exp Float32 x p = Fin 0"
proof (cases x)
  case (Fin q)
  with assms have q: "q \<le> - (13627829 / 131072)" by (auto simp: fle_def)
  show ?thesis
  proof (cases "- (409641319322373 / 549755813888) \<le> q")
    case False
    then have "flt x (const Float64 minLogFloat64)" using Fin by (simp add: minLogFloat64_value)
    then show ?thesis by (rule Exp_underflow)
  next
    case True
    have hi: "q \<le> 6243314768165359 / 8796093022208" using q by linarith
    from Exp_core [OF True hi, of Float32 p] obtain k e where
      ex: "Exp Float32 (Fin q) p = fround Float32 (fround Float64 (Fin (e * pow2 k)))"
      and e: "1 / 2 \<le> e" "e \<le> 3 / 2"
      and k1: "of_int k \<le> q * (3248660424278399 / 2251799813685248) + 1 / 2 + 1 / 1099511627776"
      and s2: "q \<le> of_int k * (6243314768165359 / 9007199254740992) - 1 / 1099511627776 \<longrightarrow> e \<le> 1"
      by blast
    have "(of_int k :: rat) < of_int (- 149)" using q k1 by simp
    then have k: "k \<le> - 150" by (simp only: of_int_less_iff)
    have small: "e * pow2 k \<le> pow2 (- 150)"
    proof (cases "k = - 150")
      case True
      have "e \<le> 1" using s2 q unfolding True by simp
      then have "e * pow2 (- 150) \<le> 1 * pow2 (- 150)"
        using pow2_pos [of "- 150"] by (intro mult_right_mono) simp_all
      then show ?thesis unfolding True by simp
    next
      case False
      with k have "k \<le> - 151" by simp
      then have "pow2 k \<le> pow2 (- 151)" by (rule pow2_mono)
      moreover have "pow2 (- 150) = 2 * pow2 (- 151)" using pow2_add [of 1 "- 151"] by (simp add: pow2_def [of 1])
      moreover have "e * pow2 k \<le> 3 / 2 * pow2 k" using e(2) by (intro mult_right_mono) simp_all
      moreover have "0 < pow2 (- 151)" by (rule pow2_pos)
      ultimately show ?thesis by linarith
    qed
    have pos: "0 < e * pow2 k" using e(1) pow2_pos [of k] by simp
    then have f64: "fround Float64 (Fin (e * pow2 k)) = round_pos Float64 (e * pow2 k)"
      by (rule fround_pos)
    from round_pos_le [OF pos small, of Float64]
    obtain v where v: "round_pos Float64 (e * pow2 k) = Fin v" "0 \<le> v" "v \<le> pow2 (- 150)"
      by (auto simp: emin_def emax_def)
    show ?thesis
    proof (cases "v = 0")
      case True
      then show ?thesis unfolding Fin ex f64 v(1) by simp
    next
      case False
      with v(2) have vpos: "0 < v" by simp
      have "round_pos Float32 v = Fin 0" using v(3) by (intro round_pos_zero [OF vpos]) (simp add: emin_def)
      then show ?thesis unfolding Fin ex f64 v(1) using vpos by simp
    qed
  qed
qed (use assms in \<open>simp_all add: fle_def Exp_def IsInf_def fne_def\<close>)

subsection \<open>The neighbouring \<^verbatim>\<open>float32\<close> values\<close>

text \<open>The roundings met when \<^verbatim>\<open>Exp\<close> runs on the \<^verbatim>\<open>float32\<close> just below the overflow
  threshold and on the one just above the underflow threshold, in the three tiers.\<close>

lemma floor_rat_neg_numeral_div:
  "\<lfloor>- (numeral a / numeral b) :: rat\<rfloor> = - numeral a div numeral b"
  by (metis floor_divide_of_int_eq of_int_numeral of_int_minus minus_divide_left)

text \<open>Rounding in the top binade, where the result may overflow.\<close>

lemma round_pos_eval_top:
  assumes "pow2 e0 \<le> q" and "q < pow2 (e0 + 1)"
  shows "round_pos T q =
    (if pow2 (emax T + 1) \<le> of_int (rne (q / pow2 (max e0 (emin T) - int (frac_bits T))))
          * pow2 (max e0 (emin T) - int (frac_bits T))
     then PInf
     else Fin (of_int (rne (q / pow2 (max e0 (emin T) - int (frac_bits T))))
          * pow2 (max e0 (emin T) - int (frac_bits T))))"
  unfolding round_pos_unfold ilog2_unique [OF assms] by (rule refl)

lemmas Float64frombits_pow2_128 = Float64frombits_pow2 [of 128, simplified]

lemmas Float64frombits_pow2_m150 = Float64frombits_pow2 [of "- 150", simplified]

lemma exp32_1: "round_pos Float64 (88722839111673 / 125000000000) = Fin (6243314768165359 / 8796093022208)"
  by (simp add: round_pos_eval [where ?e0.0 = "9"] eval_simps)

lemma exp32_2: "round_pos Float64 (745133219101941 / 1000000000000) = Fin (409641319322373 / 549755813888)"
  by (simp add: round_pos_eval [where ?e0.0 = "9"] eval_simps)

lemma exp32_3: "round_pos Float64 (1442695040888963407359924681001892137 / 1000000000000000000000000000000000000) = Fin (3248660424278399 / 2251799813685248)"
  by (simp add: round_pos_eval [where ?e0.0 = "0"] eval_simps)

lemma exp32_4: "round_pos Float64 (37778928718107019964521 / 295147905179352825856) = Fin (4503599252475145 / 35184372088832)"
  by (simp add: round_pos_eval [where ?e0.0 = "6"] eval_simps)

lemma exp32_5: "round_pos Float64 (4521191438519561 / 35184372088832) = Fin (4521191438519561 / 35184372088832)"
  by (simp add: round_pos_eval [where ?e0.0 = "7"] eval_simps)

lemma exp32_6: "round_pos Float64 128 = Fin 128"
  by (simp add: round_pos_eval [where ?e0.0 = "7"] eval_simps)

lemma exp32_7: "round_pos Float64 (86643397569993163677154015182272071 / 125000000000000000000000000000000000) = Fin (6243314768165359 / 9007199254740992)"
  by (simp add: round_pos_eval [where ?e0.0 = "-1"] eval_simps)

lemma exp32_8: "round_pos Float64 (6243314768165359 / 70368744177664) = Fin (6243314768165359 / 70368744177664)"
  by (simp add: round_pos_eval [where ?e0.0 = "6"] eval_simps)

lemma exp32_9: "round_pos Float64 (519715311 / 70368744177664) = Fin (519715311 / 70368744177664)"
  by (simp add: round_pos_eval [where ?e0.0 = "-18"] eval_simps)

lemma exp32_10: "round_pos Float64 (1 / 2) = Fin (1 / 2)"
  by (simp add: round_pos_eval [where ?e0.0 = "-1"] eval_simps)

lemma exp32_11: "round_pos Float64 (1 / 6) = Fin (6004799503160661 / 36028797018963968)"
  by (simp add: round_pos_eval [where ?e0.0 = "-3"] eval_simps)

lemma exp32_12: "round_pos Float64 (3120786241277788414580571 / 2535301200456458802993406410752) = Fin (173238437 / 140737488355328)"
  by (simp add: round_pos_eval [where ?e0.0 = "-20"] eval_simps)

lemma exp32_13: "round_pos Float64 (70368570939227 / 140737488355328) = Fin (70368570939227 / 140737488355328)"
  by (simp add: round_pos_eval [where ?e0.0 = "-2"] eval_simps)

lemma exp32_14: "round_pos Float64 (36571623730305922404597 / 9903520314283042199192993792) = Fin (8719354565216523 / 2361183241434822606848)"
  by (simp add: round_pos_eval [where ?e0.0 = "-19"] eval_simps)

lemma exp32_15: "round_pos Float64 (2361174522080257390325 / 2361183241434822606848) = Fin (4503582996521487 / 4503599627370496)"
  by (simp add: round_pos_eval [where ?e0.0 = "-1"] eval_simps)

lemma exp32_16: "round_pos Float64 (2340581037651476534387457 / 316912650057057350374175801344) = Fin (4359671916163483 / 590295810358705651712)"
  by (simp add: round_pos_eval [where ?e0.0 = "-18"] eval_simps)

lemma exp32_17: "round_pos Float64 (590291450686789488229 / 590295810358705651712) = Fin (4503566365713421 / 4503599627370496)"
  by (simp add: round_pos_eval [where ?e0.0 = "-1"] eval_simps)

lemma exp32_18: "round_pos Float64 340279853741185892519358209488643424256 = Fin 340279853741185892519358209488643424256"
  by (simp add: round_pos_eval [where ?e0.0 = "127"] eval_simps)

lemma exp32_19: "round_pos Float32 340279853741185892519358209488643424256 = Fin 340279851902147610656242037972608745472"
  by (simp add: round_pos_eval_top [where ?e0.0 = "127"] eval_simps)

lemma exp32_20: "round_pos Float64 (1 / 24) = Fin (6004799503160661 / 144115188075855872)"
  by (simp add: round_pos_eval [where ?e0.0 = "-5"] eval_simps)

lemma exp32_21: "round_pos Float64 (1 / 120) = Fin (4803839602528529 / 576460752303423488)"
  by (simp add: round_pos_eval [where ?e0.0 = "-7"] eval_simps)

lemma exp32_22: "round_pos Float64 (2496628993022230835607519 / 40564819207303340847894502572032) = Fin (4650333883282227 / 75557863725914323419136)"
  by (simp add: round_pos_eval [where ?e0.0 = "-24"] eval_simps)

lemma exp32_23: "round_pos Float64 (3148239671579213352141 / 75557863725914323419136) = Fin (6004790633352687 / 144115188075855872)"
  by (simp add: round_pos_eval [where ?e0.0 = "-5"] eval_simps)

lemma exp32_24: "round_pos Float64 (3120781631502778696890657 / 10141204801825835211973625643008) = Fin (5812908767727723 / 18889465931478580854784)"
  by (simp add: round_pos_eval [where ?e0.0 = "-22"] eval_simps)

lemma exp32_25: "round_pos Float64 (3148238509004328906645 / 18889465931478580854784) = Fin (3002394207958535 / 18014398509481984)"
  by (simp add: round_pos_eval [where ?e0.0 = "-3"] eval_simps)

lemma exp32_26: "round_pos Float64 (1560390239533768692629385 / 1267650600228229401496703205376) = Fin (5812906621149811 / 4722366482869645213696)"
  by (simp add: round_pos_eval [where ?e0.0 = "-20"] eval_simps)

lemma exp32_27: "round_pos Float64 (2361177428528201457037 / 4722366482869645213696) = Fin (9007177080261999 / 18014398509481984)"
  by (simp add: round_pos_eval [where ?e0.0 = "-2"] eval_simps)

lemma exp32_28: "round_pos Float64 (4681167837500436771766689 / 1267650600228229401496703205376) = Fin (8719354565256157 / 2361183241434822606848)"
  by (simp add: round_pos_eval [where ?e0.0 = "-19"] eval_simps)

lemma exp32_29: "round_pos Float64 (2361174522080257350691 / 2361183241434822606848) = Fin (4503582996521487 / 4503599627370496)"
  by (simp add: round_pos_eval [where ?e0.0 = "-1"] eval_simps)

lemma exp32_30: "round_pos Float64 (1 / 720) = Fin (6405119470038039 / 4611686018427387904)"
  by (simp add: round_pos_eval [where ?e0.0 = "-10"] eval_simps)

lemma exp32_31: "round_pos Float64 (1 / 5040) = Fin (3660068268593165 / 18446744073709551616)"
  by (simp add: round_pos_eval [where ?e0.0 = "-13"] eval_simps)

lemma exp32_32: "round_pos Float64 (1902193518493128280449315 / 1298074214633706907132624082305024) = Fin (221444470632487 / 151115727451828646838272)"
  by (simp add: round_pos_eval [where ?e0.0 = "-30"] eval_simps)

lemma exp32_33: "round_pos Float64 (209882733349735829465 / 151115727451828646838272) = Fin (3202556356044553 / 2305843009213693952)"
  by (simp add: round_pos_eval [where ?e0.0 = "-10"] eval_simps)

lemma exp32_34: "round_pos Float64 (1664417572576721592250983 / 162259276829213363391578010288128) = Fin (3100219317854795 / 302231454903657293676544)"
  by (simp add: round_pos_eval [where ?e0.0 = "-27"] eval_simps)

lemma exp32_35: "round_pos Float64 (2518592357311159557557 / 302231454903657293676544) = Fin (1200958422332363 / 144115188075855872)"
  by (simp add: round_pos_eval [where ?e0.0 = "-7"] eval_simps)

lemma exp32_36: "round_pos Float64 (624156479960533381909893 / 10141204801825835211973625643008) = Fin (2325164079519113 / 37778931862957161709568)"
  by (simp add: round_pos_eval [where ?e0.0 = "-24"] eval_simps)

lemma exp32_37: "round_pos Float64 (1574119835792468798071 / 37778931862957161709568) = Fin (6004790633363605 / 144115188075855872)"
  by (simp add: round_pos_eval [where ?e0.0 = "-5"] eval_simps)

lemma exp32_38: "round_pos Float64 (3120781631508452948656155 / 10141204801825835211973625643008) = Fin (1453227191934573 / 4722366482869645213696)"
  by (simp add: round_pos_eval [where ?e0.0 = "-22"] eval_simps)

lemma exp32_39: "round_pos Float64 (787059627251082224019 / 4722366482869645213696) = Fin (3002394207958535 / 18014398509481984)"
  by (simp add: round_pos_eval [where ?e0.0 = "-3"] eval_simps)

lemma exp32_40: "round_pos Float64 (11068046373118261421843 / 73786976294838206464) = Fin (1319413944854529 / 8796093022208)"
  by (simp add: round_pos_eval [where ?e0.0 = "7"] eval_simps)

lemma exp32_41: "round_pos Float64 (1315015898343425 / 8796093022208) = Fin (1315015898343425 / 8796093022208)"
  by (simp add: round_pos_eval [where ?e0.0 = "7"] eval_simps)

lemma exp32_42: "round_pos Float64 150 = Fin 150"
  by (simp add: round_pos_eval [where ?e0.0 = "7"] eval_simps)

lemma exp32_43: "round_pos Float64 (468248607612401925 / 4503599627370496) = Fin (1829096123485945 / 17592186044416)"
  by (simp add: round_pos_eval [where ?e0.0 = "6"] eval_simps)

lemma exp32_44: "round_pos Float64 (11751161 / 17592186044416) = Fin (11751161 / 17592186044416)"
  by (simp add: round_pos_eval [where ?e0.0 = "-21"] eval_simps)

lemma exp32_45: "round_pos Float64 (70563365734360936277421 / 633825300114114700748351602688) = Fin (8411808697505109 / 75557863725914323419136)"
  by (simp add: round_pos_eval [where ?e0.0 = "-24"] eval_simps)

lemma exp32_46: "round_pos Float64 (37778940274765859214677 / 75557863725914323419136) = Fin (4503600630136235 / 9007199254740992)"
  by (simp add: round_pos_eval [where ?e0.0 = "-1"] eval_simps)

lemma exp32_47: "round_pos Float64 (52922536084432349418835 / 158456325028528675187087900672) = Fin (6308857927850765 / 18889465931478580854784)"
  by (simp add: round_pos_eval [where ?e0.0 = "-22"] eval_simps)

lemma exp32_48: "round_pos Float64 (18889472240336508705549 / 18889465931478580854784) = Fin (4503601131519439 / 4503599627370496)"
  by (simp add: round_pos_eval [where ?e0.0 = "0"] eval_simps)

lemma exp32_49: "round_pos Float64 (52922541976267102318679 / 79228162514264337593543950336) = Fin (788607328776525 / 1180591620717411303424)"
  by (simp add: round_pos_eval [where ?e0.0 = "-21"] eval_simps)

lemma exp32_50: "round_pos Float64 (1180592409324740079949 / 1180591620717411303424) = Fin (4503602635668717 / 4503599627370496)"
  by (simp add: round_pos_eval [where ?e0.0 = "0"] eval_simps)

lemma exp32_51: "round_pos Float64 (4503602635668717 / 6427752177035961102167848369364650410088811975131171341205504) = Fin (4503602635668717 / 6427752177035961102167848369364650410088811975131171341205504)"
  by (simp add: round_pos_eval [where ?e0.0 = "-150"] eval_simps)

lemma exp32_52: "round_pos Float32 (4503602635668717 / 6427752177035961102167848369364650410088811975131171341205504) = Fin (1 / 713623846352979940529142984724747568191373312)"
  by (simp add: round_pos_eval [where ?e0.0 = "-150"] eval_simps)

lemma exp32_53: "round_pos Float64 (56450692587488751372169 / 10141204801825835211973625643008) = Fin (6729446958004087 / 1208925819614629174706176)"
  by (simp add: round_pos_eval [where ?e0.0 = "-28"] eval_simps)

lemma exp32_54: "round_pos Float64 (50371915880056504153975 / 1208925819614629174706176) = Fin (1501200076343313 / 36028797018963968)"
  by (simp add: round_pos_eval [where ?e0.0 = "-5"] eval_simps)

lemma exp32_55: "round_pos Float64 (17640843790322562336393 / 633825300114114700748351602688) = Fin (8411809821282655 / 302231454903657293676544)"
  by (simp add: round_pos_eval [where ?e0.0 = "-26"] eval_simps)

lemma exp32_56: "round_pos Float64 (50371917562419367432543 / 302231454903657293676544) = Fin (3002400252963267 / 18014398509481984)"
  by (simp add: round_pos_eval [where ?e0.0 = "-3"] eval_simps)

lemma exp32_57: "round_pos Float64 (35281688759012077602987 / 316912650057057350374175801344) = Fin (4205905051113615 / 37778931862957161709568)"
  by (simp add: round_pos_eval [where ?e0.0 = "-24"] eval_simps)

lemma exp32_58: "round_pos Float64 (18889470137383631968399 / 37778931862957161709568) = Fin (2251800315068201 / 4503599627370496)"
  by (simp add: round_pos_eval [where ?e0.0 = "-1"] eval_simps)

lemma exp32_59: "round_pos Float64 (26461268042217155931361 / 79228162514264337593543950336) = Fin (6308857927850999 / 18889465931478580854784)"
  by (simp add: round_pos_eval [where ?e0.0 = "-22"] eval_simps)

lemma exp32_60: "round_pos Float64 (18889472240336508705783 / 18889465931478580854784) = Fin (4503601131519439 / 4503599627370496)"
  by (simp add: round_pos_eval [where ?e0.0 = "0"] eval_simps)

lemma exp32_61: "round_pos Float64 (43010051495229525414565 / 324518553658426726783156020576256) = Fin (5127197682288829 / 38685626227668133590597632)"
  by (simp add: round_pos_eval [where ?e0.0 = "-33"] eval_simps)

lemma exp32_62: "round_pos Float64 (53730041554514536548541 / 38685626227668133590597632) = Fin (400320005077977 / 288230376151711744)"
  by (simp add: round_pos_eval [where ?e0.0 = "-10"] eval_simps)

lemma exp32_63: "round_pos Float64 (4704224831192125281297 / 5070602400912917605986812821504) = Fin (4486298400108457 / 4835703278458516698824704)"
  by (simp add: round_pos_eval [where ?e0.0 = "-31"] eval_simps)

lemma exp32_64: "round_pos Float64 (40297531806786038706089 / 4835703278458516698824704) = Fin (2401920068668487 / 288230376151711744)"
  by (simp add: round_pos_eval [where ?e0.0 = "-7"] eval_simps)

lemma exp32_65: "round_pos Float64 (28225349436054446363407 / 5070602400912917605986812821504) = Fin (3364723853594595 / 604462909807314587353088)"
  by (simp add: round_pos_eval [where ?e0.0 = "-28"] eval_simps)

lemma exp32_66: "round_pos Float64 (25185957940028626669539 / 604462909807314587353088) = Fin (6004800305373341 / 144115188075855872)"
  by (simp add: round_pos_eval [where ?e0.0 = "-5"] eval_simps)

lemma exp32_67: "round_pos Float64 (70563375161291295198901 / 2535301200456458802993406410752) = Fin (2102952455320695 / 75557863725914323419136)"
  by (simp add: round_pos_eval [where ?e0.0 = "-26"] eval_simps)

lemma exp32_68: "round_pos Float64 (12592979390604841858167 / 75557863725914323419136) = Fin (3002400252963267 / 18014398509481984)"
  by (simp add: round_pos_eval [where ?e0.0 = "-3"] eval_simps)

lemmas exp32_steps = exp32_1 exp32_2 exp32_3 exp32_4 exp32_5 exp32_6 exp32_7 exp32_8 exp32_9 exp32_10 exp32_11 exp32_12 exp32_13 exp32_14 exp32_15 exp32_16 exp32_17 exp32_18 exp32_19 exp32_20 exp32_21 exp32_22 exp32_23 exp32_24 exp32_25 exp32_26 exp32_27 exp32_28 exp32_29 exp32_30 exp32_31 exp32_32 exp32_33 exp32_34 exp32_35 exp32_36 exp32_37 exp32_38 exp32_39 exp32_40 exp32_41 exp32_42 exp32_43 exp32_44 exp32_45 exp32_46 exp32_47 exp32_48 exp32_49 exp32_50 exp32_51 exp32_52 exp32_53 exp32_54 exp32_55 exp32_56 exp32_57 exp32_58 exp32_59 exp32_60 exp32_61 exp32_62 exp32_63 exp32_64 exp32_65 exp32_66 exp32_67 exp32_68

lemma Exp32_over_1: "Exp Float32 (Fin (11629079 / 131072)) PrecisionFast = Fin 340279851902147610656242037972608745472"
  by (simp add: Exp_def fne_def IsInf_def fgt_def maxLogFloat64_def minLogFloat64_def
      expPoly_def normalizePrecision_def IsValid_def PrecisionAuto_def PrecisionFast_def
      PrecisionBalanced_def PrecisionHigh_def fadd_Fin fsub_Fin fmul_Fin const_def of_go_int_def
      invLn2_def ln2_def Float64frombits_pow2_128 exp32_steps eval_simps floor_rat_neg_numeral_div)

lemma Exp32_over_2: "Exp Float32 (Fin (11629079 / 131072)) PrecisionBalanced = Fin 340279851902147610656242037972608745472"
  by (simp add: Exp_def fne_def IsInf_def fgt_def maxLogFloat64_def minLogFloat64_def
      expPoly_def normalizePrecision_def IsValid_def PrecisionAuto_def PrecisionFast_def
      PrecisionBalanced_def PrecisionHigh_def fadd_Fin fsub_Fin fmul_Fin const_def of_go_int_def
      invLn2_def ln2_def Float64frombits_pow2_128 exp32_steps eval_simps floor_rat_neg_numeral_div)

lemma Exp32_over_3: "Exp Float32 (Fin (11629079 / 131072)) PrecisionHigh = Fin 340279851902147610656242037972608745472"
  by (simp add: Exp_def fne_def IsInf_def fgt_def maxLogFloat64_def minLogFloat64_def
      expPoly_def normalizePrecision_def IsValid_def PrecisionAuto_def PrecisionFast_def
      PrecisionBalanced_def PrecisionHigh_def fadd_Fin fsub_Fin fmul_Fin const_def of_go_int_def
      invLn2_def ln2_def Float64frombits_pow2_128 exp32_steps eval_simps floor_rat_neg_numeral_div)

lemma Exp32_under_1: "Exp Float32 (Fin (- (3406957 / 32768))) PrecisionFast = Fin (1 / 713623846352979940529142984724747568191373312)"
  by (simp add: Exp_def fne_def IsInf_def fgt_def maxLogFloat64_def minLogFloat64_def
      expPoly_def normalizePrecision_def IsValid_def PrecisionAuto_def PrecisionFast_def
      PrecisionBalanced_def PrecisionHigh_def fadd_Fin fsub_Fin fmul_Fin const_def of_go_int_def
      invLn2_def ln2_def Float64frombits_pow2_m150 exp32_steps eval_simps floor_rat_neg_numeral_div)

lemma Exp32_under_2: "Exp Float32 (Fin (- (3406957 / 32768))) PrecisionBalanced = Fin (1 / 713623846352979940529142984724747568191373312)"
  by (simp add: Exp_def fne_def IsInf_def fgt_def maxLogFloat64_def minLogFloat64_def
      expPoly_def normalizePrecision_def IsValid_def PrecisionAuto_def PrecisionFast_def
      PrecisionBalanced_def PrecisionHigh_def fadd_Fin fsub_Fin fmul_Fin const_def of_go_int_def
      invLn2_def ln2_def Float64frombits_pow2_m150 exp32_steps eval_simps floor_rat_neg_numeral_div)

lemma Exp32_under_3: "Exp Float32 (Fin (- (3406957 / 32768))) PrecisionHigh = Fin (1 / 713623846352979940529142984724747568191373312)"
  by (simp add: Exp_def fne_def IsInf_def fgt_def maxLogFloat64_def minLogFloat64_def
      expPoly_def normalizePrecision_def IsValid_def PrecisionAuto_def PrecisionFast_def
      PrecisionBalanced_def PrecisionHigh_def fadd_Fin fsub_Fin fmul_Fin const_def of_go_int_def
      invLn2_def ln2_def Float64frombits_pow2_m150 exp32_steps eval_simps floor_rat_neg_numeral_div)

lemma normalizePrecision_cases:
  "normalizePrecision p = PrecisionFast \<or> normalizePrecision p = PrecisionBalanced \<or>
   normalizePrecision p = PrecisionHigh"
  by (simp add: normalizePrecision_def IsValid_def PrecisionAuto_def PrecisionFast_def
      PrecisionBalanced_def PrecisionHigh_def)

lemma normalizePrecision_idem: "normalizePrecision (normalizePrecision p) = normalizePrecision p"
  by (simp add: normalizePrecision_def IsValid_def PrecisionAuto_def PrecisionFast_def
      PrecisionBalanced_def PrecisionHigh_def)

lemma Exp_normalize: "Exp T x p = Exp T x (normalizePrecision p)"
  by (simp only: Exp_def normalizePrecision_idem)

lemma Float32frombits_thresholds:
  "Float32frombits 0x42B17218 = Fin (11629080 / 131072)"
  "Float32frombits 0xC2CFF1B5 = Fin (- (13627829 / 131072))"
  "Float32frombits 0x42B17217 = Fin (11629079 / 131072)"
  "Float32frombits 0xC2CFF1B4 = Fin (- (3406957 / 32768))"
  "Float32frombits 0x7F7FFF84 = Fin 340279851902147610656242037972608745472"
  "Float32frombits 0x00000001 = Fin (1 / 713623846352979940529142984724747568191373312)"
  by (simp_all add: Float32frombits_def decode_def Let_def pow2_def emin_def)

lemma Exp32_below_overflow:
  "Exp Float32 (Fin (11629079 / 131072)) p = Fin 340279851902147610656242037972608745472"
  using normalizePrecision_cases [of p] Exp_normalize [of Float32 "Fin (11629079 / 131072)" p]
    Exp32_over_1 Exp32_over_2 Exp32_over_3 by auto

lemma Exp32_above_underflow:
  "Exp Float32 (Fin (- (3406957 / 32768))) p = Fin (1 / 713623846352979940529142984724747568191373312)"
  using normalizePrecision_cases [of p] Exp_normalize [of Float32 "Fin (- (3406957 / 32768))" p]
    Exp32_under_1 Exp32_under_2 Exp32_under_3 by auto

text \<open>
  Claim C4.  For every precision value and both widths, \<^verbatim>\<open>Exp\<close> returns NaN on NaN,
  +Infinity on +Infinity and 0 on -Infinity.  For both widths it returns +Infinity on every
  input above \<^verbatim>\<open>maxLogFloat64\<close> and 0 on every input below \<^verbatim>\<open>minLogFloat64\<close>, the
  thresholds of \<^verbatim>\<open>float64\<close>, by its two clamps.  For \<^verbatim>\<open>float32\<close> it returns +Infinity on
  every input from \<open>88.72283935546875\<close> on (bit pattern \<^verbatim>\<open>0x42B17218\<close>, the least \<^verbatim>\<open>float32\<close>
  above \<open>ln MaxFloat32\<close>) and 0 on every input up to \<open>-103.97208404541016\<close> (bit pattern
  \<^verbatim>\<open>0xC2CFF1B5\<close>, the greatest \<^verbatim>\<open>float32\<close> below \<open>ln 2^-150\<close>): between these and the clamps
  the result comes from the polynomial, the scaling by \<open>2^k\<close> and the final conversion to
  \<^verbatim>\<open>float32\<close>.  The two thresholds are tight: on the neighbouring \<^verbatim>\<open>float32\<close> values
  \<^verbatim>\<open>0x42B17217\<close> and \<^verbatim>\<open>0xC2CFF1B4\<close> the result is finite (about \<open>3.4028e38\<close>) and not zero
  (\<open>2^-149\<close>), in every tier.
\<close>

theorem C4_exp_edge_cases:
  "Exp T NaN p = NaN \<and> Exp T PInf p = PInf \<and> Exp T NInf p = Fin 0 \<and>
   (fgt xo (const Float64 maxLogFloat64) \<longrightarrow> Exp T xo p = PInf) \<and>
   (flt xu (const Float64 minLogFloat64) \<longrightarrow> Exp T xu p = Fin 0) \<and>
   (fle (Float32frombits 0x42B17218) yo \<longrightarrow> Exp Float32 yo p = PInf) \<and>
   (fle yu (Float32frombits 0xC2CFF1B5) \<longrightarrow> Exp Float32 yu p = Fin 0) \<and>
   Exp Float32 (Float32frombits 0x42B17217) p = Float32frombits 0x7F7FFF84 \<and>
   Exp Float32 (Float32frombits 0xC2CFF1B4) p = Float32frombits 0x00000001"
proof -
  have "Exp T NaN p = NaN" "Exp T PInf p = PInf" "Exp T NInf p = Fin 0"
    by (simp_all add: Exp_def IsInf_def fne_def)
  then show ?thesis
    unfolding Float32frombits_thresholds
    using Exp_overflow [of xo T p] Exp_underflow [of xu T p] Exp32_overflow [of yo p]
      Exp32_underflow [of yu p] Exp32_below_overflow [of p] Exp32_above_underflow [of p] by blast
qed

theorem C4_exp_edge_cases_witness:
  "fgt (Fin 710) (const Float64 maxLogFloat64) \<and> flt (Fin (- 746)) (const Float64 minLogFloat64) \<and>
   fle (Float32frombits 0x42B17218) (Fin 100) \<and> fle (Fin (- 104)) (Float32frombits 0xC2CFF1B5) \<and>
   Exp Float32 (Fin 710) PrecisionFast = PInf \<and> Exp Float32 (Fin (- 746)) PrecisionFast = Fin 0 \<and>
   Exp Float32 (Fin 100) PrecisionFast = PInf \<and> Exp Float32 (Fin (- 104)) PrecisionFast = Fin 0"
  using C4_exp_edge_cases [of Float32 PrecisionFast "Fin 710" "Fin (- 746)" "Fin 100" "Fin (- 104)"]
  by (simp add: fgt_def fle_def maxLogFloat64_value minLogFloat64_value Float32frombits_thresholds)

end
